theory Spec2Isabelle
  imports Main "HOL-Library.Word"
begin

unbundle bit_operations_syntax

section \<open>Framebuffer resource management of GLOVE (framebuffer.cpp)\<close>

subsection \<open>Errors\<close>

text \<open>
  C++ has no checked failure for the faults below: they are undefined behaviour. The model
  makes each of them a value, so that no theorem silently reads through a null or dangling
  pointer or past the end of a buffer. A failed \<^verbatim>\<open>assert\<close> is a value as well.
\<close>

datatype error = NullPointer | DanglingPointer | OutOfBounds | AssertionFailed

subsection \<open>Stencil clear emulation\<close>

text \<open>
  \<^verbatim>\<open>uint8_t newStencilValue = (clearStencil & 0xFF) | ((oldStencilValue & 0xFF) & (~(stencilMaskFront & 0xFF)));\<close>
  \<open>clearStencil\<close> and \<open>stencilMaskFront\<close> are \<open>uint32_t\<close>, \<open>oldStencilValue\<close> is \<open>uint8_t\<close>:
  the expression is evaluated on 32 bits and truncated to 8 bits by the assignment.
\<close>

definition newStencilValue :: "32 word \<Rightarrow> 32 word \<Rightarrow> 8 word \<Rightarrow> 8 word" where
  "newStencilValue clearStencil stencilMaskFront oldStencilValue =
     ucast ((clearStencil AND 0xFF) OR
            (((ucast oldStencilValue :: 32 word) AND 0xFF) AND (NOT (stencilMaskFront AND 0xFF))))"

text \<open>
  \<open>Rect\<close> is the clear rectangle (fields \<open>x\<close>, \<open>y\<close>, \<open>width\<close>, \<open>height\<close> in the source).
  The class \<open>ImageRect\<close> is declared outside framebuffer.cpp. Its four coordinates are
  fields here; the results of its member functions are taken as parameters
  (\<open>ImageRectOps\<close>), so every theorem holds for whatever layout they compute.
\<close>

record Rect =
  rx :: int
  ry :: int
  rwidth :: int
  rheight :: int

record ImageRect =
  rect_x :: int
  rect_y :: int
  rect_width :: int
  rect_height :: int

text \<open>
  Modelled from the spec: the constructor of \<open>ImageRect\<close> is not under src/. It keeps the
  rectangle it is given; the element count and the alignment only enter the layout that
  the member functions compute.
\<close>

definition imageRectOf :: "Rect \<Rightarrow> ImageRect" where
  "imageRectOf clearRect =
     \<lparr>rect_x = rx clearRect, rect_y = ry clearRect,
      rect_width = rwidth clearRect, rect_height = rheight clearRect\<rparr>"

record ImageRectOps =
  GetPixelByteOffset :: "ImageRect \<Rightarrow> nat"
  GetRectAlignedRowInBytes :: "ImageRect \<Rightarrow> nat"
  GetStartRowIndex :: "ImageRect \<Rightarrow> nat \<Rightarrow> nat"
  GetRectBufferSize :: "ImageRect \<Rightarrow> nat"

text \<open>
  The inner loop over the columns of one row. \<open>dataPtr\<close> is the offset of the row in the host
  buffer; \<open>dataIndex\<close> is a \<open>uint32_t\<close>, so the product wraps at \<open>2 ^ 32\<close>. A store outside
  the buffer is \<open>OutOfBounds\<close>.
\<close>

function clearCols :: "32 word \<Rightarrow> 32 word \<Rightarrow> nat \<Rightarrow> int \<Rightarrow> nat \<Rightarrow> nat \<Rightarrow> 8 word list
     \<Rightarrow> error + 8 word list" where
  "clearCols clearStencil stencilMaskFront pixelByteOffset w dataPtr col dstData =
     (if int col < w then
        (let dataIndex = (col * pixelByteOffset) mod 2 ^ 32 in
         if dataPtr + dataIndex < length dstData then
           clearCols clearStencil stencilMaskFront pixelByteOffset w dataPtr (Suc col)
             (dstData[dataPtr + dataIndex :=
                newStencilValue clearStencil stencilMaskFront (dstData ! (dataPtr + dataIndex))])
         else Inl OutOfBounds)
      else Inr dstData)"
  by pat_completeness auto
termination
  by (relation "measure (\<lambda>(c, m, p, w, dp, col, d). nat (w - int col))") auto

text \<open>The outer loop over the rows: after each row \<open>dataPtr\<close> advances by \<open>dataRowStride\<close>.\<close>

function clearRows :: "32 word \<Rightarrow> 32 word \<Rightarrow> nat \<Rightarrow> int \<Rightarrow> int \<Rightarrow> nat \<Rightarrow> nat \<Rightarrow> nat
     \<Rightarrow> 8 word list \<Rightarrow> error + 8 word list" where
  "clearRows clearStencil stencilMaskFront pixelByteOffset w h dataRowStride dataPtr row dstData =
     (if int row < h then
        (case clearCols clearStencil stencilMaskFront pixelByteOffset w dataPtr 0 dstData of
           Inl e \<Rightarrow> Inl e
         | Inr dstData' \<Rightarrow>
             clearRows clearStencil stencilMaskFront pixelByteOffset w h dataRowStride
               (dataPtr + dataRowStride) (Suc row) dstData')
      else Inr dstData)"
  by pat_completeness auto
termination
  by (relation "measure (\<lambda>(c, m, p, w, h, s, dp, row, d). nat (h - int row))") auto

text \<open>
  The part of \<open>Framebuffer::UpdateClearDepthStencilTexture\<close> that works on the host buffer,
  from the allocation of \<open>dstData\<close> to the end of the loops. \<open>CopyPixelsToHost\<close> and
  \<open>CopyPixelsFromHost\<close> belong to the texture class: \<open>hostPixels\<close> is the byte that
  \<open>CopyPixelsToHost\<close> left at each offset of the freshly allocated buffer of
  \<open>dstByteSize\<close> bytes, and the result is the buffer handed to \<open>CopyPixelsFromHost\<close>.
  \<open>dataRowStride\<close> and \<open>dataCurrentRowIndex\<close> are \<open>uint32_t\<close>.
\<close>

definition clearHostBuffer ::
  "ImageRectOps \<Rightarrow> (nat \<Rightarrow> 8 word) \<Rightarrow> 32 word \<Rightarrow> 32 word \<Rightarrow> ImageRect \<Rightarrow> error + 8 word list" where
  "clearHostBuffer ops hostPixels clearStencil stencilMaskFront srcRect =
     (let dstRect = srcRect\<lparr>rect_x := 0, rect_y := 0\<rparr>;
          dstByteSize = GetRectBufferSize ops dstRect;
          dstData = map hostPixels [0..<dstByteSize];
          dataRowStride = GetRectAlignedRowInBytes ops dstRect mod 2 ^ 32;
          dataCurrentRowIndex = GetStartRowIndex ops dstRect dataRowStride mod 2 ^ 32
      in clearRows clearStencil stencilMaskFront (GetPixelByteOffset ops srcRect)
           (rect_width srcRect) (rect_height srcRect) dataRowStride dataCurrentRowIndex 0 dstData)"

text \<open>
  The offset in the host buffer of the stencil byte of pixel \<open>(row, col)\<close> of the rectangle,
  as the two loops compute it, and the size of the host buffer.
\<close>

definition pixelIndex :: "ImageRectOps \<Rightarrow> ImageRect \<Rightarrow> nat \<Rightarrow> nat \<Rightarrow> nat" where
  "pixelIndex ops srcRect row col =
     (let dstRect = srcRect\<lparr>rect_x := 0, rect_y := 0\<rparr>;
          dataRowStride = GetRectAlignedRowInBytes ops dstRect mod 2 ^ 32;
          dataCurrentRowIndex = GetStartRowIndex ops dstRect dataRowStride mod 2 ^ 32
      in dataCurrentRowIndex + row * dataRowStride + (col * GetPixelByteOffset ops srcRect) mod 2 ^ 32)"

definition hostBufferSize :: "ImageRectOps \<Rightarrow> ImageRect \<Rightarrow> nat" where
  "hostBufferSize ops srcRect = GetRectBufferSize ops (srcRect\<lparr>rect_x := 0, rect_y := 0\<rparr>)"

subsection \<open>Objects of the render-target graph\<close>

text \<open>
  Pointers are addresses (\<open>None\<close> is \<open>nullptr\<close>); objects that several framebuffers can reach
  live in a store (\<open>World\<close>), so that sharing and \<^verbatim>\<open>delete\<close> are visible. \<open>GLenum\<close> and
  object names are 32-bit values. Widths and heights are C \<open>int\<close>s that the code only copies
  and compares, never computes with: they are \<open>int\<close> here.
\<close>

type_synonym addr = nat
type_synonym GLenum = "32 word"
type_synonym VkFormat = nat

definition GL_NONE :: GLenum where "GL_NONE = 0"
definition GL_INVALID_VALUE :: GLenum where "GL_INVALID_VALUE = 0x0501"
definition GL_TEXTURE :: GLenum where "GL_TEXTURE = 0x1702"
definition GL_RENDERBUFFER :: GLenum where "GL_RENDERBUFFER = 0x8D41"
definition GL_FRAMEBUFFER_COMPLETE :: GLenum where "GL_FRAMEBUFFER_COMPLETE = 0x8CD5"
definition GL_FRAMEBUFFER_INCOMPLETE_ATTACHMENT :: GLenum where
  "GL_FRAMEBUFFER_INCOMPLETE_ATTACHMENT = 0x8CD6"
definition GL_FRAMEBUFFER_INCOMPLETE_MISSING_ATTACHMENT :: GLenum where
  "GL_FRAMEBUFFER_INCOMPLETE_MISSING_ATTACHMENT = 0x8CD7"
definition GL_FRAMEBUFFER_INCOMPLETE_DIMENSIONS :: GLenum where
  "GL_FRAMEBUFFER_INCOMPLETE_DIMENSIONS = 0x8CD9"
definition GL_COLOR_ATTACHMENT0 :: GLenum where "GL_COLOR_ATTACHMENT0 = 0x8CE0"
definition GL_DEPTH_ATTACHMENT :: GLenum where "GL_DEPTH_ATTACHMENT = 0x8D00"
definition GL_STENCIL_ATTACHMENT :: GLenum where "GL_STENCIL_ATTACHMENT = 0x8D20"
definition VK_FORMAT_UNDEFINED :: VkFormat where "VK_FORMAT_UNDEFINED = 0"

text \<open>
  Modelled from the spec: the classes \<open>Texture\<close>, \<open>Renderbuffer\<close> and \<open>Attachment\<close> are
  declared outside framebuffer.cpp. A texture has the state that framebuffer.cpp reads and
  writes through its accessors: dimensions, formats, the data-updated flag, the combined
  depth-stencil surface recorded on it and that surface's reference count (a surface is
  itself a texture). A renderbuffer wraps a texture. An attachment holds a name, a type
  (\<open>GL_NONE\<close>, \<open>GL_TEXTURE\<close> or \<open>GL_RENDERBUFFER\<close>) and, for the colour attachments of a
  window surface, a texture given at construction.
\<close>

record Texture =
  tWidth :: int
  tHeight :: int
  tInternalFormat :: GLenum
  tVkFormat :: VkFormat
  tDataUpdated :: bool
  tDepthStencilTexture :: "addr option"
  tDepthStencilTextureRefCount :: "32 word"

record Renderbuffer =
  rbTexture :: "addr option"

record Attachment =
  aName :: "32 word"
  aType :: GLenum
  aTexture :: "addr option"

text \<open>
  Modelled from the spec: \<open>vulkanAPI::RenderPass\<close> is declared outside framebuffer.cpp. It
  records the six clear and write flags, the formats and the begin-time clear parameters,
  and the render-pass object it built (\<open>rpHandle\<close>). Floats are stored and never
  computed with: they are their 32-bit patterns.
\<close>

record RenderPass =
  mColorClearEnabled :: bool
  mDepthClearEnabled :: bool
  mStencilClearEnabled :: bool
  mColorWriteEnabled :: bool
  mDepthWriteEnabled :: bool
  mStencilWriteEnabled :: bool
  rpColorFormat :: VkFormat
  rpDepthStencilFormat :: VkFormat
  rpHandle :: "nat option"
  rpClearArea :: "(int \<times> int \<times> 32 word \<times> 32 word) option"
  rpClearColorValue :: "32 word list"
  rpClearDepthValue :: "32 word"
  rpClearStencilValue :: "32 word"

text \<open>
  The store. \<open>textures\<close> and \<open>renderbuffers\<close> hold the live objects; \<open>mTextureArray\<close> and
  \<open>mRenderbufferArray\<close> are the object arrays of the context (\<open>GetObject(index)\<close>);
  \<open>deleted\<close> logs every \<^verbatim>\<open>delete\<close> of a texture, in order; \<open>nextTexture\<close> is the address
  that the next \<^verbatim>\<open>new Texture\<close> returns; \<open>vkNext\<close> is the identity of the next
  lower-level object (render pass or framebuffer) and \<open>vkDeleted\<close> logs the lower-level
  framebuffer objects that \<open>Release\<close> and \<open>Create\<close> delete.
\<close>

record World =
  textures :: "addr \<rightharpoonup> Texture"
  renderbuffers :: "addr \<rightharpoonup> Renderbuffer"
  mTextureArray :: "32 word \<Rightarrow> addr option"
  mRenderbufferArray :: "32 word \<Rightarrow> addr option"
  deleted :: "addr list"
  nextTexture :: addr
  vkNext :: nat
  vkDeleted :: "nat list"

text \<open>
  What the device and the format utilities answer, taken as parameters: the three
  renderability predicates of glUtils, the format chosen for a combined surface from the
  internal formats of the depth and stencil attachments (\<open>GlInternalFormatToVkFormat\<close>
  followed by \<open>FindSupportedDepthStencilFormat\<close>), the internal format of a surface of that
  format, the stencil bits that \<open>GlFormatToStorageBits\<close> reports for an internal format, and whether the construction of the lower-level object with a given identity
  succeeds.
\<close>

record Device =
  GlFormatIsColorRenderable :: "GLenum \<Rightarrow> bool"
  GlFormatIsDepthRenderable :: "GLenum \<Rightarrow> bool"
  GlFormatIsStencilRenderable :: "GLenum \<Rightarrow> bool"
  FindSupportedDepthStencilFormat :: "GLenum \<Rightarrow> GLenum \<Rightarrow> VkFormat"
  VkFormatToGlInternalformat :: "VkFormat \<Rightarrow> GLenum"
  StencilStorageBits :: "GLenum \<Rightarrow> int"
  vkCreateRenderPass :: "nat \<Rightarrow> bool"
  vkCreateFramebuffer :: "nat \<Rightarrow> addr list \<Rightarrow> bool"

text \<open>
  \<open>mEGLSurfaceInterface\<close> is the pointer to the surface interface, of which only
  \<open>nextImageIndex\<close> is read. \<open>mFramebuffers\<close> holds the identities of the lower-level
  framebuffer objects. \<open>fbWidth\<close> and \<open>fbHeight\<close> are what \<open>GetWidth\<close>, \<open>SetWidth\<close>,
  \<open>GetHeight\<close> and \<open>SetHeight\<close> read and write.
\<close>

record Framebuffer =
  mUpdated :: bool
  mSizeUpdated :: bool
  mDepthStencilTexture :: "addr option"
  mIsSystem :: bool
  mEGLSurfaceInterface :: "nat option"
  mCacheColorTexture :: "addr option"
  mCacheDepthTexture :: "addr option"
  mCacheStencilTexture :: "addr option"
  mCacheColorRenderbuffer :: "addr option"
  mCacheDepthRenderbuffer :: "addr option"
  mCacheStencilRenderbuffer :: "addr option"
  mAttachmentColors :: "Attachment list"
  mAttachmentDepth :: Attachment
  mAttachmentStencil :: Attachment
  mFramebuffers :: "nat list"
  mRenderPass :: RenderPass
  fbWidth :: int
  fbHeight :: int

text \<open>Dereferencing a texture or renderbuffer pointer.\<close>

definition deref :: "World \<Rightarrow> addr option \<Rightarrow> error + Texture" where
  "deref w p =
     (case p of
        None \<Rightarrow> Inl NullPointer
      | Some a \<Rightarrow> (case textures w a of None \<Rightarrow> Inl DanglingPointer | Some t \<Rightarrow> Inr t))"

definition rbGetTexture :: "World \<Rightarrow> addr option \<Rightarrow> error + addr option" where
  "rbGetTexture w p =
     (case p of
        None \<Rightarrow> Inl NullPointer
      | Some r \<Rightarrow>
          (case renderbuffers w r of None \<Rightarrow> Inl DanglingPointer | Some rb \<Rightarrow> Inr (rbTexture rb)))"

text \<open>
  Modelled from the spec: the accessors of framebuffer.h are not under src/. The colour
  accessors read the first colour attachment and answer \<open>0\<close> and \<open>GL_NONE\<close> when there is
  none; the depth and stencil accessors read the depth and the stencil attachment.
\<close>

definition GetColorAttachmentName :: "Framebuffer \<Rightarrow> 32 word" where
  "GetColorAttachmentName fb = (case mAttachmentColors fb of [] \<Rightarrow> 0 | a # _ \<Rightarrow> aName a)"

definition GetColorAttachmentType :: "Framebuffer \<Rightarrow> GLenum" where
  "GetColorAttachmentType fb = (case mAttachmentColors fb of [] \<Rightarrow> GL_NONE | a # _ \<Rightarrow> aType a)"

definition GetDepthAttachmentName :: "Framebuffer \<Rightarrow> 32 word" where
  "GetDepthAttachmentName fb = aName (mAttachmentDepth fb)"

definition GetDepthAttachmentType :: "Framebuffer \<Rightarrow> GLenum" where
  "GetDepthAttachmentType fb = aType (mAttachmentDepth fb)"

definition GetStencilAttachmentName :: "Framebuffer \<Rightarrow> 32 word" where
  "GetStencilAttachmentName fb = aName (mAttachmentStencil fb)"

definition GetStencilAttachmentType :: "Framebuffer \<Rightarrow> GLenum" where
  "GetStencilAttachmentType fb = aType (mAttachmentStencil fb)"

text \<open>\<open>Framebuffer::GetCurrentBufferIndex\<close>.\<close>

definition GetCurrentBufferIndex :: "Framebuffer \<Rightarrow> error + nat" where
  "GetCurrentBufferIndex fb =
     (if mIsSystem fb then
        (case mEGLSurfaceInterface fb of None \<Rightarrow> Inl NullPointer | Some nextImageIndex \<Rightarrow> Inr nextImageIndex)
      else Inr 0)"

text \<open>
  The part that the three \<open>Get...AttachmentTexture\<close> functions share for an off-screen
  framebuffer: a name of zero resolves to \<open>nullptr\<close>; a texture resolves through the cached
  pointer when there is one and through the texture array otherwise; a renderbuffer
  likewise, followed by \<open>GetTexture()\<close>.
\<close>

definition resolveAttachment ::
  "World \<Rightarrow> 32 word \<Rightarrow> GLenum \<Rightarrow> addr option \<Rightarrow> addr option \<Rightarrow> error + addr option" where
  "resolveAttachment w index type cacheTexture cacheRenderbuffer =
     (if index \<noteq> 0 then
        (if type = GL_TEXTURE then
           (case cacheTexture of Some t \<Rightarrow> Inr (Some t) | None \<Rightarrow> Inr (mTextureArray w index))
         else if type = GL_RENDERBUFFER then
           (case cacheRenderbuffer of
              Some r \<Rightarrow> rbGetTexture w (Some r)
            | None \<Rightarrow> rbGetTexture w (mRenderbufferArray w index))
         else Inr None)
      else Inr None)"

definition GetColorAttachmentTexture :: "World \<Rightarrow> Framebuffer \<Rightarrow> error + addr option" where
  "GetColorAttachmentTexture w fb =
     (if mIsSystem fb then
        (case GetCurrentBufferIndex fb of
           Inl e \<Rightarrow> Inl e
         | Inr bufferIndex \<Rightarrow>
             (if bufferIndex < length (mAttachmentColors fb)
              then Inr (aTexture (mAttachmentColors fb ! bufferIndex))
              else Inl OutOfBounds))
      else resolveAttachment w (GetColorAttachmentName fb) (GetColorAttachmentType fb)
             (mCacheColorTexture fb) (mCacheColorRenderbuffer fb))"

definition GetDepthAttachmentTexture :: "World \<Rightarrow> Framebuffer \<Rightarrow> error + addr option" where
  "GetDepthAttachmentTexture w fb =
     (if mIsSystem fb then Inr (mDepthStencilTexture fb)
      else resolveAttachment w (GetDepthAttachmentName fb) (GetDepthAttachmentType fb)
             (mCacheDepthTexture fb) (mCacheDepthRenderbuffer fb))"

definition GetStencilAttachmentTexture :: "World \<Rightarrow> Framebuffer \<Rightarrow> error + addr option" where
  "GetStencilAttachmentTexture w fb =
     (if mIsSystem fb then Inr (mDepthStencilTexture fb)
      else resolveAttachment w (GetStencilAttachmentName fb) (GetStencilAttachmentType fb)
             (mCacheStencilTexture fb) (mCacheStencilRenderbuffer fb))"

text \<open>
  Modelled from the spec: the constructor of \<open>Attachment\<close> is not under src/.
  \<^verbatim>\<open>new Attachment()\<close> is the empty attachment: no name, type \<open>GL_NONE\<close>, no texture.
\<close>

definition emptyAttachment :: Attachment where
  "emptyAttachment = \<lparr>aName = 0, aType = GL_NONE, aTexture = None\<rparr>"

text \<open>\<open>Framebuffer::SetColorAttachment\<close>.\<close>

definition SetColorAttachment :: "World \<Rightarrow> Framebuffer \<Rightarrow> int \<Rightarrow> int \<Rightarrow> error + Framebuffer" where
  "SetColorAttachment w fb width height =
     (let fb1 = (if length (mAttachmentColors fb) = 0
                 then fb\<lparr>mAttachmentColors := mAttachmentColors fb @ [emptyAttachment]\<rparr>
                 else fb);
          fb2 = fb1\<lparr>fbWidth := width, fbHeight := height, mUpdated := True\<rparr>
      in case mDepthStencilTexture fb2 of
           None \<Rightarrow> Inr (fb2\<lparr>mSizeUpdated := True\<rparr>)
         | Some a \<Rightarrow>
             (case textures w a of
                None \<Rightarrow> Inl DanglingPointer
              | Some t \<Rightarrow>
                  Inr (fb2\<lparr>mSizeUpdated := (tWidth t \<noteq> fbWidth fb2 \<or> tHeight t \<noteq> fbHeight fb2)\<rparr>)))"

text \<open>
  \<open>Framebuffer::CheckStatus\<close>. \<open>badAttachment\<close> is one disjunct of the second test:
  the attachment has a type, and its texture (dereferenced without a null check) has a
  format that is not renderable, or a width or height that is not positive.
  \<open>dimensionsDiffer\<close> is one of the three pairwise tests. The disjuncts and the tests are
  evaluated in the order of the source, and stop at the first that decides.
\<close>

definition badAttachment ::
  "World \<Rightarrow> (GLenum \<Rightarrow> bool) \<Rightarrow> GLenum \<Rightarrow> error + addr option \<Rightarrow> error + bool" where
  "badAttachment w renderable type tex =
     (if type \<noteq> GL_NONE then
        (case tex of
           Inl e \<Rightarrow> Inl e
         | Inr p \<Rightarrow>
             (case deref w p of
                Inl e \<Rightarrow> Inl e
              | Inr t \<Rightarrow> Inr (\<not> renderable (tInternalFormat t) \<or> tWidth t \<le> 0 \<or> tHeight t \<le> 0)))
      else Inr False)"

definition dimensionsDiffer ::
  "World \<Rightarrow> GLenum \<Rightarrow> error + addr option \<Rightarrow> GLenum \<Rightarrow> error + addr option \<Rightarrow> error + bool" where
  "dimensionsDiffer w type1 tex1 type2 tex2 =
     (if type1 \<noteq> GL_NONE \<and> type2 \<noteq> GL_NONE then
        (case tex1 of
           Inl e \<Rightarrow> Inl e
         | Inr p1 \<Rightarrow>
             (case deref w p1 of
                Inl e \<Rightarrow> Inl e
              | Inr t1 \<Rightarrow>
                  (case tex2 of
                     Inl e \<Rightarrow> Inl e
                   | Inr p2 \<Rightarrow>
                       (case deref w p2 of
                          Inl e \<Rightarrow> Inl e
                        | Inr t2 \<Rightarrow> Inr (tWidth t1 \<noteq> tWidth t2 \<or> tHeight t1 \<noteq> tHeight t2)))))
      else Inr False)"

definition CheckStatus :: "Device \<Rightarrow> World \<Rightarrow> Framebuffer \<Rightarrow> error + GLenum" where
  "CheckStatus dev w fb =
     (let ctype = GetColorAttachmentType fb; ctex = GetColorAttachmentTexture w fb;
          dtype = GetDepthAttachmentType fb; dtex = GetDepthAttachmentTexture w fb;
          stype = GetStencilAttachmentType fb; stex = GetStencilAttachmentTexture w fb
      in if ctype = GL_NONE \<and> dtype = GL_NONE \<and> stype = GL_NONE
         then Inr GL_FRAMEBUFFER_INCOMPLETE_MISSING_ATTACHMENT
         else
           (case badAttachment w (GlFormatIsColorRenderable dev) ctype ctex of
              Inl e \<Rightarrow> Inl e
            | Inr True \<Rightarrow> Inr GL_FRAMEBUFFER_INCOMPLETE_ATTACHMENT
            | Inr False \<Rightarrow>
           (case badAttachment w (GlFormatIsDepthRenderable dev) dtype dtex of
              Inl e \<Rightarrow> Inl e
            | Inr True \<Rightarrow> Inr GL_FRAMEBUFFER_INCOMPLETE_ATTACHMENT
            | Inr False \<Rightarrow>
           (case badAttachment w (GlFormatIsStencilRenderable dev) stype stex of
              Inl e \<Rightarrow> Inl e
            | Inr True \<Rightarrow> Inr GL_FRAMEBUFFER_INCOMPLETE_ATTACHMENT
            | Inr False \<Rightarrow>
           (case dimensionsDiffer w ctype ctex dtype dtex of
              Inl e \<Rightarrow> Inl e
            | Inr True \<Rightarrow> Inr GL_FRAMEBUFFER_INCOMPLETE_DIMENSIONS
            | Inr False \<Rightarrow>
           (case dimensionsDiffer w ctype ctex stype stex of
              Inl e \<Rightarrow> Inl e
            | Inr True \<Rightarrow> Inr GL_FRAMEBUFFER_INCOMPLETE_DIMENSIONS
            | Inr False \<Rightarrow>
           (case dimensionsDiffer w dtype dtex stype stex of
              Inl e \<Rightarrow> Inl e
            | Inr True \<Rightarrow> Inr GL_FRAMEBUFFER_INCOMPLETE_DIMENSIONS
            | Inr False \<Rightarrow> Inr GL_FRAMEBUFFER_COMPLETE)))))))"

text \<open>
  \<open>Framebuffer::CacheAttachement\<close>, for a texture and for a renderbuffer, and
  \<open>Framebuffer::CleanCachedAttachment\<close>. The three tests of \<open>CacheAttachement\<close> are
  independent \<^verbatim>\<open>if\<close>s; \<open>CleanCachedAttachment\<close> is a \<^verbatim>\<open>switch\<close> with no default.
\<close>

definition CacheAttachementTexture :: "Framebuffer \<Rightarrow> addr option \<Rightarrow> 32 word \<Rightarrow> Framebuffer" where
  "CacheAttachementTexture fb bTexture index =
     (let fb1 = (if index = GetColorAttachmentName fb \<and> GL_TEXTURE = GetColorAttachmentType fb
                    \<and> mCacheColorTexture fb = None
                 then fb\<lparr>mCacheColorTexture := bTexture\<rparr> else fb);
          fb2 = (if index = GetDepthAttachmentName fb1 \<and> GL_TEXTURE = GetDepthAttachmentType fb1
                    \<and> mCacheDepthTexture fb1 = None
                 then fb1\<lparr>mCacheDepthTexture := bTexture\<rparr> else fb1)
      in if index = GetStencilAttachmentName fb2 \<and> GL_TEXTURE = GetStencilAttachmentType fb2
            \<and> mCacheStencilTexture fb2 = None
         then fb2\<lparr>mCacheStencilTexture := bTexture\<rparr> else fb2)"

definition CacheAttachementRenderbuffer :: "Framebuffer \<Rightarrow> addr option \<Rightarrow> 32 word \<Rightarrow> Framebuffer" where
  "CacheAttachementRenderbuffer fb bRenderbuffer index =
     (let fb1 = (if index = GetColorAttachmentName fb \<and> GL_RENDERBUFFER = GetColorAttachmentType fb
                    \<and> mCacheColorRenderbuffer fb = None
                 then fb\<lparr>mCacheColorRenderbuffer := bRenderbuffer\<rparr> else fb);
          fb2 = (if index = GetDepthAttachmentName fb1 \<and> GL_RENDERBUFFER = GetDepthAttachmentType fb1
                    \<and> mCacheDepthRenderbuffer fb1 = None
                 then fb1\<lparr>mCacheDepthRenderbuffer := bRenderbuffer\<rparr> else fb1)
      in if index = GetStencilAttachmentName fb2 \<and> GL_RENDERBUFFER = GetStencilAttachmentType fb2
            \<and> mCacheStencilRenderbuffer fb2 = None
         then fb2\<lparr>mCacheStencilRenderbuffer := bRenderbuffer\<rparr> else fb2)"

definition CleanCachedAttachment :: "Framebuffer \<Rightarrow> GLenum \<Rightarrow> Framebuffer" where
  "CleanCachedAttachment fb attachment =
     (if attachment = GL_COLOR_ATTACHMENT0 then
        (if GetColorAttachmentName fb \<noteq> 0 then
           (if GetColorAttachmentType fb = GL_TEXTURE then fb\<lparr>mCacheColorTexture := None\<rparr>
            else if GetColorAttachmentType fb = GL_RENDERBUFFER then fb\<lparr>mCacheColorRenderbuffer := None\<rparr>
            else fb)
         else fb)
      else if attachment = GL_DEPTH_ATTACHMENT then
        (if GetDepthAttachmentName fb \<noteq> 0 then
           (if GetDepthAttachmentType fb = GL_TEXTURE then fb\<lparr>mCacheDepthTexture := None\<rparr>
            else if GetDepthAttachmentType fb = GL_RENDERBUFFER then fb\<lparr>mCacheDepthRenderbuffer := None\<rparr>
            else fb)
         else fb)
      else if attachment = GL_STENCIL_ATTACHMENT then
        (if GetStencilAttachmentName fb \<noteq> 0 then
           (if GetStencilAttachmentType fb = GL_TEXTURE then fb\<lparr>mCacheStencilTexture := None\<rparr>
            else if GetStencilAttachmentType fb = GL_RENDERBUFFER then fb\<lparr>mCacheStencilRenderbuffer := None\<rparr>
            else fb)
         else fb)
      else fb)"

text \<open>\<open>Framebuffer::CheckForUpdatedResources\<close>.\<close>

definition CheckForUpdatedResources :: "World \<Rightarrow> Framebuffer \<Rightarrow> error + (World \<times> Framebuffer)" where
  "CheckForUpdatedResources w fb =
     (case GetColorAttachmentTexture w fb of
        Inl e \<Rightarrow> Inl e
      | Inr None \<Rightarrow> Inr (w, fb)
      | Inr (Some a) \<Rightarrow>
          (case textures w a of
             None \<Rightarrow> Inl DanglingPointer
           | Some t \<Rightarrow>
               (let fb1 = fb\<lparr>mUpdated := (mUpdated fb \<or> tDataUpdated t)\<rparr>;
                    fb2 = (if tWidth t \<noteq> fbWidth fb1 \<or> tHeight t \<noteq> fbHeight fb1
                           then fb1\<lparr>fbWidth := tWidth t, fbHeight := tHeight t, mSizeUpdated := True\<rparr>
                           else fb1)
                in Inr (w\<lparr>textures := (textures w)(a \<mapsto> t\<lparr>tDataUpdated := False\<rparr>)\<rparr>, fb2))))"

text \<open>
  \<open>Framebuffer::UpdateClearDepthStencilTexture\<close>. The format of the combined surface is
  read through \<open>mDepthStencilTexture\<close> without a null check; the source rectangle is built
  from the clear rectangle; the stencil bits of the format are asserted to be positive
  before the loops run.
\<close>

definition UpdateClearDepthStencilTexture ::
  "Device \<Rightarrow> ImageRectOps \<Rightarrow> World \<Rightarrow> Framebuffer \<Rightarrow> (nat \<Rightarrow> 8 word) \<Rightarrow> 32 word \<Rightarrow> 32 word \<Rightarrow> Rect
     \<Rightarrow> error + 8 word list" where
  "UpdateClearDepthStencilTexture dev ops w fb hostPixels clearStencil stencilMaskFront clearRect =
     (case deref w (mDepthStencilTexture fb) of
        Inl e \<Rightarrow> Inl e
      | Inr t \<Rightarrow>
          (let glFormat = VkFormatToGlInternalformat dev (tVkFormat t);
               srcRect = imageRectOf clearRect;
               stencilBits = StencilStorageBits dev glFormat
           in if stencilBits > 0
              then clearHostBuffer ops hostPixels clearStencil stencilMaskFront srcRect
              else Inl AssertionFailed))"

text \<open>
  \<^verbatim>\<open>delete\<close> of a texture removes it from the store and logs it; \<^verbatim>\<open>delete\<close> through a
  dangling pointer is a fault.
\<close>

definition deleteTexture :: "World \<Rightarrow> addr \<Rightarrow> error + World" where
  "deleteTexture w a =
     (case textures w a of
        None \<Rightarrow> Inl DanglingPointer
      | Some t \<Rightarrow> Inr (w\<lparr>textures := (textures w)(a := None), deleted := deleted w @ [a]\<rparr>))"

text \<open>
  Modelled from the spec: the constructor of \<open>Texture\<close> and the functions that increase and
  decrease the reference count are not under src/. A new texture has reference count zero
  and no combined surface recorded on it; the count is a 32-bit unsigned value.
\<close>

definition newTexture :: Texture where
  "newTexture = \<lparr>tWidth = 0, tHeight = 0, tInternalFormat = GL_INVALID_VALUE,
     tVkFormat = VK_FORMAT_UNDEFINED, tDataUpdated = False, tDepthStencilTexture = None,
     tDepthStencilTextureRefCount = 0\<rparr>"

definition IncreaseDepthStencilTextureRefCount :: "World \<Rightarrow> addr \<Rightarrow> error + World" where
  "IncreaseDepthStencilTextureRefCount w a =
     (case textures w a of
        None \<Rightarrow> Inl DanglingPointer
      | Some d \<Rightarrow>
          Inr (w\<lparr>textures := (textures w)(a \<mapsto>
                 d\<lparr>tDepthStencilTextureRefCount := tDepthStencilTextureRefCount d + 1\<rparr>)\<rparr>))"

definition DecreaseDepthStencilTextureRefCount :: "World \<Rightarrow> addr \<Rightarrow> error + World" where
  "DecreaseDepthStencilTextureRefCount w a =
     (case textures w a of
        None \<Rightarrow> Inl DanglingPointer
      | Some d \<Rightarrow>
          Inr (w\<lparr>textures := (textures w)(a \<mapsto>
                 d\<lparr>tDepthStencilTextureRefCount := tDepthStencilTextureRefCount d - 1\<rparr>)\<rparr>))"

text \<open>
  The internal format of an attachment texture, or \<open>GL_INVALID_VALUE\<close> when there is none:
  \<^verbatim>\<open>GetDepthAttachmentTexture() ? GetDepthAttachmentTexture()->GetInternalFormat() : GL_INVALID_VALUE\<close>.
\<close>

definition internalFormatOr :: "World \<Rightarrow> error + addr option \<Rightarrow> error + GLenum" where
  "internalFormatOr w tex =
     (case tex of
        Inl e \<Rightarrow> Inl e
      | Inr None \<Rightarrow> Inr GL_INVALID_VALUE
      | Inr (Some a) \<Rightarrow>
          (case textures w a of None \<Rightarrow> Inl DanglingPointer | Some t \<Rightarrow> Inr (tInternalFormat t)))"

text \<open>
  The second half of \<open>Framebuffer::CreateDepthStencilTexture\<close> (from \<^verbatim>\<open>new Texture\<close> on):
  a new surface is allocated at the framebuffer's width and height, in the format that
  the device supports for the attachments' formats; then, for an off-screen framebuffer
  with a depth attachment texture, the surface is recorded on that texture and its
  reference count is increased. The attachment accessors are evaluated again here, after
  \<open>mDepthStencilTexture\<close> has been replaced, as in the source. The internal format of the
  new surface is taken to be \<open>glformat\<close>.
\<close>

definition allocateDepthStencilTexture ::
  "Device \<Rightarrow> World \<Rightarrow> Framebuffer \<Rightarrow> error + (World \<times> Framebuffer)" where
  "allocateDepthStencilTexture dev w fb =
     (let a = nextTexture w;
          fb1 = fb\<lparr>mDepthStencilTexture := Some a\<rparr>;
          w1 = w\<lparr>textures := (textures w)(a \<mapsto> newTexture), nextTexture := Suc a\<rparr>
      in case internalFormatOr w1 (GetDepthAttachmentTexture w1 fb1) of
           Inl e \<Rightarrow> Inl e
         | Inr dfmt \<Rightarrow>
        (case internalFormatOr w1 (GetStencilAttachmentTexture w1 fb1) of
           Inl e \<Rightarrow> Inl e
         | Inr sfmt \<Rightarrow>
             (let vkformat = FindSupportedDepthStencilFormat dev dfmt sfmt;
                  glformat = VkFormatToGlInternalformat dev vkformat;
                  w2 = w1\<lparr>textures := (textures w1)(a \<mapsto>
                          newTexture\<lparr>tVkFormat := vkformat, tInternalFormat := glformat,
                                     tWidth := fbWidth fb1, tHeight := fbHeight fb1\<rparr>)\<rparr>
              in if mIsSystem fb1 then Inr (w2, fb1)
                 else
                   (case GetDepthAttachmentTexture w2 fb1 of
                      Inl e \<Rightarrow> Inl e
                    | Inr None \<Rightarrow> Inr (w2, fb1)
                    | Inr (Some t) \<Rightarrow>
                        (case textures w2 t of
                           None \<Rightarrow> Inl DanglingPointer
                         | Some tt \<Rightarrow>
                             (case IncreaseDepthStencilTextureRefCount
                                     (w2\<lparr>textures := (textures w2)(t \<mapsto>
                                            tt\<lparr>tDepthStencilTexture := Some a\<rparr>)\<rparr>) a of
                                Inl e \<Rightarrow> Inl e
                              | Inr w3 \<Rightarrow> Inr (w3, fb1)))))))"

text \<open>
  \<open>Framebuffer::CreateDepthStencilTexture\<close>. With a depth or stencil attachment texture:
  an off-screen framebuffer whose depth attachment texture has a combined surface
  recorded on it takes that surface and increases its reference count; otherwise the
  surface held so far, if any, is deleted and a new one is allocated.
\<close>

definition CreateDepthStencilTexture ::
  "Device \<Rightarrow> World \<Rightarrow> Framebuffer \<Rightarrow> error + (World \<times> Framebuffer)" where
  "CreateDepthStencilTexture dev w fb =
     (case GetDepthAttachmentTexture w fb of
        Inl e \<Rightarrow> Inl e
      | Inr dtex \<Rightarrow>
     (case (if dtex \<noteq> None then Inr True
            else (case GetStencilAttachmentTexture w fb of
                    Inl e \<Rightarrow> Inl e
                  | Inr stex \<Rightarrow> Inr (stex \<noteq> None))) of
        Inl e \<Rightarrow> Inl e
      | Inr False \<Rightarrow> Inr (w, fb)
      | Inr True \<Rightarrow>
          (case (if \<not> mIsSystem fb \<and> dtex \<noteq> None
                 then (case deref w dtex of
                         Inl e \<Rightarrow> Inl e
                       | Inr t \<Rightarrow> Inr (tDepthStencilTexture t))
                 else Inr None) of
             Inl e \<Rightarrow> Inl e
           | Inr (Some ds) \<Rightarrow>
               (case IncreaseDepthStencilTextureRefCount w ds of
                  Inl e \<Rightarrow> Inl e
                | Inr w1 \<Rightarrow> Inr (w1, fb\<lparr>mDepthStencilTexture := Some ds\<rparr>))
           | Inr None \<Rightarrow>
               (case (case mDepthStencilTexture fb of
                        None \<Rightarrow> Inr w
                      | Some old \<Rightarrow> deleteTexture w old) of
                  Inl e \<Rightarrow> Inl e
                | Inr w1 \<Rightarrow>
                    allocateDepthStencilTexture dev w1 (fb\<lparr>mDepthStencilTexture := None\<rparr>)))))"

text \<open>
  \<open>Framebuffer::Release\<close> and the destructor \<open>Framebuffer::~Framebuffer\<close>. The destructor
  deletes the render pass and the attachments (objects that no other framebuffer
  reaches), releases the combined surface of an off-screen framebuffer (deleted when its
  reference count is one, decremented otherwise) and calls \<open>Release\<close>.
\<close>

definition Release :: "World \<Rightarrow> Framebuffer \<Rightarrow> World \<times> Framebuffer" where
  "Release w fb = (w\<lparr>vkDeleted := vkDeleted w @ mFramebuffers fb\<rparr>, fb\<lparr>mFramebuffers := []\<rparr>)"

definition DestroyFramebuffer :: "World \<Rightarrow> Framebuffer \<Rightarrow> error + World" where
  "DestroyFramebuffer w fb =
     (case (case (if mIsSystem fb then None else mDepthStencilTexture fb) of
              None \<Rightarrow> Inr w
            | Some a \<Rightarrow>
                (case textures w a of
                   None \<Rightarrow> Inl DanglingPointer
                 | Some d \<Rightarrow>
                     if tDepthStencilTextureRefCount d = 1 then deleteTexture w a
                     else DecreaseDepthStencilTextureRefCount w a)) of
        Inl e \<Rightarrow> Inl e
      | Inr w1 \<Rightarrow> Inr (fst (Release w1 (fb\<lparr>mDepthStencilTexture := None\<rparr>))))"

text \<open>
  \<open>Framebuffer::CreateVkRenderPass\<close>. The six flags are stored in the render pass, then
  \<open>RenderPass::Create\<close> builds a new render-pass object from the colour format and the
  format of the combined surface (\<open>VK_FORMAT_UNDEFINED\<close> when there is none); its answer
  is the result.
\<close>

definition vkFormatOr :: "World \<Rightarrow> error + addr option \<Rightarrow> error + VkFormat" where
  "vkFormatOr w tex =
     (case tex of
        Inl e \<Rightarrow> Inl e
      | Inr None \<Rightarrow> Inr VK_FORMAT_UNDEFINED
      | Inr (Some a) \<Rightarrow>
          (case textures w a of None \<Rightarrow> Inl DanglingPointer | Some t \<Rightarrow> Inr (tVkFormat t)))"

definition CreateVkRenderPass ::
  "Device \<Rightarrow> World \<Rightarrow> Framebuffer \<Rightarrow> bool \<Rightarrow> bool \<Rightarrow> bool \<Rightarrow> bool \<Rightarrow> bool \<Rightarrow> bool
     \<Rightarrow> error + (bool \<times> World \<times> Framebuffer)" where
  "CreateVkRenderPass dev w fb clearColorEnabled clearDepthEnabled clearStencilEnabled
       writeColorEnabled writeDepthEnabled writeStencilEnabled =
     (let rp = (mRenderPass fb)\<lparr>mColorClearEnabled := clearColorEnabled,
                                 mDepthClearEnabled := clearDepthEnabled,
                                 mStencilClearEnabled := clearStencilEnabled,
                                 mColorWriteEnabled := writeColorEnabled,
                                 mDepthWriteEnabled := writeDepthEnabled,
                                 mStencilWriteEnabled := writeStencilEnabled\<rparr>
      in case vkFormatOr w (GetColorAttachmentTexture w fb) of
           Inl e \<Rightarrow> Inl e
         | Inr cfmt \<Rightarrow>
        (case vkFormatOr w (Inr (mDepthStencilTexture fb)) of
           Inl e \<Rightarrow> Inl e
         | Inr dsfmt \<Rightarrow>
             Inr (vkCreateRenderPass dev (vkNext w),
                  w\<lparr>vkNext := Suc (vkNext w)\<rparr>,
                  fb\<lparr>mRenderPass := rp\<lparr>rpColorFormat := cfmt, rpDepthStencilFormat := dsfmt,
                                          rpHandle := Some (vkNext w)\<rparr>\<rparr>)))"

text \<open>
  Modelled from the spec: \<open>GetColorAttachmentTexture(i)\<close>, with a slot index, is an
  accessor of framebuffer.h. It is the texture of colour slot \<open>i\<close>: the texture given to the
  attachment for a window surface, the resolved colour attachment otherwise.
\<close>

definition GetColorAttachmentTextureAt :: "World \<Rightarrow> Framebuffer \<Rightarrow> nat \<Rightarrow> error + addr option" where
  "GetColorAttachmentTextureAt w fb i =
     (if mIsSystem fb then
        (if i < length (mAttachmentColors fb) then Inr (aTexture (mAttachmentColors fb ! i))
         else Inl OutOfBounds)
      else GetColorAttachmentTexture w fb)"

text \<open>The image view of a texture is named by the address of the texture.\<close>

definition imageViewOf :: "World \<Rightarrow> addr option \<Rightarrow> error + addr list" where
  "imageViewOf w p =
     (case p of
        None \<Rightarrow> Inr []
      | Some a \<Rightarrow> (case textures w a of None \<Rightarrow> Inl DanglingPointer | Some t \<Rightarrow> Inr [a]))"

text \<open>
  The loop of \<open>Framebuffer::Create\<close>, from slot \<open>i\<close> on. Each round allocates a lower-level
  framebuffer object, collects the image views (colour, then combined surface) and asks
  the device to construct it; on failure the new object is deleted and the result is
  \<open>false\<close>, otherwise the object is appended to \<open>mFramebuffers\<close>. The counter is a
  \<open>uint32_t\<close>; the list of colour attachments has fewer than \<open>2 ^ 32\<close> entries.
\<close>

function CreateLoop :: "Device \<Rightarrow> World \<Rightarrow> Framebuffer \<Rightarrow> nat \<Rightarrow> error + (bool \<times> World \<times> Framebuffer)" where
  "CreateLoop dev w fb i =
     (if i < length (mAttachmentColors fb) then
        (let frameBuffer = vkNext w;
             w1 = w\<lparr>vkNext := Suc (vkNext w)\<rparr>
         in case GetColorAttachmentTextureAt w1 fb i of
              Inl e \<Rightarrow> Inl e
            | Inr ctex \<Rightarrow>
           (case imageViewOf w1 ctex of
              Inl e \<Rightarrow> Inl e
            | Inr cviews \<Rightarrow>
           (case imageViewOf w1 (mDepthStencilTexture fb) of
              Inl e \<Rightarrow> Inl e
            | Inr dsviews \<Rightarrow>
                (if \<not> vkCreateFramebuffer dev frameBuffer (cviews @ dsviews)
                 then Inr (False, w1\<lparr>vkDeleted := vkDeleted w1 @ [frameBuffer]\<rparr>, fb)
                 else CreateLoop dev w1 (fb\<lparr>mFramebuffers := mFramebuffers fb @ [frameBuffer]\<rparr>)
                        (Suc i)))))
      else Inr (True, w, fb))"
  by pat_completeness auto
termination
  by (relation "measure (\<lambda>(dev, w, fb, i). length (mAttachmentColors fb) - i)") auto

text \<open>\<open>Framebuffer::Create\<close>: \<open>Release\<close>, then the loop from slot \<open>0\<close>.\<close>

definition Create :: "Device \<Rightarrow> World \<Rightarrow> Framebuffer \<Rightarrow> error + (bool \<times> World \<times> Framebuffer)" where
  "Create dev w fb = (case Release w fb of (w1, fb1) \<Rightarrow> CreateLoop dev w1 fb1 0)"

text \<open>
  \<open>Framebuffer::CreateRenderPass\<close>. The results of \<open>CreateVkRenderPass\<close> and \<open>Create\<close>
  are not looked at. The clear rectangle, colour and depth-stencil values are stored in
  the render pass on every call.
\<close>

definition setClearParameters :: "Framebuffer \<Rightarrow> 32 word list \<Rightarrow> 32 word \<Rightarrow> 32 word \<Rightarrow> Rect \<Rightarrow> Framebuffer" where
  "setClearParameters fb colorValue depthValue stencilValue clearRect =
     fb\<lparr>mRenderPass := (mRenderPass fb)\<lparr>
          rpClearArea := Some (rx clearRect, ry clearRect,
                               word_of_int (rwidth clearRect), word_of_int (rheight clearRect)),
          rpClearColorValue := colorValue,
          rpClearDepthValue := depthValue,
          rpClearStencilValue := stencilValue\<rparr>\<rparr>"

definition CreateRenderPass ::
  "Device \<Rightarrow> World \<Rightarrow> Framebuffer \<Rightarrow> bool \<Rightarrow> bool \<Rightarrow> bool \<Rightarrow> bool \<Rightarrow> bool \<Rightarrow> bool
     \<Rightarrow> 32 word list \<Rightarrow> 32 word \<Rightarrow> 32 word \<Rightarrow> Rect \<Rightarrow> error + (World \<times> Framebuffer)" where
  "CreateRenderPass dev w fb clearColorEnabled clearDepthEnabled clearStencilEnabled
       writeColorEnabled writeDepthEnabled writeStencilEnabled
       colorValue depthValue stencilValue clearRect =
     (if mUpdated fb \<or> mSizeUpdated fb \<or>
         mColorClearEnabled (mRenderPass fb) \<noteq> clearColorEnabled \<or>
         mDepthClearEnabled (mRenderPass fb) \<noteq> clearDepthEnabled \<or>
         mStencilClearEnabled (mRenderPass fb) \<noteq> clearStencilEnabled \<or>
         mColorWriteEnabled (mRenderPass fb) \<noteq> writeColorEnabled \<or>
         mDepthWriteEnabled (mRenderPass fb) \<noteq> writeDepthEnabled \<or>
         mStencilWriteEnabled (mRenderPass fb) \<noteq> writeStencilEnabled
      then
        (case (if \<not> mIsSystem fb \<and> mSizeUpdated fb
               then (case CreateDepthStencilTexture dev w fb of
                       Inl e \<Rightarrow> Inl e
                     | Inr (w1, fb1) \<Rightarrow> Inr (w1, fb1\<lparr>mSizeUpdated := False\<rparr>))
               else Inr (w, fb)) of
           Inl e \<Rightarrow> Inl e
         | Inr (w1, fb1) \<Rightarrow>
        (case CreateVkRenderPass dev w1 fb1 clearColorEnabled clearDepthEnabled clearStencilEnabled
                writeColorEnabled writeDepthEnabled writeStencilEnabled of
           Inl e \<Rightarrow> Inl e
         | Inr (ok1, w2, fb2) \<Rightarrow>
        (case Create dev w2 fb2 of
           Inl e \<Rightarrow> Inl e
         | Inr (ok2, w3, fb3) \<Rightarrow>
             Inr (w3, setClearParameters (fb3\<lparr>mUpdated := False\<rparr>)
                        colorValue depthValue stencilValue clearRect))))
      else Inr (w, setClearParameters fb colorValue depthValue stencilValue clearRect))"

text \<open>
  Modelled from the spec: the constructor of \<open>vulkanAPI::RenderPass\<close> is not under src/. A new
  render pass has no flag set and has built no object.
\<close>

definition newRenderPass :: RenderPass where
  "newRenderPass = \<lparr>mColorClearEnabled = False, mDepthClearEnabled = False,
     mStencilClearEnabled = False, mColorWriteEnabled = False, mDepthWriteEnabled = False,
     mStencilWriteEnabled = False, rpColorFormat = VK_FORMAT_UNDEFINED,
     rpDepthStencilFormat = VK_FORMAT_UNDEFINED, rpHandle = None, rpClearArea = None,
     rpClearColorValue = [], rpClearDepthValue = 0, rpClearStencilValue = 0\<rparr>"

text \<open>
  The constructor \<open>Framebuffer::Framebuffer\<close>: the flags and pointers of its initialiser list,
  a new render pass and empty depth and stencil attachments.
\<close>

definition newFramebuffer :: Framebuffer where
  "newFramebuffer = \<lparr>mUpdated = True, mSizeUpdated = False, mDepthStencilTexture = None,
     mIsSystem = False, mEGLSurfaceInterface = None,
     mCacheColorTexture = None, mCacheDepthTexture = None, mCacheStencilTexture = None,
     mCacheColorRenderbuffer = None, mCacheDepthRenderbuffer = None,
     mCacheStencilRenderbuffer = None,
     mAttachmentColors = [], mAttachmentDepth = emptyAttachment,
     mAttachmentStencil = emptyAttachment, mFramebuffers = [], mRenderPass = newRenderPass,
     fbWidth = 0, fbHeight = 0\<rparr>"

text \<open>A sequence of calls of \<open>SetColorAttachment\<close>, each on the result of the one before.\<close>

fun SetColorAttachments :: "World \<Rightarrow> Framebuffer \<Rightarrow> (int \<times> int) list \<Rightarrow> error + Framebuffer" where
  "SetColorAttachments w fb [] = Inr fb"
| "SetColorAttachments w fb ((width, height) # sizes) =
     (case SetColorAttachment w fb width height of
        Inl e \<Rightarrow> Inl e
      | Inr fb' \<Rightarrow> SetColorAttachments w fb' sizes)"

subsection \<open>Notions used in the statements\<close>

text \<open>
  \<open>surfaceUsable\<close>: the pointer to the combined surface is null or points to a live texture.
  \<open>boundTexture\<close>: the live texture that an attachment resolves to. \<open>notRenderTarget\<close>: the
  format fails the renderability predicate, or the width or the height is not positive.
  \<open>badBound\<close>: the attachment has a type and is bound to such a texture. \<open>resolved\<close>: an
  attachment that has a type is bound to a live texture.
\<close>

definition surfaceUsable :: "World \<Rightarrow> Framebuffer \<Rightarrow> bool" where
  "surfaceUsable w fb = (case mDepthStencilTexture fb of None \<Rightarrow> True | Some a \<Rightarrow> textures w a \<noteq> None)"

definition boundTexture :: "World \<Rightarrow> error + addr option \<Rightarrow> Texture option" where
  "boundTexture w tex = (case tex of Inr (Some a) \<Rightarrow> textures w a | _ \<Rightarrow> None)"

definition notRenderTarget :: "(GLenum \<Rightarrow> bool) \<Rightarrow> Texture \<Rightarrow> bool" where
  "notRenderTarget renderable t \<longleftrightarrow> \<not> renderable (tInternalFormat t) \<or> tWidth t \<le> 0 \<or> tHeight t \<le> 0"

definition badBound :: "World \<Rightarrow> (GLenum \<Rightarrow> bool) \<Rightarrow> GLenum \<Rightarrow> error + addr option \<Rightarrow> bool" where
  "badBound w renderable type tex \<longleftrightarrow>
     type \<noteq> GL_NONE \<and> (case boundTexture w tex of None \<Rightarrow> False | Some t \<Rightarrow> notRenderTarget renderable t)"

definition resolved :: "World \<Rightarrow> GLenum \<Rightarrow> error + addr option \<Rightarrow> bool" where
  "resolved w type tex \<longleftrightarrow> type = GL_NONE \<or> boundTexture w tex \<noteq> None"

text \<open>The framebuffer with both cached pointers of a channel set to null.\<close>

definition clearedColorCache :: "Framebuffer \<Rightarrow> Framebuffer" where
  "clearedColorCache fb = fb\<lparr>mCacheColorTexture := None, mCacheColorRenderbuffer := None\<rparr>"
definition clearedDepthCache :: "Framebuffer \<Rightarrow> Framebuffer" where
  "clearedDepthCache fb = fb\<lparr>mCacheDepthTexture := None, mCacheDepthRenderbuffer := None\<rparr>"
definition clearedStencilCache :: "Framebuffer \<Rightarrow> Framebuffer" where
  "clearedStencilCache fb = fb\<lparr>mCacheStencilTexture := None, mCacheStencilRenderbuffer := None\<rparr>"

text \<open>
  \<open>slotViews\<close>: the image views that \<open>Create\<close> collects for colour slot \<open>i\<close>, when they can be
  collected. \<open>flagsAre\<close>: the six flags recorded in the render pass. \<open>combinedSurface\<close>: the
  surface that \<open>CreateDepthStencilTexture\<close> allocates, before it is shared. \<open>refCountOf\<close>:
  the reference count of a live surface.
\<close>

definition slotViews :: "World \<Rightarrow> Framebuffer \<Rightarrow> nat \<Rightarrow> addr list option" where
  "slotViews w fb i =
     (case GetColorAttachmentTextureAt w fb i of
        Inl e \<Rightarrow> None
      | Inr ctex \<Rightarrow>
          (case imageViewOf w ctex of
             Inl e \<Rightarrow> None
           | Inr cviews \<Rightarrow>
               (case imageViewOf w (mDepthStencilTexture fb) of
                  Inl e \<Rightarrow> None
                | Inr dsviews \<Rightarrow> Some (cviews @ dsviews))))"

definition flagsAre :: "Framebuffer \<Rightarrow> bool \<Rightarrow> bool \<Rightarrow> bool \<Rightarrow> bool \<Rightarrow> bool \<Rightarrow> bool \<Rightarrow> bool" where
  "flagsAre fb cc cd cs wc wd ws \<longleftrightarrow>
     mColorClearEnabled (mRenderPass fb) = cc \<and> mDepthClearEnabled (mRenderPass fb) = cd \<and>
     mStencilClearEnabled (mRenderPass fb) = cs \<and> mColorWriteEnabled (mRenderPass fb) = wc \<and>
     mDepthWriteEnabled (mRenderPass fb) = wd \<and> mStencilWriteEnabled (mRenderPass fb) = ws"

definition combinedSurface :: "Device \<Rightarrow> Framebuffer \<Rightarrow> GLenum \<Rightarrow> GLenum \<Rightarrow> Texture" where
  "combinedSurface dev fb dfmt sfmt =
     newTexture\<lparr>tVkFormat := FindSupportedDepthStencilFormat dev dfmt sfmt,
                tInternalFormat := VkFormatToGlInternalformat dev (FindSupportedDepthStencilFormat dev dfmt sfmt),
                tWidth := fbWidth fb, tHeight := fbHeight fb\<rparr>"

definition refCountOf :: "World \<Rightarrow> addr \<Rightarrow> 32 word option" where
  "refCountOf w a = map_option tDepthStencilTextureRefCount (textures w a)"

text \<open>
  \<open>apartFromSurface\<close>: the pointer is null, or it points to a live texture that is not
  the combined surface held by the framebuffer.
\<close>

definition apartFromSurface :: "World \<Rightarrow> Framebuffer \<Rightarrow> addr option \<Rightarrow> bool" where
  "apartFromSurface w fb p =
     (case p of None \<Rightarrow> True | Some a \<Rightarrow> textures w a \<noteq> None \<and> mDepthStencilTexture fb \<noteq> Some a)"

subsection \<open>Sample inputs\<close>

text \<open>
  Concrete inputs on which the model is evaluated: a host buffer in which every byte has
  the same value, a layout with tightly packed rows of \<open>bpp\<close> bytes per pixel, and two
  rectangles.
\<close>

definition uniformPixels :: "8 word \<Rightarrow> nat \<Rightarrow> 8 word" where
  "uniformPixels v i = v"

definition packedLayout :: "nat \<Rightarrow> ImageRectOps" where
  "packedLayout bpp =
     \<lparr>GetPixelByteOffset = (\<lambda>r. bpp),
      GetRectAlignedRowInBytes = (\<lambda>r. nat (rect_width r) * bpp),
      GetStartRowIndex = (\<lambda>r stride. nat (rect_y r) * stride + nat (rect_x r) * bpp),
      GetRectBufferSize = (\<lambda>r. nat (rect_height r) * (nat (rect_width r) * bpp))\<rparr>"

definition rect8x8 :: Rect where
  "rect8x8 = \<lparr>rx = 3, ry = 5, rwidth = 8, rheight = 8\<rparr>"

definition rect1x1 :: Rect where
  "rect1x1 = \<lparr>rx = 0, ry = 0, rwidth = 1, rheight = 1\<rparr>"

text \<open>
  A store with five textures, named \<open>1\<close> to \<open>5\<close> in the texture array; the same store in which
  texture \<open>4\<close> has the combined surface \<open>50\<close> recorded on it, with a given reference count; a
  device that constructs every lower-level object except the one with a given identity;
  framebuffers in the states that the theorems below evaluate; and projections of the
  results.
\<close>

definition textureAttachment :: "32 word \<Rightarrow> Attachment" where
  "textureAttachment n = \<lparr>aName = n, aType = GL_TEXTURE, aTexture = None\<rparr>"

definition renderbufferAttachment :: "32 word \<Rightarrow> Attachment" where
  "renderbufferAttachment n = \<lparr>aName = n, aType = GL_RENDERBUFFER, aTexture = None\<rparr>"

text \<open>
  A framebuffer whose colour attachment was the renderbuffer named \<open>1\<close>, cached by
  \<open>CacheAttachement\<close>, and is now the texture named \<open>1\<close>, cached in its turn, with no
  invalidation in between.
\<close>

definition staleCacheFramebuffer :: Framebuffer where
  "staleCacheFramebuffer =
     CacheAttachementTexture
       ((CacheAttachementRenderbuffer
           (newFramebuffer\<lparr>mAttachmentColors := [renderbufferAttachment 1]\<rparr>) (Some 20) 1)
        \<lparr>mAttachmentColors := [textureAttachment 1]\<rparr>)
       (Some 10) 1"

definition sampleTexture :: "int \<Rightarrow> int \<Rightarrow> Texture" where
  "sampleTexture width height = newTexture\<lparr>tWidth := width, tHeight := height, tInternalFormat := 0x8058\<rparr>"

definition sampleWorld :: World where
  "sampleWorld = \<lparr>textures = [1 \<mapsto> sampleTexture 256 256, 2 \<mapsto> sampleTexture 0 128,
                               3 \<mapsto> sampleTexture 512 512, 4 \<mapsto> sampleTexture 256 256,
                               5 \<mapsto> sampleTexture 512 512],
     renderbuffers = Map.empty,
     mTextureArray = [1 \<mapsto> 1, 2 \<mapsto> 2, 3 \<mapsto> 3, 4 \<mapsto> 4, 5 \<mapsto> 5],
     mRenderbufferArray = Map.empty,
     deleted = [], nextTexture = 100, vkNext = 10, vkDeleted = []\<rparr>"

definition sharedWorld :: "32 word \<Rightarrow> World" where
  "sharedWorld count = sampleWorld\<lparr>textures := (textures sampleWorld)
      (4 \<mapsto> (sampleTexture 256 256)\<lparr>tDepthStencilTexture := Some 50\<rparr>,
       50 \<mapsto> (sampleTexture 256 256)\<lparr>tDepthStencilTextureRefCount := count\<rparr>)\<rparr>"

definition sampleDevice :: "nat \<Rightarrow> Device" where
  "sampleDevice failing = \<lparr>GlFormatIsColorRenderable = (\<lambda>f. True),
     GlFormatIsDepthRenderable = (\<lambda>f. True), GlFormatIsStencilRenderable = (\<lambda>f. True),
     FindSupportedDepthStencilFormat = (\<lambda>d s. 129),
     VkFormatToGlInternalformat = (\<lambda>f. 0x88F0),
     StencilStorageBits = (\<lambda>f. 8),
     vkCreateRenderPass = (\<lambda>n. True),
     vkCreateFramebuffer = (\<lambda>n views. n \<noteq> failing)\<rparr>"

definition surfaceAttachment :: "addr \<Rightarrow> Attachment" where
  "surfaceAttachment a = \<lparr>aName = 0, aType = GL_TEXTURE, aTexture = Some a\<rparr>"

definition sampleRect :: Rect where
  "sampleRect = \<lparr>rx = 0, ry = 0, rwidth = 256, rheight = 256\<rparr>"

definition reboundFramebuffer :: Framebuffer where
  "reboundFramebuffer = newFramebuffer\<lparr>mAttachmentDepth := textureAttachment 5,
     mDepthStencilTexture := Some 50, mSizeUpdated := True, fbWidth := 512, fbHeight := 512\<rparr>"

definition surfaceFramebuffer :: Framebuffer where
  "surfaceFramebuffer = newFramebuffer\<lparr>mAttachmentDepth := textureAttachment 4,
     mDepthStencilTexture := Some 50, fbWidth := 256, fbHeight := 256\<rparr>"

definition deletedBy :: "error + (World \<times> Framebuffer) \<Rightarrow> addr list option" where
  "deletedBy r = (case r of Inl e \<Rightarrow> None | Inr (w, fb) \<Rightarrow> Some (deleted w))"

definition prepare :: "Device \<Rightarrow> error + (World \<times> Framebuffer) \<Rightarrow> error + (World \<times> Framebuffer)" where
  "prepare dev r =
     (case r of
        Inl e \<Rightarrow> Inl e
      | Inr (w, fb) \<Rightarrow> CreateRenderPass dev w fb True True True True True True [0, 0, 0, 0] 0 0 sampleRect)"

definition surfaceState ::
  "error + (World \<times> Framebuffer) \<Rightarrow> (bool \<times> int \<times> int \<times> addr option \<times> (int \<times> int \<times> 32 word) option \<times> addr) option" where
  "surfaceState r =
     (case r of
        Inl e \<Rightarrow> None
      | Inr (w, fb) \<Rightarrow>
          Some (mSizeUpdated fb, fbWidth fb, fbHeight fb, mDepthStencilTexture fb,
                (case mDepthStencilTexture fb of
                   None \<Rightarrow> None
                 | Some a \<Rightarrow> map_option (\<lambda>t. (tWidth t, tHeight t, tDepthStencilTextureRefCount t)) (textures w a)),
                nextTexture w))"

definition windowFramebuffer :: "addr list \<Rightarrow> Framebuffer" where
  "windowFramebuffer images = newFramebuffer\<lparr>mIsSystem := True, mEGLSurfaceInterface := Some 0,
     mAttachmentColors := map surfaceAttachment images, mFramebuffers := [7, 8],
     mUpdated := False, fbWidth := 256, fbHeight := 256\<rparr>"

definition createOutcome :: "error + (bool \<times> World \<times> Framebuffer) \<Rightarrow> (bool \<times> nat list \<times> nat list) option" where
  "createOutcome r =
     (case r of Inl e \<Rightarrow> None | Inr (ok, w, fb) \<Rightarrow> Some (ok, mFramebuffers fb, vkDeleted w))"

definition builtObjects :: "error + (World \<times> Framebuffer) \<Rightarrow> (nat list \<times> nat option) option" where
  "builtObjects r =
     (case r of Inl e \<Rightarrow> None | Inr (w, fb) \<Rightarrow> Some (mFramebuffers fb, rpHandle (mRenderPass fb)))"

definition staleWindowFramebuffer :: Framebuffer where
  "staleWindowFramebuffer = (windowFramebuffer [3])\<lparr>mSizeUpdated := True\<rparr>"

definition colorFramebuffer :: Framebuffer where
  "colorFramebuffer = newFramebuffer\<lparr>mAttachmentColors := [textureAttachment 1],
     fbWidth := 256, fbHeight := 256\<rparr>"

definition depthFramebuffer :: Framebuffer where
  "depthFramebuffer = newFramebuffer\<lparr>mAttachmentDepth := textureAttachment 4,
     fbWidth := 256, fbHeight := 256\<rparr>"

definition colorDepthFramebuffer :: Framebuffer where
  "colorDepthFramebuffer = newFramebuffer\<lparr>mAttachmentColors := [textureAttachment 1],
     mAttachmentDepth := textureAttachment 4, fbWidth := 256, fbHeight := 256\<rparr>"

definition mismatchedFramebuffer :: Framebuffer where
  "mismatchedFramebuffer = newFramebuffer\<lparr>mAttachmentColors := [textureAttachment 3],
     mAttachmentDepth := textureAttachment 2, fbWidth := 512, fbHeight := 512\<rparr>"

text \<open>
  A sequence of calls on two off-screen framebuffers that share the depth texture \<open>4\<close>.
  \<open>attach\<close> is \<open>SetColorAttachment\<close> on a framebuffer in the world reached so far,
  \<open>rebindBoth\<close> binds other textures to the colour and the depth attachment and calls
  \<open>CheckForUpdatedResources\<close>, \<open>statusOf\<close> is \<open>CheckStatus\<close> on the state reached,
  \<open>destroyBoth\<close> destroys the first framebuffer and then the second in the world of the
  second, \<open>destroyAfter\<close> destroys a framebuffer in the world that a call has produced, and
  \<open>surfaceLeft\<close> reads the reference count of a surface and the list of deleted textures.
  \<open>reboundResizedFramebuffer\<close> is a framebuffer of 256 by 256 that holds the surface \<open>50\<close>
  and whose colour and depth attachments are now the textures \<open>3\<close> and \<open>5\<close> of 512 by 512.
\<close>

definition boundFramebuffer :: Framebuffer where
  "boundFramebuffer = newFramebuffer\<lparr>mAttachmentColors := [textureAttachment 1],
     mAttachmentDepth := textureAttachment 4\<rparr>"

definition depthOnlyFramebuffer :: Framebuffer where
  "depthOnlyFramebuffer = newFramebuffer\<lparr>mAttachmentDepth := textureAttachment 4\<rparr>"

definition reboundResizedFramebuffer :: Framebuffer where
  "reboundResizedFramebuffer = newFramebuffer\<lparr>mAttachmentColors := [textureAttachment 3],
     mAttachmentDepth := textureAttachment 5, mDepthStencilTexture := Some 50,
     mUpdated := False, fbWidth := 256, fbHeight := 256\<rparr>"

definition attach ::
  "error + (World \<times> Framebuffer) \<Rightarrow> Framebuffer \<Rightarrow> int \<Rightarrow> int \<Rightarrow> error + (World \<times> Framebuffer)" where
  "attach r fb width height =
     (case r of
        Inl e \<Rightarrow> Inl e
      | Inr (w, other) \<Rightarrow>
          (case SetColorAttachment w fb width height of Inl e \<Rightarrow> Inl e | Inr fb' \<Rightarrow> Inr (w, fb')))"

definition rebindBoth ::
  "32 word \<Rightarrow> 32 word \<Rightarrow> error + (World \<times> Framebuffer) \<Rightarrow> error + (World \<times> Framebuffer)" where
  "rebindBoth c d r =
     (case r of
        Inl e \<Rightarrow> Inl e
      | Inr (w, fb) \<Rightarrow>
          CheckForUpdatedResources w
            (fb\<lparr>mAttachmentColors := [textureAttachment c], mAttachmentDepth := textureAttachment d\<rparr>))"

definition statusOf :: "Device \<Rightarrow> error + (World \<times> Framebuffer) \<Rightarrow> error + GLenum" where
  "statusOf dev r = (case r of Inl e \<Rightarrow> Inl e | Inr (w, fb) \<Rightarrow> CheckStatus dev w fb)"

definition destroyBoth ::
  "error + (World \<times> Framebuffer) \<Rightarrow> error + (World \<times> Framebuffer) \<Rightarrow> error + World" where
  "destroyBoth ra rb =
     (case ra of
        Inl e \<Rightarrow> Inl e
      | Inr (wa, fba) \<Rightarrow>
          (case rb of
             Inl e \<Rightarrow> Inl e
           | Inr (w, fbb) \<Rightarrow>
               (case DestroyFramebuffer w fba of Inl e \<Rightarrow> Inl e | Inr w1 \<Rightarrow> DestroyFramebuffer w1 fbb)))"

definition destroyAfter :: "error + (World \<times> Framebuffer) \<Rightarrow> Framebuffer \<Rightarrow> error + World" where
  "destroyAfter r fb = (case r of Inl e \<Rightarrow> Inl e | Inr (w, other) \<Rightarrow> DestroyFramebuffer w fb)"

definition surfaceLeft :: "error + World \<Rightarrow> addr \<Rightarrow> (32 word option \<times> addr list) option" where
  "surfaceLeft r a = (case r of Inl e \<Rightarrow> None | Inr w \<Rightarrow> Some (refCountOf w a, deleted w))"

text \<open>
  Framebuffer A has the colour texture \<open>1\<close> and the depth texture \<open>4\<close>, both 256 by 256:
  \<open>holderA1\<close> after \<open>SetColorAttachment\<close>, \<open>holderA2\<close> after the first \<open>CreateRenderPass\<close>,
  \<open>holderA3\<close> after its colour and its depth attachment have been rebound to the textures
  \<open>3\<close> and \<open>5\<close> of 512 by 512, \<open>holderA4\<close> after they have been rebound to \<open>1\<close> and \<open>4\<close>
  again with no \<open>CreateRenderPass\<close> in between, \<open>holderA5\<close> after the next
  \<open>CreateRenderPass\<close>. Framebuffer B has the depth texture \<open>4\<close> only: \<open>holderB1\<close> after
  \<open>SetColorAttachment\<close>, \<open>holderB2\<close> after its \<open>CreateRenderPass\<close>.
\<close>

definition holderA1 :: "error + (World \<times> Framebuffer)" where
  "holderA1 = attach (Inr (sampleWorld, boundFramebuffer)) boundFramebuffer 256 256"

definition holderA2 :: "error + (World \<times> Framebuffer)" where
  "holderA2 = prepare (sampleDevice 0) holderA1"

definition holderA3 :: "error + (World \<times> Framebuffer)" where
  "holderA3 = rebindBoth 3 5 holderA2"

definition holderA4 :: "error + (World \<times> Framebuffer)" where
  "holderA4 = rebindBoth 1 4 holderA3"

definition holderA5 :: "error + (World \<times> Framebuffer)" where
  "holderA5 = prepare (sampleDevice 0) holderA4"

definition holderB1 :: "error + (World \<times> Framebuffer)" where
  "holderB1 = attach holderA5 depthOnlyFramebuffer 256 256"

definition holderB2 :: "error + (World \<times> Framebuffer)" where
  "holderB2 = prepare (sampleDevice 0) holderB1"

text \<open>
  The other course of framebuffer A: \<open>grownA\<close> after a \<open>CreateRenderPass\<close> in the state
  \<open>holderA3\<close> (textures \<open>3\<close> and \<open>5\<close> of 512 by 512 bound), \<open>shrunkA\<close> after its colour and
  its depth attachment have then been rebound to the textures \<open>1\<close> and \<open>4\<close> of 256 by 256.
\<close>

definition grownA :: "error + (World \<times> Framebuffer)" where
  "grownA = prepare (sampleDevice 0) holderA3"

definition shrunkA :: "error + (World \<times> Framebuffer)" where
  "shrunkA = rebindBoth 1 4 grownA"

subsection \<open>Invariants of the clear loops\<close>

text \<open>
  \<open>stepd c m d0 d T\<close>: the buffer \<open>d\<close> has been obtained from \<open>d0\<close> by rewriting bytes with
  \<open>newStencilValue c m\<close>, and every offset in \<open>T\<close> has been rewritten. \<open>colset\<close> and
  \<open>rowset\<close> are the offsets visited by the inner loop from column \<open>col\<close> on and by the outer
  loop from row \<open>row\<close> on.
\<close>

definition stepd :: "32 word \<Rightarrow> 32 word \<Rightarrow> 8 word list \<Rightarrow> 8 word list \<Rightarrow> nat set \<Rightarrow> bool" where
  "stepd c m d0 d T \<longleftrightarrow> length d = length d0 \<and>
     (\<forall>i < length d0. d ! i = d0 ! i \<or> d ! i = newStencilValue c m (d0 ! i)) \<and>
     (\<forall>j \<in> T. j < length d0 \<and> d ! j = newStencilValue c m (d0 ! j))"

definition colset :: "nat \<Rightarrow> nat \<Rightarrow> nat \<Rightarrow> int \<Rightarrow> nat set" where
  "colset dp p col w = {i. \<exists>k. col \<le> k \<and> int k < w \<and> i = dp + (k * p) mod 2 ^ 32}"

definition rowset :: "nat \<Rightarrow> nat \<Rightarrow> nat \<Rightarrow> nat \<Rightarrow> int \<Rightarrow> int \<Rightarrow> nat set" where
  "rowset dp s p row h w =
     {i. \<exists>r k. row \<le> r \<and> int r < h \<and> int k < w \<and> i = dp + (r - row) * s + (k * p) mod 2 ^ 32}"

section \<open>Properties\<close>

declare clearCols.simps [simp del] clearRows.simps [simp del] CreateLoop.simps [simp del]

subsection \<open>The stencil byte written by the clear\<close>

lemma ff_mask: "(0xFF :: 32 word) = mask 8"
  by (simp add: mask_eq_exp_minus_1)

lemma newStencilValue_eq:
  "newStencilValue c m s = ucast c OR (s AND NOT (ucast m))"
  unfolding newStencilValue_def ff_mask
  by (rule bit_word_eqI) (auto simp: bit_simps)

lemma newStencilValue_idem:
  "newStencilValue c m (newStencilValue c m s) = newStencilValue c m s"
  unfolding newStencilValue_eq
  by (rule bit_word_eqI) (auto simp: bit_simps)

lemma newStencilValue_masked:
  "ucast c AND NOT (ucast m :: 8 word) = 0 \<Longrightarrow> newStencilValue c m s = (ucast c AND ucast m) OR (s AND NOT (ucast m))"
proof -
  assume h: "ucast c AND NOT (ucast m :: 8 word) = 0"
  have "ucast c OR (s AND NOT (ucast m)) = (ucast c AND ucast m) OR (s AND NOT (ucast m :: 8 word))"
  proof (rule bit_word_eqI)
    fix n assume "n < LENGTH(8)"
    from h have "\<not> bit (ucast c AND NOT (ucast m) :: 8 word) n" by simp
    then show "bit (ucast c OR (s AND NOT (ucast m))) n = bit ((ucast c AND ucast m) OR (s AND NOT (ucast m :: 8 word))) n"
      by (auto simp: bit_simps)
  qed
  then show ?thesis by (simp add: newStencilValue_eq)
qed

lemma stepd_upd:
  assumes "stepd c m d0 d T" "j < length d"
  shows "stepd c m d0 (d[j := newStencilValue c m (d ! j)]) (insert j T)"
  using assms unfolding stepd_def
  by (auto simp: nth_list_update newStencilValue_idem)

lemma stepd_mono: "stepd c m d0 d T \<Longrightarrow> S \<subseteq> T \<Longrightarrow> stepd c m d0 d S"
  unfolding stepd_def by auto

lemma stepd_refl: "stepd c m d d {}"
  unfolding stepd_def by simp

lemma stepd_length: "stepd c m d0 d T \<Longrightarrow> length d = length d0"
  unfolding stepd_def by simp

lemma colset_stop: "\<not> int col < w \<Longrightarrow> colset dp p col w = {}"
  unfolding colset_def by auto

lemma colset_step:
  assumes "int col < w"
  shows "colset dp p col w = insert (dp + (col * p) mod 2 ^ 32) (colset dp p (Suc col) w)"
proof (intro set_eqI iffI)
  fix i assume "i \<in> colset dp p col w"
  then obtain k where k: "col \<le> k" "int k < w" "i = dp + (k * p) mod 2 ^ 32"
    unfolding colset_def by blast
  show "i \<in> insert (dp + (col * p) mod 2 ^ 32) (colset dp p (Suc col) w)"
  proof (cases "k = col")
    case True with k show ?thesis by simp
  next
    case False
    with k have "Suc col \<le> k" by simp
    with k have "i \<in> colset dp p (Suc col) w" unfolding colset_def by blast
    then show ?thesis by simp
  qed
next
  fix i assume "i \<in> insert (dp + (col * p) mod 2 ^ 32) (colset dp p (Suc col) w)"
  then consider "i = dp + (col * p) mod 2 ^ 32" | "i \<in> colset dp p (Suc col) w" by blast
  then show "i \<in> colset dp p col w"
  proof cases
    case 1 with assms show ?thesis unfolding colset_def by blast
  next
    case 2
    then obtain k where "Suc col \<le> k" "int k < w" "i = dp + (k * p) mod 2 ^ 32"
      unfolding colset_def by blast
    then have "col \<le> k \<and> int k < w \<and> i = dp + (k * p) mod 2 ^ 32" by simp
    then show ?thesis unfolding colset_def by blast
  qed
qed

lemma rowset_stop: "\<not> int row < h \<Longrightarrow> rowset dp s p row h w = {}"
  unfolding rowset_def by auto

lemma row_shift: "Suc row \<le> r \<Longrightarrow> dp + (r - row) * s = dp + s + (r - Suc row) * (s::nat)"
proof -
  assume "Suc row \<le> r"
  then have "r - row = Suc (r - Suc row)" by simp
  then show ?thesis by simp
qed

lemma rowset_step:
  assumes "int row < h"
  shows "rowset dp s p row h w = colset dp p 0 w \<union> rowset (dp + s) s p (Suc row) h w"
proof (intro set_eqI iffI)
  fix i assume "i \<in> rowset dp s p row h w"
  then obtain r k where k: "row \<le> r" "int r < h" "int k < w"
      "i = dp + (r - row) * s + (k * p) mod 2 ^ 32"
    unfolding rowset_def by blast
  show "i \<in> colset dp p 0 w \<union> rowset (dp + s) s p (Suc row) h w"
  proof (cases "r = row")
    case True
    with k have "0 \<le> k \<and> int k < w \<and> i = dp + (k * p) mod 2 ^ 32" by simp
    then have "i \<in> colset dp p 0 w" unfolding colset_def by blast
    then show ?thesis by simp
  next
    case False
    with k have sr: "Suc row \<le> r" by simp
    with k row_shift[OF sr, of dp s]
    have "Suc row \<le> r \<and> int r < h \<and> int k < w \<and> i = dp + s + (r - Suc row) * s + (k * p) mod 2 ^ 32"
      by simp
    then have "i \<in> rowset (dp + s) s p (Suc row) h w" unfolding rowset_def by blast
    then show ?thesis by simp
  qed
next
  fix i assume "i \<in> colset dp p 0 w \<union> rowset (dp + s) s p (Suc row) h w"
  then consider "i \<in> colset dp p 0 w" | "i \<in> rowset (dp + s) s p (Suc row) h w" by blast
  then show "i \<in> rowset dp s p row h w"
  proof cases
    case 1
    then obtain k where "int k < w" "i = dp + (k * p) mod 2 ^ 32"
      unfolding colset_def by blast
    with assms have "row \<le> row \<and> int row < h \<and> int k < w \<and> i = dp + (row - row) * s + (k * p) mod 2 ^ 32"
      by simp
    then show ?thesis unfolding rowset_def by blast
  next
    case 2
    then obtain r k where k: "Suc row \<le> r" "int r < h" "int k < w"
       "i = dp + s + (r - Suc row) * s + (k * p) mod 2 ^ 32"
      unfolding rowset_def by blast
    with row_shift[OF k(1), of dp s]
    have "row \<le> r \<and> int r < h \<and> int k < w \<and> i = dp + (r - row) * s + (k * p) mod 2 ^ 32"
      by simp
    then show ?thesis unfolding rowset_def by blast
  qed
qed

lemma clearCols_stepd:
  "clearCols c m p w dp col d = Inr d' \<Longrightarrow> stepd c m d0 d T \<Longrightarrow>
   stepd c m d0 d' (T \<union> colset dp p col w)"
proof (induction c m p w dp col d arbitrary: T rule: clearCols.induct)
  case (1 c m p w dp col d)
  show ?case
  proof (cases "int col < w")
    case False
    with "1.prems" show ?thesis by (simp add: colset_stop clearCols.simps[of c m p w dp col d])
  next
    case True
    let ?j = "dp + (col * p) mod 2 ^ 32"
    from True "1.prems"(1) have inb: "?j < length d"
      by (simp add: Let_def clearCols.simps[of c m p w dp col d] split: if_splits)
    let ?d1 = "d[?j := newStencilValue c m (d ! ?j)]"
    from True inb "1.prems"(1) have rec: "clearCols c m p w dp (Suc col) ?d1 = Inr d'"
      by (simp add: Let_def clearCols.simps[of c m p w dp col d])
    have s1: "stepd c m d0 ?d1 (insert ?j T)" using stepd_upd[OF "1.prems"(2) inb] .
    have "stepd c m d0 d' (insert ?j T \<union> colset dp p (Suc col) w)"
      using "1.IH"[OF True refl inb rec s1] .
    then show ?thesis by (simp add: colset_step[OF True])
  qed
qed

lemma clearCols_length:
  assumes "clearCols c m p w dp col d = Inr d'"
  shows "length d' = length d"
  using clearCols_stepd[OF assms stepd_refl] by (rule stepd_length)

lemma clearCols_returns:
  "(\<forall>i \<in> colset dp p col w. i < length d) \<Longrightarrow>
   \<exists>d'. clearCols c m p w dp col d = Inr d'"
proof (induction c m p w dp col d rule: clearCols.induct)
  case (1 c m p w dp col d)
  show ?case
  proof (cases "int col < w")
    case False
    then show ?thesis by (simp add: clearCols.simps[of c m p w dp col d])
  next
    case True
    let ?j = "dp + (col * p) mod 2 ^ 32"
    from "1.prems" have inb: "?j < length d" by (simp add: colset_step[OF True])
    let ?d1 = "d[?j := newStencilValue c m (d ! ?j)]"
    have "\<forall>i \<in> colset dp p (Suc col) w. i < length ?d1"
      using "1.prems" by (simp add: colset_step[OF True])
    from "1.IH"[OF True refl inb this] obtain d' where
      "clearCols c m p w dp (Suc col) ?d1 = Inr d'" by blast
    with True inb show ?thesis by (simp add: Let_def clearCols.simps[of c m p w dp col d])
  qed
qed

lemma clearRows_stepd:
  "clearRows c m p w h s dp row d = Inr d' \<Longrightarrow> stepd c m d0 d T \<Longrightarrow>
   stepd c m d0 d' (T \<union> rowset dp s p row h w)"
proof (induction c m p w h s dp row d arbitrary: T rule: clearRows.induct)
  case (1 c m p w h s dp row d)
  show ?case
  proof (cases "int row < h")
    case False
    with "1.prems" show ?thesis by (simp add: rowset_stop clearRows.simps[of c m p w h s dp row d])
  next
    case True
    from True "1.prems"(1) obtain d1 where
      cols: "clearCols c m p w dp 0 d = Inr d1" and
      rec: "clearRows c m p w h s (dp + s) (Suc row) d1 = Inr d'"
      by (auto simp: clearRows.simps[of c m p w h s dp row d] split: sum.splits)
    have s1: "stepd c m d0 d1 (T \<union> colset dp p 0 w)"
      using clearCols_stepd[OF cols "1.prems"(2)] .
    have "stepd c m d0 d' (T \<union> colset dp p 0 w \<union> rowset (dp + s) s p (Suc row) h w)"
      using "1.IH"[OF True cols rec s1] .
    then show ?thesis by (simp add: rowset_step[OF True] Un_assoc)
  qed
qed

lemma clearRows_returns:
  "(\<forall>i \<in> rowset dp s p row h w. i < length d) \<Longrightarrow>
   \<exists>d'. clearRows c m p w h s dp row d = Inr d'"
proof (induction c m p w h s dp row d rule: clearRows.induct)
  case (1 c m p w h s dp row d)
  show ?case
  proof (cases "int row < h")
    case False
    then show ?thesis by (simp add: clearRows.simps[of c m p w h s dp row d])
  next
    case True
    have "\<forall>i \<in> colset dp p 0 w. i < length d"
      using "1.prems" by (simp add: rowset_step[OF True])
    from clearCols_returns[OF this] obtain d1 where
      cols: "clearCols c m p w dp 0 d = Inr d1" by blast
    have len: "length d1 = length d" using clearCols_length[OF cols] .
    have "\<forall>i \<in> rowset (dp + s) s p (Suc row) h w. i < length d1"
      using "1.prems" len by (simp add: rowset_step[OF True])
    from "1.IH"[OF True cols this] obtain d' where
      "clearRows c m p w h s (dp + s) (Suc row) d1 = Inr d'" by blast
    with True cols show ?thesis by (simp add: clearRows.simps[of c m p w h s dp row d])
  qed
qed

lemma pixelIndex_in_rowset:
  assumes "int row < rect_height r" "int col < rect_width r"
  shows "pixelIndex ops r row col \<in>
     rowset (GetStartRowIndex ops (r\<lparr>rect_x := 0, rect_y := 0\<rparr>)
               (GetRectAlignedRowInBytes ops (r\<lparr>rect_x := 0, rect_y := 0\<rparr>) mod 2 ^ 32) mod 2 ^ 32)
            (GetRectAlignedRowInBytes ops (r\<lparr>rect_x := 0, rect_y := 0\<rparr>) mod 2 ^ 32)
            (GetPixelByteOffset ops r) 0 (rect_height r) (rect_width r)"
  unfolding rowset_def pixelIndex_def Let_def using assms by force

lemma rowset_pixelIndex:
  assumes "i \<in> rowset (GetStartRowIndex ops (r\<lparr>rect_x := 0, rect_y := 0\<rparr>)
               (GetRectAlignedRowInBytes ops (r\<lparr>rect_x := 0, rect_y := 0\<rparr>) mod 2 ^ 32) mod 2 ^ 32)
            (GetRectAlignedRowInBytes ops (r\<lparr>rect_x := 0, rect_y := 0\<rparr>) mod 2 ^ 32)
            (GetPixelByteOffset ops r) 0 (rect_height r) (rect_width r)"
  shows "\<exists>row col. int row < rect_height r \<and> int col < rect_width r \<and> i = pixelIndex ops r row col"
  using assms unfolding rowset_def pixelIndex_def Let_def by force

lemma clearHostBuffer_pixels:
  assumes inb: "\<forall>row col. int row < rect_height r \<and> int col < rect_width r \<longrightarrow>
                  pixelIndex ops r row col < hostBufferSize ops r"
  shows "\<exists>out. clearHostBuffer ops hp c m r = Inr out \<and>
           length out = hostBufferSize ops r \<and>
           (\<forall>row col. int row < rect_height r \<and> int col < rect_width r \<longrightarrow>
              out ! pixelIndex ops r row col = newStencilValue c m (hp (pixelIndex ops r row col)))"
proof -
  let ?dst = "r\<lparr>rect_x := 0, rect_y := 0\<rparr>"
  let ?s = "GetRectAlignedRowInBytes ops ?dst mod 2 ^ 32"
  let ?dp = "GetStartRowIndex ops ?dst ?s mod 2 ^ 32"
  let ?p = "GetPixelByteOffset ops r"
  let ?d = "map hp [0..<hostBufferSize ops r]"
  let ?R = "rowset ?dp ?s ?p 0 (rect_height r) (rect_width r)"
  have U: "clearHostBuffer ops hp c m r =
        clearRows c m ?p (rect_width r) (rect_height r) ?s ?dp 0 ?d"
    by (simp add: clearHostBuffer_def Let_def hostBufferSize_def)
  have "\<forall>i \<in> ?R. i < length ?d"
  proof
    fix i assume "i \<in> ?R"
    from rowset_pixelIndex[OF this] inb show "i < length ?d" by auto
  qed
  from clearRows_returns[OF this] obtain out where
    out: "clearRows c m ?p (rect_width r) (rect_height r) ?s ?dp 0 ?d = Inr out" by blast
  have st: "stepd c m ?d out ({} \<union> ?R)"
    using clearRows_stepd[OF out stepd_refl] .
  have len: "length out = hostBufferSize ops r" using stepd_length[OF st] by simp
  have "\<forall>row col. int row < rect_height r \<and> int col < rect_width r \<longrightarrow>
              out ! pixelIndex ops r row col = newStencilValue c m (hp (pixelIndex ops r row col))"
  proof (intro allI impI)
    fix row col assume a: "int row < rect_height r \<and> int col < rect_width r"
    then have mem: "pixelIndex ops r row col \<in> ?R"
      using pixelIndex_in_rowset[of row r col ops] by blast
    from a inb have lt: "pixelIndex ops r row col < hostBufferSize ops r" by simp
    from st mem have "out ! pixelIndex ops r row col = newStencilValue c m (?d ! pixelIndex ops r row col)"
      unfolding stepd_def by simp
    with lt show "out ! pixelIndex ops r row col = newStencilValue c m (hp (pixelIndex ops r row col))"
      by simp
  qed
  with U out len show ?thesis by simp
qed

lemma UpdateClear_pixels:
  assumes surface: "deref w (mDepthStencilTexture fb) = Inr t"
    and bits: "0 < StencilStorageBits dev (VkFormatToGlInternalformat dev (tVkFormat t))"
    and inb: "\<forall>row col. int row < rheight clearRect \<and> int col < rwidth clearRect \<longrightarrow>
                  pixelIndex ops (imageRectOf clearRect) row col < hostBufferSize ops (imageRectOf clearRect)"
  shows "\<exists>out. UpdateClearDepthStencilTexture dev ops w fb hp c m clearRect = Inr out \<and>
           (\<forall>row col. int row < rheight clearRect \<and> int col < rwidth clearRect \<longrightarrow>
              out ! pixelIndex ops (imageRectOf clearRect) row col =
                newStencilValue c m (hp (pixelIndex ops (imageRectOf clearRect) row col)))"
proof -
  have U: "UpdateClearDepthStencilTexture dev ops w fb hp c m clearRect =
        clearHostBuffer ops hp c m (imageRectOf clearRect)"
    using surface bits by (simp add: UpdateClearDepthStencilTexture_def Let_def)
  have inb': "\<forall>row col. int row < rect_height (imageRectOf clearRect) \<and> int col < rect_width (imageRectOf clearRect) \<longrightarrow>
                  pixelIndex ops (imageRectOf clearRect) row col < hostBufferSize ops (imageRectOf clearRect)"
    using inb by (simp add: imageRectOf_def)
  from clearHostBuffer_pixels[OF inb', of hp c m] obtain out where
    o: "clearHostBuffer ops hp c m (imageRectOf clearRect) = Inr out"
       "\<forall>row col. int row < rect_height (imageRectOf clearRect) \<and> int col < rect_width (imageRectOf clearRect) \<longrightarrow>
              out ! pixelIndex ops (imageRectOf clearRect) row col =
                newStencilValue c m (hp (pixelIndex ops (imageRectOf clearRect) row col))"
    by blast
  from o(2) have "\<forall>row col. int row < rheight clearRect \<and> int col < rwidth clearRect \<longrightarrow>
              out ! pixelIndex ops (imageRectOf clearRect) row col =
                newStencilValue c m (hp (pixelIndex ops (imageRectOf clearRect) row col))"
    by (simp add: imageRectOf_def)
  with U o(1) show ?thesis by simp
qed

lemma packed_inb:
  "\<forall>row col. int row < rheight rect8x8 \<and> int col < rwidth rect8x8 \<longrightarrow>
     pixelIndex (packedLayout 4) (imageRectOf rect8x8) row col
       < hostBufferSize (packedLayout 4) (imageRectOf rect8x8)"
  by (auto simp: rect8x8_def imageRectOf_def pixelIndex_def packedLayout_def hostBufferSize_def)

lemma sample_surface:
  "deref (sharedWorld 1) (mDepthStencilTexture surfaceFramebuffer)
     = Inr ((sampleTexture 256 256)\<lparr>tDepthStencilTextureRefCount := 1\<rparr>)"
  "0 < StencilStorageBits (sampleDevice 0) (VkFormatToGlInternalformat (sampleDevice 0)
         (tVkFormat ((sampleTexture 256 256)\<lparr>tDepthStencilTextureRefCount := 1\<rparr>)))"
  by (simp_all add: deref_def surfaceFramebuffer_def newFramebuffer_def sharedWorld_def
        sampleWorld_def sampleDevice_def)

text \<open>
  Claim C1, as the code has it. When \<open>UpdateClearDepthStencilTexture\<close> runs with clear value
  \<open>c\<close> and front write mask \<open>m\<close> on a framebuffer that holds a live combined surface with
  stencil bits, and on a rectangle whose pixel offsets all lie in the host buffer, it
  returns, and the byte stored back for every pixel of the rectangle is \<open>c | (s & ~m)\<close> on
  the low 8 bits, where \<open>s\<close> is the byte read for that pixel: the bits that are clear in
  both the mask and the clear value keep their old value. The clear value is not masked by
  the code; the stored byte is \<open>(c & m) | (s & ~m)\<close> whenever the low 8 bits of \<open>c\<close> lie
  inside the mask.
\<close>

theorem stencil_clear_pixel_value:
  assumes surface: "deref w (mDepthStencilTexture fb) = Inr t"
    and bits: "0 < StencilStorageBits dev (VkFormatToGlInternalformat dev (tVkFormat t))"
    and inb: "\<forall>row col. int row < rheight clearRect \<and> int col < rwidth clearRect \<longrightarrow>
                  pixelIndex ops (imageRectOf clearRect) row col < hostBufferSize ops (imageRectOf clearRect)"
  shows "\<exists>out. UpdateClearDepthStencilTexture dev ops w fb hp c m clearRect = Inr out \<and>
           (\<forall>row col. int row < rheight clearRect \<and> int col < rwidth clearRect \<longrightarrow>
              out ! pixelIndex ops (imageRectOf clearRect) row col =
                ucast c OR (hp (pixelIndex ops (imageRectOf clearRect) row col) AND NOT (ucast m)) \<and>
              (ucast c AND NOT (ucast m) = (0 :: 8 word) \<longrightarrow>
                 out ! pixelIndex ops (imageRectOf clearRect) row col =
                   (ucast c AND ucast m) OR
                   (hp (pixelIndex ops (imageRectOf clearRect) row col) AND NOT (ucast m))))"
proof -
  from UpdateClear_pixels[OF surface bits inb, of hp c m] obtain out where
    o: "UpdateClearDepthStencilTexture dev ops w fb hp c m clearRect = Inr out"
       "\<forall>row col. int row < rheight clearRect \<and> int col < rwidth clearRect \<longrightarrow>
              out ! pixelIndex ops (imageRectOf clearRect) row col =
                newStencilValue c m (hp (pixelIndex ops (imageRectOf clearRect) row col))"
    by blast
  have "\<forall>row col. int row < rheight clearRect \<and> int col < rwidth clearRect \<longrightarrow>
              out ! pixelIndex ops (imageRectOf clearRect) row col =
                ucast c OR (hp (pixelIndex ops (imageRectOf clearRect) row col) AND NOT (ucast m)) \<and>
              (ucast c AND NOT (ucast m) = (0 :: 8 word) \<longrightarrow>
                 out ! pixelIndex ops (imageRectOf clearRect) row col =
                   (ucast c AND ucast m) OR
                   (hp (pixelIndex ops (imageRectOf clearRect) row col) AND NOT (ucast m)))"
    using o(2) newStencilValue_eq newStencilValue_masked by metis
  with o(1) show ?thesis by blast
qed

theorem stencil_clear_pixel_value_witness:
  "\<exists>out. UpdateClearDepthStencilTexture (sampleDevice 0) (packedLayout 4) (sharedWorld 1)
           surfaceFramebuffer (uniformPixels 0x3C) 0xA0 0xF0 rect8x8 = Inr out
         \<and> out ! 40 = 0xAC"
proof -
  from stencil_clear_pixel_value[OF sample_surface packed_inb, of "uniformPixels 0x3C" "0xA0" "0xF0"]
  obtain out where
    o: "UpdateClearDepthStencilTexture (sampleDevice 0) (packedLayout 4) (sharedWorld 1)
           surfaceFramebuffer (uniformPixels 0x3C) 0xA0 0xF0 rect8x8 = Inr out"
       "\<forall>row col. int row < rheight rect8x8 \<and> int col < rwidth rect8x8 \<longrightarrow>
          out ! pixelIndex (packedLayout 4) (imageRectOf rect8x8) row col =
            ucast (0xA0 :: 32 word) OR
            (uniformPixels 0x3C (pixelIndex (packedLayout 4) (imageRectOf rect8x8) row col)
               AND NOT (ucast (0xF0 :: 32 word)))"
    by blast
  from o(2)[rule_format, of 1 2] have "out ! 40 = 0xAC"
    by (simp add: rect8x8_def imageRectOf_def pixelIndex_def packedLayout_def uniformPixels_def)
  with o(1) show ?thesis by blast
qed

text \<open>
  Claim C1 as stated fails: with clear value \<open>0xA5\<close>, mask \<open>0x0F\<close> and old byte \<open>0\<close> the
  code stores \<open>0xA5\<close>, where \<open>(c & m) | (s & ~m)\<close> is \<open>0x05\<close>: the four bits outside the mask
  do not keep their old value.
\<close>

theorem stencil_clear_masked_counterexample:
  "UpdateClearDepthStencilTexture (sampleDevice 0) (packedLayout 1) (sharedWorld 1)
     surfaceFramebuffer (uniformPixels 0) 0xA5 0x0F rect1x1 = Inr [0xA5]
   \<and> (ucast (0xA5 :: 32 word) AND ucast (0x0F :: 32 word)) OR
       (uniformPixels 0 (pixelIndex (packedLayout 1) (imageRectOf rect1x1) 0 0) AND NOT (ucast (0x0F :: 32 word)))
     = (0x05 :: 8 word)"
  by (simp add: UpdateClearDepthStencilTexture_def clearHostBuffer_def packedLayout_def rect1x1_def
        imageRectOf_def uniformPixels_def clearRows.simps clearCols.simps newStencilValue_def
        pixelIndex_def deref_def surfaceFramebuffer_def newFramebuffer_def sharedWorld_def
        sampleWorld_def sampleDevice_def sampleTexture_def newTexture_def)

text \<open>
  Claim C8. For an 8 by 8 clear rectangle whose pixels all hold the old stencil value
  \<open>0x0F\<close>, on a framebuffer that holds a live combined surface with stencil bits, the clear
  with value \<open>0xA5\<close> and front write mask \<open>0xF0\<close> returns, and every pixel of the rectangle
  holds \<open>0xAF\<close> in the buffer that is written back.
\<close>

theorem stencil_clear_8x8:
  assumes surface: "deref w (mDepthStencilTexture fb) = Inr t"
    and bits: "0 < StencilStorageBits dev (VkFormatToGlInternalformat dev (tVkFormat t))"
    and size: "rwidth clearRect = 8" "rheight clearRect = 8"
    and inb: "\<forall>row col. row < 8 \<and> col < 8 \<longrightarrow>
       pixelIndex ops (imageRectOf clearRect) row col < hostBufferSize ops (imageRectOf clearRect)"
    and old: "\<forall>row col. row < 8 \<and> col < 8 \<longrightarrow> hp (pixelIndex ops (imageRectOf clearRect) row col) = 0x0F"
  shows "\<exists>out. UpdateClearDepthStencilTexture dev ops w fb hp 0xA5 0xF0 clearRect = Inr out \<and>
           (\<forall>row col. row < 8 \<and> col < 8 \<longrightarrow> out ! pixelIndex ops (imageRectOf clearRect) row col = 0xAF)"
proof -
  have inb': "\<forall>row col. int row < rheight clearRect \<and> int col < rwidth clearRect \<longrightarrow>
       pixelIndex ops (imageRectOf clearRect) row col < hostBufferSize ops (imageRectOf clearRect)"
    using size inb by simp
  from UpdateClear_pixels[OF surface bits inb', of hp "0xA5" "0xF0"] obtain out where
    o: "UpdateClearDepthStencilTexture dev ops w fb hp 0xA5 0xF0 clearRect = Inr out"
       "\<forall>row col. int row < rheight clearRect \<and> int col < rwidth clearRect \<longrightarrow>
              out ! pixelIndex ops (imageRectOf clearRect) row col =
                newStencilValue 0xA5 0xF0 (hp (pixelIndex ops (imageRectOf clearRect) row col))"
    by blast
  have v: "newStencilValue 0xA5 0xF0 0x0F = 0xAF" by (simp add: newStencilValue_def)
  have "\<forall>row col. row < 8 \<and> col < 8 \<longrightarrow> out ! pixelIndex ops (imageRectOf clearRect) row col = 0xAF"
    using o(2) old v size by simp
  with o(1) show ?thesis by blast
qed

theorem stencil_clear_8x8_witness:
  "\<exists>out. UpdateClearDepthStencilTexture (sampleDevice 0) (packedLayout 4) (sharedWorld 1)
           surfaceFramebuffer (uniformPixels 0x0F) 0xA5 0xF0 rect8x8 = Inr out
         \<and> out ! 0 = 0xAF \<and> out ! 252 = 0xAF"
proof -
  have w: "rwidth rect8x8 = 8" and h: "rheight rect8x8 = 8"
    by (simp_all add: rect8x8_def)
  have inb: "\<forall>row col. row < 8 \<and> col < 8 \<longrightarrow>
      pixelIndex (packedLayout 4) (imageRectOf rect8x8) row col
        < hostBufferSize (packedLayout 4) (imageRectOf rect8x8)"
    using packed_inb by (simp add: rect8x8_def)
  have old: "\<forall>row col. row < 8 \<and> col < 8 \<longrightarrow>
      uniformPixels 0x0F (pixelIndex (packedLayout 4) (imageRectOf rect8x8) row col) = 0x0F"
    by (simp add: uniformPixels_def)
  from stencil_clear_8x8[OF sample_surface w h inb old] obtain out where
    o: "UpdateClearDepthStencilTexture (sampleDevice 0) (packedLayout 4) (sharedWorld 1)
           surfaceFramebuffer (uniformPixels 0x0F) 0xA5 0xF0 rect8x8 = Inr out"
       "\<forall>row col. row < 8 \<and> col < 8 \<longrightarrow>
          out ! pixelIndex (packedLayout 4) (imageRectOf rect8x8) row col = 0xAF"
    by blast
  from o(2)[rule_format, of 0 0] have a: "out ! 0 = 0xAF"
    by (simp add: rect8x8_def imageRectOf_def pixelIndex_def packedLayout_def)
  from o(2)[rule_format, of 7 7] have b: "out ! 252 = 0xAF"
    by (simp add: rect8x8_def imageRectOf_def pixelIndex_def packedLayout_def)
  from o(1) a b show ?thesis by blast
qed

subsection \<open>Unfolding rules\<close>

lemmas GL_defs = GL_NONE_def GL_INVALID_VALUE_def GL_TEXTURE_def GL_RENDERBUFFER_def
  GL_FRAMEBUFFER_COMPLETE_def GL_FRAMEBUFFER_INCOMPLETE_ATTACHMENT_def
  GL_FRAMEBUFFER_INCOMPLETE_MISSING_ATTACHMENT_def GL_FRAMEBUFFER_INCOMPLETE_DIMENSIONS_def
  GL_COLOR_ATTACHMENT0_def GL_DEPTH_ATTACHMENT_def GL_STENCIL_ATTACHMENT_def VK_FORMAT_UNDEFINED_def

lemmas sample_defs = sampleTexture_def sampleWorld_def sharedWorld_def sampleDevice_def
  surfaceAttachment_def sampleRect_def newFramebuffer_def newRenderPass_def textureAttachment_def
  renderbufferAttachment_def emptyAttachment_def newTexture_def

lemma staleCacheFramebuffer_eval:
  "staleCacheFramebuffer = newFramebuffer\<lparr>mAttachmentColors := [textureAttachment 1],
     mCacheColorTexture := Some 10, mCacheColorRenderbuffer := Some 20\<rparr>"
  by (simp add: staleCacheFramebuffer_def CacheAttachementTexture_def CacheAttachementRenderbuffer_def
        GetColorAttachmentName_def GetColorAttachmentType_def
        GetDepthAttachmentName_def GetDepthAttachmentType_def
        GetStencilAttachmentName_def GetStencilAttachmentType_def
        newFramebuffer_def textureAttachment_def renderbufferAttachment_def emptyAttachment_def
        GL_NONE_def GL_TEXTURE_def GL_RENDERBUFFER_def Let_def)

lemmas getter_defs = GetColorAttachmentName_def GetColorAttachmentType_def
  GetDepthAttachmentName_def GetDepthAttachmentType_def
  GetStencilAttachmentName_def GetStencilAttachmentType_def
  GetColorAttachmentTexture_def GetDepthAttachmentTexture_def GetStencilAttachmentTexture_def
  GetCurrentBufferIndex_def resolveAttachment_def rbGetTexture_def deref_def

lemmas prepare_defs = prepare_def CreateRenderPass_def CreateDepthStencilTexture_def
  IncreaseDepthStencilTextureRefCount_def
  CreateVkRenderPass_def vkFormatOr_def Create_def Release_def CreateLoop.simps
  GetColorAttachmentTextureAt_def imageViewOf_def setClearParameters_def

subsection \<open>Frame properties of the accessors\<close>

lemma imageViewOf_frame [simp]:
  "imageViewOf (w\<lparr>vkNext := n\<rparr>) p = imageViewOf w p"
  "imageViewOf (w\<lparr>vkDeleted := l\<rparr>) p = imageViewOf w p"
  by (simp_all add: imageViewOf_def split: option.splits)

lemma rbGetTexture_frame [simp]:
  "rbGetTexture (w\<lparr>vkNext := n\<rparr>) p = rbGetTexture w p"
  "rbGetTexture (w\<lparr>vkDeleted := l\<rparr>) p = rbGetTexture w p"
  "rbGetTexture (w\<lparr>textures := tx\<rparr>) p = rbGetTexture w p"
  "rbGetTexture (w\<lparr>nextTexture := a\<rparr>) p = rbGetTexture w p"
  "rbGetTexture (w\<lparr>deleted := dl\<rparr>) p = rbGetTexture w p"
  by (simp_all add: rbGetTexture_def split: option.splits)

lemma resolveAttachment_frame [simp]:
  "resolveAttachment (w\<lparr>vkNext := n\<rparr>) ix ty ct cr = resolveAttachment w ix ty ct cr"
  "resolveAttachment (w\<lparr>vkDeleted := l\<rparr>) ix ty ct cr = resolveAttachment w ix ty ct cr"
  "resolveAttachment (w\<lparr>textures := tx\<rparr>) ix ty ct cr = resolveAttachment w ix ty ct cr"
  "resolveAttachment (w\<lparr>nextTexture := a\<rparr>) ix ty ct cr = resolveAttachment w ix ty ct cr"
  "resolveAttachment (w\<lparr>deleted := dl\<rparr>) ix ty ct cr = resolveAttachment w ix ty ct cr"
  by (simp_all add: resolveAttachment_def split: option.splits)

lemma GetColorAttachmentTexture_frame [simp]:
  "GetColorAttachmentTexture (w\<lparr>vkNext := n\<rparr>) fb = GetColorAttachmentTexture w fb"
  "GetColorAttachmentTexture (w\<lparr>vkDeleted := l\<rparr>) fb = GetColorAttachmentTexture w fb"
  "GetColorAttachmentTexture (w\<lparr>textures := tx\<rparr>) fb = GetColorAttachmentTexture w fb"
  "GetColorAttachmentTexture (w\<lparr>nextTexture := a\<rparr>) fb = GetColorAttachmentTexture w fb"
  "GetColorAttachmentTexture (w\<lparr>deleted := dl\<rparr>) fb = GetColorAttachmentTexture w fb"
  "GetColorAttachmentTexture w (fb\<lparr>mFramebuffers := fs\<rparr>) = GetColorAttachmentTexture w fb"
  "GetColorAttachmentTexture w (fb\<lparr>mDepthStencilTexture := ds\<rparr>) = GetColorAttachmentTexture w fb"
  "GetColorAttachmentTexture w (fb\<lparr>mSizeUpdated := su\<rparr>) = GetColorAttachmentTexture w fb"
  "GetColorAttachmentTexture w (fb\<lparr>mUpdated := u\<rparr>) = GetColorAttachmentTexture w fb"
  "GetColorAttachmentTexture w (fb\<lparr>mRenderPass := rp\<rparr>) = GetColorAttachmentTexture w fb"
  by (auto simp: GetColorAttachmentTexture_def GetCurrentBufferIndex_def
      GetColorAttachmentName_def GetColorAttachmentType_def split: option.splits)

lemma GetColorAttachmentTextureAt_frame [simp]:
  "GetColorAttachmentTextureAt (w\<lparr>vkNext := n\<rparr>) fb i = GetColorAttachmentTextureAt w fb i"
  "GetColorAttachmentTextureAt (w\<lparr>vkDeleted := l\<rparr>) fb i = GetColorAttachmentTextureAt w fb i"
  "GetColorAttachmentTextureAt w (fb\<lparr>mFramebuffers := fs\<rparr>) i = GetColorAttachmentTextureAt w fb i"
  by (simp_all add: GetColorAttachmentTextureAt_def)

lemma slotViews_frame [simp]:
  "slotViews (w\<lparr>vkNext := n\<rparr>) fb i = slotViews w fb i"
  "slotViews (w\<lparr>vkDeleted := l\<rparr>) fb i = slotViews w fb i"
  "slotViews w (fb\<lparr>mFramebuffers := fs\<rparr>) i = slotViews w fb i"
  by (simp_all add: slotViews_def split: sum.splits)

lemma GetDepthAttachmentTexture_frame [simp]:
  "GetDepthAttachmentTexture (w\<lparr>textures := tx\<rparr>) fb = GetDepthAttachmentTexture w fb"
  "GetDepthAttachmentTexture (w\<lparr>nextTexture := a\<rparr>) fb = GetDepthAttachmentTexture w fb"
  "GetDepthAttachmentTexture (w\<lparr>deleted := dl\<rparr>) fb = GetDepthAttachmentTexture w fb"
  "GetDepthAttachmentTexture (w\<lparr>vkNext := n\<rparr>) fb = GetDepthAttachmentTexture w fb"
  "GetDepthAttachmentTexture (w\<lparr>vkDeleted := l\<rparr>) fb = GetDepthAttachmentTexture w fb"
  by (simp_all add: GetDepthAttachmentTexture_def)

lemma GetStencilAttachmentTexture_frame [simp]:
  "GetStencilAttachmentTexture (w\<lparr>textures := tx\<rparr>) fb = GetStencilAttachmentTexture w fb"
  "GetStencilAttachmentTexture (w\<lparr>nextTexture := a\<rparr>) fb = GetStencilAttachmentTexture w fb"
  "GetStencilAttachmentTexture (w\<lparr>deleted := dl\<rparr>) fb = GetStencilAttachmentTexture w fb"
  "GetStencilAttachmentTexture (w\<lparr>vkNext := n\<rparr>) fb = GetStencilAttachmentTexture w fb"
  "GetStencilAttachmentTexture (w\<lparr>vkDeleted := l\<rparr>) fb = GetStencilAttachmentTexture w fb"
  by (simp_all add: GetStencilAttachmentTexture_def)

lemma offscreen_surface_frame:
  "\<not> mIsSystem fb \<Longrightarrow> GetDepthAttachmentTexture w (fb\<lparr>mDepthStencilTexture := d\<rparr>) = GetDepthAttachmentTexture w fb"
  "\<not> mIsSystem fb \<Longrightarrow> GetStencilAttachmentTexture w (fb\<lparr>mDepthStencilTexture := d\<rparr>) = GetStencilAttachmentTexture w fb"
  by (simp_all add: GetDepthAttachmentTexture_def GetStencilAttachmentTexture_def
        GetDepthAttachmentName_def GetDepthAttachmentType_def
        GetStencilAttachmentName_def GetStencilAttachmentType_def)

lemma internalFormatOr_fresh:
  assumes "textures w a = None" "internalFormatOr w x = Inr f"
  shows "internalFormatOr (w\<lparr>textures := (textures w)(a \<mapsto> y), nextTexture := n\<rparr>) x = Inr f"
  using assms unfolding internalFormatOr_def
  by (auto split: sum.splits option.splits)

subsection \<open>The colour attachment list\<close>

lemma SetColorAttachment_returns:
  assumes "surfaceUsable w fb"
  shows "\<exists>fb'. SetColorAttachment w fb width height = Inr fb'"
  using assms unfolding SetColorAttachment_def surfaceUsable_def Let_def
  by (auto split: option.splits)

lemma SetColorAttachment_effect:
  assumes "SetColorAttachment w fb width height = Inr fb'"
  shows "mAttachmentColors fb' = (if mAttachmentColors fb = [] then [emptyAttachment] else mAttachmentColors fb)"
    and "fb' = fb\<lparr>mAttachmentColors := mAttachmentColors fb', fbWidth := width, fbHeight := height,
                    mUpdated := True, mSizeUpdated := mSizeUpdated fb'\<rparr>"
    and "mDepthStencilTexture fb' = mDepthStencilTexture fb"
  using assms unfolding SetColorAttachment_def Let_def
  by (auto split: option.splits if_splits)

lemma SetColorAttachments_length:
  "surfaceUsable w fb \<Longrightarrow>
   \<exists>fb'. SetColorAttachments w fb sizes = Inr fb' \<and>
     length (mAttachmentColors fb') = (if sizes = [] then length (mAttachmentColors fb) else max 1 (length (mAttachmentColors fb)))"
proof (induction sizes arbitrary: fb)
  case Nil
  then show ?case by simp
next
  case (Cons p sizes)
  obtain width height where p: "p = (width, height)" by (cases p)
  from SetColorAttachment_returns[OF Cons.prems] obtain fb1 where
    s: "SetColorAttachment w fb width height = Inr fb1" by blast
  have l1: "length (mAttachmentColors fb1) = max 1 (length (mAttachmentColors fb))"
    using SetColorAttachment_effect(1)[OF s] by (cases "mAttachmentColors fb") (auto simp: emptyAttachment_def)
  have "surfaceUsable w fb1"
    using Cons.prems SetColorAttachment_effect(3)[OF s] by (simp add: surfaceUsable_def)
  from Cons.IH[OF this] obtain fb' where
    r: "SetColorAttachments w fb1 sizes = Inr fb'"
       "length (mAttachmentColors fb') = (if sizes = [] then length (mAttachmentColors fb1) else max 1 (length (mAttachmentColors fb1)))"
    by blast
  from r(2) l1 have "length (mAttachmentColors fb') = max 1 (length (mAttachmentColors fb))"
    by (auto split: if_splits)
  with p s r(1) show ?case by simp
qed

text \<open>
  Claim C10. Whenever the pointer to the combined surface is null or live,
  \<open>SetColorAttachment\<close> returns; afterwards the colour attachment list is not empty; an
  empty list has become the list of one empty attachment and a list that was not empty is
  unchanged; only the list, the width, the height and the two dirty flags differ from the
  state before; and any sequence of calls returns, and a list of at most one entry still
  has at most one entry after it.
\<close>

theorem set_color_attachment_list:
  assumes "surfaceUsable w fb"
  shows "\<exists>fb'. SetColorAttachment w fb width height = Inr fb' \<and>
           mAttachmentColors fb' \<noteq> [] \<and>
           (mAttachmentColors fb = [] \<longrightarrow> mAttachmentColors fb' = [emptyAttachment]) \<and>
           (mAttachmentColors fb \<noteq> [] \<longrightarrow> mAttachmentColors fb' = mAttachmentColors fb) \<and>
           fb' = fb\<lparr>mAttachmentColors := mAttachmentColors fb', fbWidth := width, fbHeight := height,
                     mUpdated := True, mSizeUpdated := mSizeUpdated fb'\<rparr> \<and>
           (\<forall>sizes. \<exists>fb''. SetColorAttachments w fb sizes = Inr fb'' \<and>
               (length (mAttachmentColors fb) \<le> 1 \<longrightarrow> length (mAttachmentColors fb'') \<le> 1))"
proof -
  from SetColorAttachment_returns[OF assms] obtain fb' where
    s: "SetColorAttachment w fb width height = Inr fb'" by blast
  note e = SetColorAttachment_effect[OF s]
  have a: "mAttachmentColors fb' \<noteq> []" using e(1) by auto
  have b: "mAttachmentColors fb = [] \<longrightarrow> mAttachmentColors fb' = [emptyAttachment]" using e(1) by simp
  have c: "mAttachmentColors fb \<noteq> [] \<longrightarrow> mAttachmentColors fb' = mAttachmentColors fb" using e(1) by simp
  have d: "\<forall>sizes. \<exists>fb''. SetColorAttachments w fb sizes = Inr fb'' \<and>
               (length (mAttachmentColors fb) \<le> 1 \<longrightarrow> length (mAttachmentColors fb'') \<le> 1)"
  proof
    fix sizes
    from SetColorAttachments_length[OF assms, of sizes] obtain fb'' where
      r: "SetColorAttachments w fb sizes = Inr fb''"
         "length (mAttachmentColors fb'') = (if sizes = [] then length (mAttachmentColors fb) else max 1 (length (mAttachmentColors fb)))"
      by blast
    from r(2) have "length (mAttachmentColors fb) \<le> 1 \<longrightarrow> length (mAttachmentColors fb'') \<le> 1"
      by (auto split: if_splits)
    with r(1) show "\<exists>fb''. SetColorAttachments w fb sizes = Inr fb'' \<and>
               (length (mAttachmentColors fb) \<le> 1 \<longrightarrow> length (mAttachmentColors fb'') \<le> 1)" by blast
  qed
  from s a b c e(2) d show ?thesis by blast
qed

theorem set_color_attachment_list_witness:
  "\<exists>fb'. SetColorAttachment sampleWorld newFramebuffer 256 256 = Inr fb' \<and>
         mAttachmentColors fb' = [emptyAttachment] \<and>
         (\<exists>fb''. SetColorAttachments sampleWorld newFramebuffer [(256, 256), (512, 512), (64, 64)] = Inr fb'' \<and>
                 length (mAttachmentColors fb'') \<le> 1)"
proof -
  have u: "surfaceUsable sampleWorld newFramebuffer"
    by (simp add: surfaceUsable_def newFramebuffer_def)
  have e: "mAttachmentColors newFramebuffer = []" by (simp add: newFramebuffer_def)
  from set_color_attachment_list[OF u, of 256 256] e show ?thesis by (metis list.size(3) zero_le_one)
qed

subsection \<open>Invalidating the cache of a channel\<close>

lemma clean_color:
  "(GetColorAttachmentName fb \<noteq> 0 \<and> GetColorAttachmentType fb = GL_TEXTURE \<longrightarrow>
      mCacheColorTexture (CleanCachedAttachment fb GL_COLOR_ATTACHMENT0) = None) \<and>
   (GetColorAttachmentName fb \<noteq> 0 \<and> GetColorAttachmentType fb = GL_RENDERBUFFER \<longrightarrow>
      mCacheColorRenderbuffer (CleanCachedAttachment fb GL_COLOR_ATTACHMENT0) = None) \<and>
   GetColorAttachmentTexture w (CleanCachedAttachment fb GL_COLOR_ATTACHMENT0) =
     GetColorAttachmentTexture w (clearedColorCache fb)"
  by (auto simp: CleanCachedAttachment_def clearedColorCache_def GetColorAttachmentTexture_def
        GetColorAttachmentName_def GetColorAttachmentType_def GetCurrentBufferIndex_def
        resolveAttachment_def GL_defs split: option.splits)

lemma clean_depth:
  "(GetDepthAttachmentName fb \<noteq> 0 \<and> GetDepthAttachmentType fb = GL_TEXTURE \<longrightarrow>
      mCacheDepthTexture (CleanCachedAttachment fb GL_DEPTH_ATTACHMENT) = None) \<and>
   (GetDepthAttachmentName fb \<noteq> 0 \<and> GetDepthAttachmentType fb = GL_RENDERBUFFER \<longrightarrow>
      mCacheDepthRenderbuffer (CleanCachedAttachment fb GL_DEPTH_ATTACHMENT) = None) \<and>
   GetDepthAttachmentTexture w (CleanCachedAttachment fb GL_DEPTH_ATTACHMENT) =
     GetDepthAttachmentTexture w (clearedDepthCache fb)"
  by (simp add: CleanCachedAttachment_def clearedDepthCache_def GetDepthAttachmentTexture_def
        GetDepthAttachmentName_def GetDepthAttachmentType_def
        resolveAttachment_def GL_defs)

lemma clean_stencil:
  "(GetStencilAttachmentName fb \<noteq> 0 \<and> GetStencilAttachmentType fb = GL_TEXTURE \<longrightarrow>
      mCacheStencilTexture (CleanCachedAttachment fb GL_STENCIL_ATTACHMENT) = None) \<and>
   (GetStencilAttachmentName fb \<noteq> 0 \<and> GetStencilAttachmentType fb = GL_RENDERBUFFER \<longrightarrow>
      mCacheStencilRenderbuffer (CleanCachedAttachment fb GL_STENCIL_ATTACHMENT) = None) \<and>
   GetStencilAttachmentTexture w (CleanCachedAttachment fb GL_STENCIL_ATTACHMENT) =
     GetStencilAttachmentTexture w (clearedStencilCache fb)"
  by (simp add: CleanCachedAttachment_def clearedStencilCache_def GetStencilAttachmentTexture_def
        GetStencilAttachmentName_def GetStencilAttachmentType_def
        resolveAttachment_def GL_defs)

lemma clean_color_exact:
  "(GetColorAttachmentName fb \<noteq> 0 \<and> GetColorAttachmentType fb = GL_TEXTURE \<longrightarrow>
      CleanCachedAttachment fb GL_COLOR_ATTACHMENT0 = fb\<lparr>mCacheColorTexture := None\<rparr>) \<and>
   (GetColorAttachmentName fb \<noteq> 0 \<and> GetColorAttachmentType fb = GL_RENDERBUFFER \<longrightarrow>
      CleanCachedAttachment fb GL_COLOR_ATTACHMENT0 = fb\<lparr>mCacheColorRenderbuffer := None\<rparr>) \<and>
   (GetColorAttachmentName fb = 0 \<or>
    (GetColorAttachmentType fb \<noteq> GL_TEXTURE \<and> GetColorAttachmentType fb \<noteq> GL_RENDERBUFFER) \<longrightarrow>
      CleanCachedAttachment fb GL_COLOR_ATTACHMENT0 = fb)"
  by (simp add: CleanCachedAttachment_def GL_defs)

lemma clean_depth_exact:
  "(GetDepthAttachmentName fb \<noteq> 0 \<and> GetDepthAttachmentType fb = GL_TEXTURE \<longrightarrow>
      CleanCachedAttachment fb GL_DEPTH_ATTACHMENT = fb\<lparr>mCacheDepthTexture := None\<rparr>) \<and>
   (GetDepthAttachmentName fb \<noteq> 0 \<and> GetDepthAttachmentType fb = GL_RENDERBUFFER \<longrightarrow>
      CleanCachedAttachment fb GL_DEPTH_ATTACHMENT = fb\<lparr>mCacheDepthRenderbuffer := None\<rparr>) \<and>
   (GetDepthAttachmentName fb = 0 \<or>
    (GetDepthAttachmentType fb \<noteq> GL_TEXTURE \<and> GetDepthAttachmentType fb \<noteq> GL_RENDERBUFFER) \<longrightarrow>
      CleanCachedAttachment fb GL_DEPTH_ATTACHMENT = fb)"
  by (simp add: CleanCachedAttachment_def GL_defs)

lemma clean_stencil_exact:
  "(GetStencilAttachmentName fb \<noteq> 0 \<and> GetStencilAttachmentType fb = GL_TEXTURE \<longrightarrow>
      CleanCachedAttachment fb GL_STENCIL_ATTACHMENT = fb\<lparr>mCacheStencilTexture := None\<rparr>) \<and>
   (GetStencilAttachmentName fb \<noteq> 0 \<and> GetStencilAttachmentType fb = GL_RENDERBUFFER \<longrightarrow>
      CleanCachedAttachment fb GL_STENCIL_ATTACHMENT = fb\<lparr>mCacheStencilRenderbuffer := None\<rparr>) \<and>
   (GetStencilAttachmentName fb = 0 \<or>
    (GetStencilAttachmentType fb \<noteq> GL_TEXTURE \<and> GetStencilAttachmentType fb \<noteq> GL_RENDERBUFFER) \<longrightarrow>
      CleanCachedAttachment fb GL_STENCIL_ATTACHMENT = fb)"
  by (simp add: CleanCachedAttachment_def GL_defs)

text \<open>
  Claim C9, as the code has it. For every framebuffer state and each of the three channels,
  \<open>CleanCachedAttachment\<close> with the channel's attachment enum changes one field of the
  framebuffer at most. When the attachment has a name other than zero and the type
  \<open>GL_TEXTURE\<close>, the result is the state with the cached texture pointer of the channel
  set to null and everything else, the cached renderbuffer pointer included, as it was;
  when it has a name other than zero and the type \<open>GL_RENDERBUFFER\<close>, the result is the
  state with the cached renderbuffer pointer of the channel set to null and everything
  else, the cached texture pointer included, as it was; when the name is zero or the type
  is neither, the state is unchanged. The resolution of the channel afterwards is the
  resolution in the state where both cached pointers are null: it never returns a cached
  resource.
\<close>

theorem clean_cached_attachment:
  "(GetColorAttachmentName fb \<noteq> 0 \<and> GetColorAttachmentType fb = GL_TEXTURE \<longrightarrow>
      CleanCachedAttachment fb GL_COLOR_ATTACHMENT0 = fb\<lparr>mCacheColorTexture := None\<rparr>) \<and>
   (GetColorAttachmentName fb \<noteq> 0 \<and> GetColorAttachmentType fb = GL_RENDERBUFFER \<longrightarrow>
      CleanCachedAttachment fb GL_COLOR_ATTACHMENT0 = fb\<lparr>mCacheColorRenderbuffer := None\<rparr>) \<and>
   (GetColorAttachmentName fb = 0 \<or>
    (GetColorAttachmentType fb \<noteq> GL_TEXTURE \<and> GetColorAttachmentType fb \<noteq> GL_RENDERBUFFER) \<longrightarrow>
      CleanCachedAttachment fb GL_COLOR_ATTACHMENT0 = fb) \<and>
   GetColorAttachmentTexture w (CleanCachedAttachment fb GL_COLOR_ATTACHMENT0) =
     GetColorAttachmentTexture w (clearedColorCache fb) \<and>
   (GetDepthAttachmentName fb \<noteq> 0 \<and> GetDepthAttachmentType fb = GL_TEXTURE \<longrightarrow>
      CleanCachedAttachment fb GL_DEPTH_ATTACHMENT = fb\<lparr>mCacheDepthTexture := None\<rparr>) \<and>
   (GetDepthAttachmentName fb \<noteq> 0 \<and> GetDepthAttachmentType fb = GL_RENDERBUFFER \<longrightarrow>
      CleanCachedAttachment fb GL_DEPTH_ATTACHMENT = fb\<lparr>mCacheDepthRenderbuffer := None\<rparr>) \<and>
   (GetDepthAttachmentName fb = 0 \<or>
    (GetDepthAttachmentType fb \<noteq> GL_TEXTURE \<and> GetDepthAttachmentType fb \<noteq> GL_RENDERBUFFER) \<longrightarrow>
      CleanCachedAttachment fb GL_DEPTH_ATTACHMENT = fb) \<and>
   GetDepthAttachmentTexture w (CleanCachedAttachment fb GL_DEPTH_ATTACHMENT) =
     GetDepthAttachmentTexture w (clearedDepthCache fb) \<and>
   (GetStencilAttachmentName fb \<noteq> 0 \<and> GetStencilAttachmentType fb = GL_TEXTURE \<longrightarrow>
      CleanCachedAttachment fb GL_STENCIL_ATTACHMENT = fb\<lparr>mCacheStencilTexture := None\<rparr>) \<and>
   (GetStencilAttachmentName fb \<noteq> 0 \<and> GetStencilAttachmentType fb = GL_RENDERBUFFER \<longrightarrow>
      CleanCachedAttachment fb GL_STENCIL_ATTACHMENT = fb\<lparr>mCacheStencilRenderbuffer := None\<rparr>) \<and>
   (GetStencilAttachmentName fb = 0 \<or>
    (GetStencilAttachmentType fb \<noteq> GL_TEXTURE \<and> GetStencilAttachmentType fb \<noteq> GL_RENDERBUFFER) \<longrightarrow>
      CleanCachedAttachment fb GL_STENCIL_ATTACHMENT = fb) \<and>
   GetStencilAttachmentTexture w (CleanCachedAttachment fb GL_STENCIL_ATTACHMENT) =
     GetStencilAttachmentTexture w (clearedStencilCache fb)"
  by (insert clean_color[of fb w] clean_depth[of fb w] clean_stencil[of fb w]
    clean_color_exact[of fb] clean_depth_exact[of fb] clean_stencil_exact[of fb],
    elim conjE, (intro conjI; assumption))

theorem clean_cached_attachment_witness:
  "CleanCachedAttachment staleCacheFramebuffer GL_COLOR_ATTACHMENT0 =
     staleCacheFramebuffer\<lparr>mCacheColorTexture := None\<rparr> \<and>
   mCacheColorTexture (CleanCachedAttachment staleCacheFramebuffer GL_COLOR_ATTACHMENT0) = None \<and>
   mCacheColorRenderbuffer (CleanCachedAttachment staleCacheFramebuffer GL_COLOR_ATTACHMENT0) = Some 20 \<and>
   GetColorAttachmentTexture sampleWorld (CleanCachedAttachment staleCacheFramebuffer GL_COLOR_ATTACHMENT0) = Inr (Some 1)"
proof -
  have n: "GetColorAttachmentName staleCacheFramebuffer \<noteq> 0 \<and> GetColorAttachmentType staleCacheFramebuffer = GL_TEXTURE"
    by (simp add: staleCacheFramebuffer_eval sample_defs getter_defs)
  have l: "GetColorAttachmentTexture sampleWorld (clearedColorCache staleCacheFramebuffer) = Inr (Some 1)"
    by (simp add: clearedColorCache_def staleCacheFramebuffer_eval sample_defs getter_defs GL_defs)
  have r: "mCacheColorRenderbuffer staleCacheFramebuffer = Some 20"
    by (simp add: staleCacheFramebuffer_eval)
  from clean_cached_attachment[of staleCacheFramebuffer sampleWorld] n
  have e: "CleanCachedAttachment staleCacheFramebuffer GL_COLOR_ATTACHMENT0
             = staleCacheFramebuffer\<lparr>mCacheColorTexture := None\<rparr>"
    and g: "GetColorAttachmentTexture sampleWorld (CleanCachedAttachment staleCacheFramebuffer GL_COLOR_ATTACHMENT0) =
     GetColorAttachmentTexture sampleWorld (clearedColorCache staleCacheFramebuffer)"
    by blast+
  have t: "mCacheColorTexture (CleanCachedAttachment staleCacheFramebuffer GL_COLOR_ATTACHMENT0) = None"
    and k: "mCacheColorRenderbuffer (CleanCachedAttachment staleCacheFramebuffer GL_COLOR_ATTACHMENT0) = Some 20"
    using r by (simp_all add: e)
  from e t k g l show ?thesis by simp
qed

text \<open>
  Claim C9 as stated fails: with a colour attachment of type \<open>GL_TEXTURE\<close>, the cached
  renderbuffer pointer of the colour channel is not touched by the invalidation.
\<close>

theorem clean_cached_attachment_counterexample:
  "mCacheColorRenderbuffer (CleanCachedAttachment staleCacheFramebuffer GL_COLOR_ATTACHMENT0) = Some 20"
  by (simp add: CleanCachedAttachment_def staleCacheFramebuffer_eval newFramebuffer_def
       textureAttachment_def GetColorAttachmentName_def GetColorAttachmentType_def GL_defs)

subsection \<open>Completeness: the bad attachment rule comes first\<close>

lemma badAttachment_badBound:
  "badBound w renderable type tex \<Longrightarrow> badAttachment w renderable type tex = Inr True"
  unfolding badBound_def boundTexture_def badAttachment_def deref_def notRenderTarget_def
  by (auto split: sum.splits option.splits)

lemma badAttachment_resolved:
  "resolved w type tex \<Longrightarrow> \<exists>b. badAttachment w renderable type tex = Inr b"
  unfolding resolved_def boundTexture_def badAttachment_def deref_def
  by (auto split: sum.splits option.splits)

lemma CheckStatus_cases:
  assumes "badBound w (GlFormatIsColorRenderable dev) (GetColorAttachmentType fb) (GetColorAttachmentTexture w fb)
         \<or> badBound w (GlFormatIsDepthRenderable dev) (GetDepthAttachmentType fb) (GetDepthAttachmentTexture w fb)
         \<or> badBound w (GlFormatIsStencilRenderable dev) (GetStencilAttachmentType fb) (GetStencilAttachmentTexture w fb)"
  shows "CheckStatus dev w fb = Inr GL_FRAMEBUFFER_INCOMPLETE_ATTACHMENT \<or> (\<exists>e. CheckStatus dev w fb = Inl e)"
proof -
  let ?c = "badAttachment w (GlFormatIsColorRenderable dev) (GetColorAttachmentType fb) (GetColorAttachmentTexture w fb)"
  let ?d = "badAttachment w (GlFormatIsDepthRenderable dev) (GetDepthAttachmentType fb) (GetDepthAttachmentTexture w fb)"
  let ?s = "badAttachment w (GlFormatIsStencilRenderable dev) (GetStencilAttachmentType fb) (GetStencilAttachmentTexture w fb)"
  from assms have some: "\<not> (GetColorAttachmentType fb = GL_NONE \<and> GetDepthAttachmentType fb = GL_NONE
       \<and> GetStencilAttachmentType fb = GL_NONE)"
    unfolding badBound_def by auto
  from assms have t: "?c = Inr True \<or> ?d = Inr True \<or> ?s = Inr True"
    using badAttachment_badBound by blast
  show ?thesis
  proof (cases ?c)
    case (Inl e) with some show ?thesis by (auto simp: CheckStatus_def Let_def)
  next
    case c: (Inr bc)
    show ?thesis
    proof (cases bc)
      case True with c some show ?thesis by (auto simp: CheckStatus_def Let_def)
    next
      case cF: False
      show ?thesis
      proof (cases ?d)
        case (Inl e) with c cF some show ?thesis by (auto simp: CheckStatus_def Let_def)
      next
        case d: (Inr bd)
        show ?thesis
        proof (cases bd)
          case True with c cF d some show ?thesis by (auto simp: CheckStatus_def Let_def)
        next
          case dF: False
          with t c cF d have "?s = Inr True" by simp
          with c cF d dF some show ?thesis by (auto simp: CheckStatus_def Let_def)
        qed
      qed
    qed
  qed
qed

lemma CheckStatus_resolved:
  assumes "resolved w (GetColorAttachmentType fb) (GetColorAttachmentTexture w fb)"
    "resolved w (GetDepthAttachmentType fb) (GetDepthAttachmentTexture w fb)"
    "resolved w (GetStencilAttachmentType fb) (GetStencilAttachmentTexture w fb)"
   and bad: "badBound w (GlFormatIsColorRenderable dev) (GetColorAttachmentType fb) (GetColorAttachmentTexture w fb)
         \<or> badBound w (GlFormatIsDepthRenderable dev) (GetDepthAttachmentType fb) (GetDepthAttachmentTexture w fb)
         \<or> badBound w (GlFormatIsStencilRenderable dev) (GetStencilAttachmentType fb) (GetStencilAttachmentTexture w fb)"
  shows "CheckStatus dev w fb = Inr GL_FRAMEBUFFER_INCOMPLETE_ATTACHMENT"
proof -
  let ?c = "badAttachment w (GlFormatIsColorRenderable dev) (GetColorAttachmentType fb) (GetColorAttachmentTexture w fb)"
  let ?d = "badAttachment w (GlFormatIsDepthRenderable dev) (GetDepthAttachmentType fb) (GetDepthAttachmentTexture w fb)"
  let ?s = "badAttachment w (GlFormatIsStencilRenderable dev) (GetStencilAttachmentType fb) (GetStencilAttachmentTexture w fb)"
  from bad have some: "\<not> (GetColorAttachmentType fb = GL_NONE \<and> GetDepthAttachmentType fb = GL_NONE
       \<and> GetStencilAttachmentType fb = GL_NONE)"
    unfolding badBound_def by auto
  from bad have t: "?c = Inr True \<or> ?d = Inr True \<or> ?s = Inr True"
    using badAttachment_badBound by blast
  obtain bc where c: "?c = Inr bc" using badAttachment_resolved[OF assms(1)] by blast
  obtain bd where d: "?d = Inr bd" using badAttachment_resolved[OF assms(2)] by blast
  obtain bs where s: "?s = Inr bs" using badAttachment_resolved[OF assms(3)] by blast
  from t c d s have "bc \<or> bd \<or> bs" by simp
  with c d s some show ?thesis
    by (cases bc; cases bd; cases bs) (auto simp: CheckStatus_def Let_def)
qed

text \<open>
  Claim C7. When at least one bound attachment has a format that fails its renderability
  predicate, or a width or height that is not positive, \<open>CheckStatus\<close> never returns
  \<open>GL_FRAMEBUFFER_INCOMPLETE_DIMENSIONS\<close>, whatever the dimensions of the attachments; and
  when every attachment that has a type is bound to a live texture, it returns
  \<open>GL_FRAMEBUFFER_INCOMPLETE_ATTACHMENT\<close>.
\<close>

theorem check_status_bad_attachment_first:
  assumes bad:
    "badBound w (GlFormatIsColorRenderable dev) (GetColorAttachmentType fb) (GetColorAttachmentTexture w fb)
     \<or> badBound w (GlFormatIsDepthRenderable dev) (GetDepthAttachmentType fb) (GetDepthAttachmentTexture w fb)
     \<or> badBound w (GlFormatIsStencilRenderable dev) (GetStencilAttachmentType fb) (GetStencilAttachmentTexture w fb)"
  shows "CheckStatus dev w fb \<noteq> Inr GL_FRAMEBUFFER_INCOMPLETE_DIMENSIONS \<and>
         (resolved w (GetColorAttachmentType fb) (GetColorAttachmentTexture w fb) \<and>
          resolved w (GetDepthAttachmentType fb) (GetDepthAttachmentTexture w fb) \<and>
          resolved w (GetStencilAttachmentType fb) (GetStencilAttachmentTexture w fb) \<longrightarrow>
          CheckStatus dev w fb = Inr GL_FRAMEBUFFER_INCOMPLETE_ATTACHMENT)"
proof -
  have ne: "GL_FRAMEBUFFER_INCOMPLETE_ATTACHMENT \<noteq> GL_FRAMEBUFFER_INCOMPLETE_DIMENSIONS"
    by (simp add: GL_defs)
  from CheckStatus_cases[OF bad] ne
  have "CheckStatus dev w fb \<noteq> Inr GL_FRAMEBUFFER_INCOMPLETE_DIMENSIONS" by auto
  moreover have "resolved w (GetColorAttachmentType fb) (GetColorAttachmentTexture w fb) \<and>
          resolved w (GetDepthAttachmentType fb) (GetDepthAttachmentTexture w fb) \<and>
          resolved w (GetStencilAttachmentType fb) (GetStencilAttachmentTexture w fb) \<longrightarrow>
          CheckStatus dev w fb = Inr GL_FRAMEBUFFER_INCOMPLETE_ATTACHMENT"
    using CheckStatus_resolved[OF _ _ _ bad] by blast
  ultimately show ?thesis by (rule conjI)
qed

theorem check_status_bad_attachment_first_witness:
  "CheckStatus (sampleDevice 0) sampleWorld mismatchedFramebuffer = Inr GL_FRAMEBUFFER_INCOMPLETE_ATTACHMENT"
proof -
  have bad: "badBound sampleWorld (GlFormatIsColorRenderable (sampleDevice 0))
        (GetColorAttachmentType mismatchedFramebuffer) (GetColorAttachmentTexture sampleWorld mismatchedFramebuffer)
     \<or> badBound sampleWorld (GlFormatIsDepthRenderable (sampleDevice 0))
        (GetDepthAttachmentType mismatchedFramebuffer) (GetDepthAttachmentTexture sampleWorld mismatchedFramebuffer)
     \<or> badBound sampleWorld (GlFormatIsStencilRenderable (sampleDevice 0))
        (GetStencilAttachmentType mismatchedFramebuffer) (GetStencilAttachmentTexture sampleWorld mismatchedFramebuffer)"
    by (simp add: badBound_def boundTexture_def notRenderTarget_def mismatchedFramebuffer_def
          sample_defs getter_defs GL_defs)
  have res: "resolved sampleWorld (GetColorAttachmentType mismatchedFramebuffer) (GetColorAttachmentTexture sampleWorld mismatchedFramebuffer) \<and>
          resolved sampleWorld (GetDepthAttachmentType mismatchedFramebuffer) (GetDepthAttachmentTexture sampleWorld mismatchedFramebuffer) \<and>
          resolved sampleWorld (GetStencilAttachmentType mismatchedFramebuffer) (GetStencilAttachmentTexture sampleWorld mismatchedFramebuffer)"
    by (simp add: resolved_def boundTexture_def mismatchedFramebuffer_def
          sample_defs getter_defs GL_defs)
  from check_status_bad_attachment_first[OF bad] res show ?thesis by blast
qed

subsection \<open>Rebuilding the per-buffer objects\<close>

lemma CreateLoop_step_ok:
  assumes "i < length (mAttachmentColors fb)" "slotViews w fb i = Some vs"
    "vkCreateFramebuffer dev (vkNext w) vs"
  shows "CreateLoop dev w fb i =
     CreateLoop dev (w\<lparr>vkNext := Suc (vkNext w)\<rparr>) (fb\<lparr>mFramebuffers := mFramebuffers fb @ [vkNext w]\<rparr>) (Suc i)"
  using assms(2,3)
  unfolding slotViews_def
  by (subst CreateLoop.simps) (auto simp: assms(1) Let_def split: sum.splits)

lemma CreateLoop_step_fail:
  assumes "i < length (mAttachmentColors fb)" "slotViews w fb i = Some vs"
    "\<not> vkCreateFramebuffer dev (vkNext w) vs"
  shows "CreateLoop dev w fb i =
     Inr (False, w\<lparr>vkNext := Suc (vkNext w), vkDeleted := vkDeleted w @ [vkNext w]\<rparr>, fb)"
  using assms(2,3)
  unfolding slotViews_def
  by (subst CreateLoop.simps) (auto simp: assms(1) Let_def split: sum.splits)

lemma CreateLoop_stop:
  "\<not> i < length (mAttachmentColors fb) \<Longrightarrow> CreateLoop dev w fb i = Inr (True, w, fb)"
  by (subst CreateLoop.simps) simp

lemma CreateLoop_fail_at:
  "k + n < length (mAttachmentColors fb) \<Longrightarrow>
   (\<forall>j < n. \<exists>vs. slotViews w fb (k + j) = Some vs \<and> vkCreateFramebuffer dev (vkNext w + j) vs) \<Longrightarrow>
   (\<exists>vs. slotViews w fb (k + n) = Some vs \<and> \<not> vkCreateFramebuffer dev (vkNext w + n) vs) \<Longrightarrow>
   CreateLoop dev w fb k =
     Inr (False,
          w\<lparr>vkNext := vkNext w + n + 1, vkDeleted := vkDeleted w @ [vkNext w + n]\<rparr>,
          fb\<lparr>mFramebuffers := mFramebuffers fb @ [vkNext w ..< vkNext w + n]\<rparr>)"
proof (induction n arbitrary: k w fb)
  case 0
  then obtain vs where "slotViews w fb k = Some vs" "\<not> vkCreateFramebuffer dev (vkNext w) vs"
    by auto
  with 0(1) show ?case using CreateLoop_step_fail[of k fb w vs dev] by simp
next
  case (Suc n)
  let ?w1 = "w\<lparr>vkNext := Suc (vkNext w)\<rparr>"
  let ?fb1 = "fb\<lparr>mFramebuffers := mFramebuffers fb @ [vkNext w]\<rparr>"
  from Suc.prems(2)[rule_format, of 0] obtain vs where
    v: "slotViews w fb k = Some vs" "vkCreateFramebuffer dev (vkNext w) vs" by auto
  from Suc.prems(1) have kl: "k < length (mAttachmentColors fb)" by simp
  have step: "CreateLoop dev w fb k = CreateLoop dev ?w1 ?fb1 (Suc k)"
    using CreateLoop_step_ok[OF kl v] .
  have a: "Suc k + n < length (mAttachmentColors ?fb1)" using Suc.prems(1) by simp
  have b: "\<forall>j < n. \<exists>vs. slotViews ?w1 ?fb1 (Suc k + j) = Some vs \<and> vkCreateFramebuffer dev (vkNext ?w1 + j) vs"
  proof (intro allI impI)
    fix j assume "j < n"
    then have "Suc j < Suc n" by simp
    from Suc.prems(2)[rule_format, OF this]
    show "\<exists>vs. slotViews ?w1 ?fb1 (Suc k + j) = Some vs \<and> vkCreateFramebuffer dev (vkNext ?w1 + j) vs"
      by simp
  qed
  have c: "\<exists>vs. slotViews ?w1 ?fb1 (Suc k + n) = Some vs \<and> \<not> vkCreateFramebuffer dev (vkNext ?w1 + n) vs"
    using Suc.prems(3) by simp
  have l: "[vkNext w ..< vkNext w + Suc n] = vkNext w # [Suc (vkNext w) ..< Suc (vkNext w) + n]"
    by (simp add: upt_conv_Cons)
  show ?case
    unfolding step Suc.IH[OF a b c] l by simp
qed

lemma Create_fail_at:
  assumes "i < length (mAttachmentColors fb)"
    "\<forall>j < i. \<exists>vs. slotViews w fb j = Some vs \<and> vkCreateFramebuffer dev (vkNext w + j) vs"
    "\<exists>vs. slotViews w fb i = Some vs \<and> \<not> vkCreateFramebuffer dev (vkNext w + i) vs"
  shows "Create dev w fb =
     Inr (False,
          w\<lparr>vkNext := vkNext w + i + 1, vkDeleted := vkDeleted w @ mFramebuffers fb @ [vkNext w + i]\<rparr>,
          fb\<lparr>mFramebuffers := [vkNext w ..< vkNext w + i]\<rparr>)"
proof -
  let ?w1 = "w\<lparr>vkDeleted := vkDeleted w @ mFramebuffers fb\<rparr>"
  let ?fb1 = "fb\<lparr>mFramebuffers := []\<rparr>"
  have "CreateLoop dev ?w1 ?fb1 0 =
     Inr (False,
          ?w1\<lparr>vkNext := vkNext ?w1 + i + 1, vkDeleted := vkDeleted ?w1 @ [vkNext ?w1 + i]\<rparr>,
          ?fb1\<lparr>mFramebuffers := mFramebuffers ?fb1 @ [vkNext ?w1 ..< vkNext ?w1 + i]\<rparr>)"
    using assms by (intro CreateLoop_fail_at) simp_all
  then show ?thesis by (simp add: Create_def Release_def)
qed

lemma CreateLoop_frame:
  "CreateLoop dev w fb i = Inr (ok, w', fb') \<Longrightarrow>
   fb' = fb\<lparr>mFramebuffers := mFramebuffers fb'\<rparr> \<and>
   w' = w\<lparr>vkNext := vkNext w', vkDeleted := vkDeleted w'\<rparr>"
proof (induction dev w fb i rule: CreateLoop.induct)
  case (1 dev w fb i)
  show ?case
  proof (cases "i < length (mAttachmentColors fb)")
    case False
    with "1.prems" show ?thesis by (simp add: CreateLoop_stop)
  next
    case True
    let ?w1 = "w\<lparr>vkNext := Suc (vkNext w)\<rparr>"
    from True "1.prems" obtain ctex cviews dsviews where
      g: "GetColorAttachmentTextureAt ?w1 fb i = Inr ctex"
         "imageViewOf ?w1 ctex = Inr cviews"
         "imageViewOf ?w1 (mDepthStencilTexture fb) = Inr dsviews"
      by (subst (asm) CreateLoop.simps) (auto simp: Let_def split: sum.splits)
    show ?thesis
    proof (cases "vkCreateFramebuffer dev (vkNext w) (cviews @ dsviews)")
      case False
      with True g "1.prems" show ?thesis
        by (subst (asm) CreateLoop.simps) (auto simp: Let_def)
    next
      case ok: True
      let ?fb1 = "fb\<lparr>mFramebuffers := mFramebuffers fb @ [vkNext w]\<rparr>"
      from True g ok "1.prems" have r: "CreateLoop dev ?w1 ?fb1 (Suc i) = Inr (ok, w', fb')"
        by (subst (asm) CreateLoop.simps) (auto simp: Let_def)
      from ok have nf: "\<not> \<not> vkCreateFramebuffer dev (vkNext w) (cviews @ dsviews)" by simp
      have ih: "fb' = ?fb1\<lparr>mFramebuffers := mFramebuffers fb'\<rparr> \<and>
                w' = ?w1\<lparr>vkNext := vkNext w', vkDeleted := vkDeleted w'\<rparr>"
        using "1.IH"[OF True refl refl g(1) g(2) g(3) nf r] .
      have "fb' = fb\<lparr>mFramebuffers := mFramebuffers fb'\<rparr>"
        by (rule trans[OF ih[THEN conjunct1]]) simp
      moreover have "w' = w\<lparr>vkNext := vkNext w', vkDeleted := vkDeleted w'\<rparr>"
        by (rule trans[OF ih[THEN conjunct2]]) simp
      ultimately show ?thesis by (rule conjI)
    qed
  qed
qed

text \<open>
  Claim C4, as the code has it. When the construction of the lower-level framebuffer object
  fails for colour slot \<open>i\<close>, after succeeding for the slots before it, \<open>Create\<close> stops
  and returns \<open>false\<close>; the objects held before the call have all been released and the
  object that failed has been deleted; \<open>mFramebuffers\<close> holds exactly the \<open>i\<close> objects built
  for the slots before \<open>i\<close> (none when the first slot fails), and nothing else of the
  framebuffer has changed.
\<close>

theorem create_abort_keeps_earlier_slots:
  assumes "i < length (mAttachmentColors fb)"
    and "\<forall>j < i. \<exists>vs. slotViews w fb j = Some vs \<and> vkCreateFramebuffer dev (vkNext w + j) vs"
    and "\<exists>vs. slotViews w fb i = Some vs \<and> \<not> vkCreateFramebuffer dev (vkNext w + i) vs"
  shows "\<exists>w' fb'. Create dev w fb = Inr (False, w', fb') \<and>
           mFramebuffers fb' = [vkNext w ..< vkNext w + i] \<and>
           length (mFramebuffers fb') = i \<and>
           set (mFramebuffers fb) \<subseteq> set (vkDeleted w') \<and>
           vkDeleted w' = vkDeleted w @ mFramebuffers fb @ [vkNext w + i] \<and>
           fb' = fb\<lparr>mFramebuffers := mFramebuffers fb'\<rparr>"
  using Create_fail_at[OF assms] by auto

lemma vkNext_sampleWorld: "vkNext sampleWorld = 10"
  by (simp add: sampleWorld_def)

lemma window_views:
  "slotViews sampleWorld (windowFramebuffer [3, 4, 5]) 0 = Some [3]"
  "slotViews sampleWorld (windowFramebuffer [3, 4, 5]) (Suc 0) = Some [4]"
  "slotViews sampleWorld (windowFramebuffer [3, 4, 5]) 2 = Some [5]"
  by (simp_all add: slotViews_def windowFramebuffer_def GetColorAttachmentTextureAt_def
       imageViewOf_def sample_defs)

theorem create_abort_keeps_earlier_slots_witness:
  "createOutcome (Create (sampleDevice 12) sampleWorld (windowFramebuffer [3, 4, 5])) = Some (False, [10, 11], [7, 8, 12])"
proof -
  have l: "2 < length (mAttachmentColors (windowFramebuffer [3, 4, 5]))"
    by (simp add: windowFramebuffer_def)
  have a: "\<forall>j < 2. \<exists>vs. slotViews sampleWorld (windowFramebuffer [3, 4, 5]) j = Some vs \<and>
             vkCreateFramebuffer (sampleDevice 12) (vkNext sampleWorld + j) vs"
  proof (intro allI impI)
    fix j :: nat assume "j < 2"
    then consider "j = 0" | "j = 1" by linarith
    then show "\<exists>vs. slotViews sampleWorld (windowFramebuffer [3, 4, 5]) j = Some vs \<and>
             vkCreateFramebuffer (sampleDevice 12) (vkNext sampleWorld + j) vs"
      by cases (simp_all add: window_views sampleDevice_def vkNext_sampleWorld)
  qed
  have b: "\<exists>vs. slotViews sampleWorld (windowFramebuffer [3, 4, 5]) 2 = Some vs \<and>
             \<not> vkCreateFramebuffer (sampleDevice 12) (vkNext sampleWorld + 2) vs"
    by (simp add: window_views sampleDevice_def vkNext_sampleWorld)
  from create_abort_keeps_earlier_slots[OF l a b] obtain w' fb' where
    r: "Create (sampleDevice 12) sampleWorld (windowFramebuffer [3, 4, 5]) = Inr (False, w', fb')"
       "mFramebuffers fb' = [vkNext sampleWorld ..< vkNext sampleWorld + 2]"
       "vkDeleted w' = vkDeleted sampleWorld @ mFramebuffers (windowFramebuffer [3, 4, 5]) @ [vkNext sampleWorld + 2]"
    by blast
  have "[vkNext sampleWorld ..< vkNext sampleWorld + 2] = [10, 11]"
    by (simp add: sampleWorld_def upt_conv_Cons)
  with r show ?thesis
    by (simp add: createOutcome_def sampleWorld_def windowFramebuffer_def newFramebuffer_def)
qed

text \<open>
  Claim C4 as stated fails: on a window surface with two colour slots whose second
  construction fails, \<open>Create\<close> returns \<open>false\<close> and the object built for the first slot
  remains in \<open>mFramebuffers\<close>.
\<close>

theorem create_abort_counterexample:
  "createOutcome (Create (sampleDevice 11) sampleWorld (windowFramebuffer [3, 4])) = Some (False, [10], [7, 8, 11])"
  by (simp add: createOutcome_def Create_def Release_def CreateLoop.simps windowFramebuffer_def
       GetColorAttachmentTextureAt_def imageViewOf_def sample_defs Let_def)

subsection \<open>Preparing the render pass twice\<close>

lemma Create_frame:
  assumes "Create dev w fb = Inr (ok, w', fb')"
  shows "fb' = fb\<lparr>mFramebuffers := mFramebuffers fb'\<rparr>"
proof -
  from assms have "CreateLoop dev (w\<lparr>vkDeleted := vkDeleted w @ mFramebuffers fb\<rparr>)
      (fb\<lparr>mFramebuffers := []\<rparr>) 0 = Inr (ok, w', fb')"
    by (simp add: Create_def Release_def)
  from CreateLoop_frame[OF this] have e: "fb' = fb\<lparr>mFramebuffers := []\<rparr>\<lparr>mFramebuffers := mFramebuffers fb'\<rparr>"
    by (rule conjunct1)
  show ?thesis by (rule trans[OF e]) simp
qed

lemma CreateVkRenderPass_effect:
  assumes "CreateVkRenderPass dev w fb cc cd cs wc wd ws = Inr (ok, w', fb')"
  shows "fb' = fb\<lparr>mRenderPass := mRenderPass fb'\<rparr>" "flagsAre fb' cc cd cs wc wd ws"
  using assms unfolding CreateVkRenderPass_def Let_def flagsAre_def
  by (auto split: sum.splits)

lemma allocateDepthStencilTexture_frame:
  assumes "allocateDepthStencilTexture dev w fb = Inr (w', fb')"
  shows "fb' = fb\<lparr>mDepthStencilTexture := mDepthStencilTexture fb'\<rparr>"
  using assms unfolding allocateDepthStencilTexture_def Let_def
  by (auto split: sum.splits option.splits if_splits)

lemma CreateDepthStencilTexture_frame:
  assumes "CreateDepthStencilTexture dev w fb = Inr (w', fb')"
  shows "fb' = fb\<lparr>mDepthStencilTexture := mDepthStencilTexture fb'\<rparr>"
proof -
  have "fb' = fb \<or> (\<exists>ds. fb' = fb\<lparr>mDepthStencilTexture := Some ds\<rparr>) \<or>
        (\<exists>w1. allocateDepthStencilTexture dev w1 (fb\<lparr>mDepthStencilTexture := None\<rparr>) = Inr (w', fb'))"
    using assms unfolding CreateDepthStencilTexture_def
    by (auto split: sum.splits option.splits if_splits bool.splits)
  then consider "fb' = fb" | ds where "fb' = fb\<lparr>mDepthStencilTexture := Some ds\<rparr>"
    | w1 where "allocateDepthStencilTexture dev w1 (fb\<lparr>mDepthStencilTexture := None\<rparr>) = Inr (w', fb')"
    by blast
  then show ?thesis
  proof cases
    case 1 then show ?thesis by simp
  next
    case 2 then show ?thesis by simp
  next
    case 3
    from allocateDepthStencilTexture_frame[OF 3]
    have e: "fb' = fb\<lparr>mDepthStencilTexture := None\<rparr>\<lparr>mDepthStencilTexture := mDepthStencilTexture fb'\<rparr>" .
    show ?thesis by (rule trans[OF e]) simp
  qed
qed

lemma CreateRenderPass_clean:
  assumes r: "CreateRenderPass dev w fb cc cd cs wc wd ws cv dv sv rect = Inr (w1, fb1)"
    and ns: "\<not> (mIsSystem fb \<and> mSizeUpdated fb)"
  shows "\<not> mUpdated fb1 \<and> \<not> mSizeUpdated fb1 \<and> flagsAre fb1 cc cd cs wc wd ws"
proof (cases "mUpdated fb \<or> mSizeUpdated fb \<or> \<not> flagsAre fb cc cd cs wc wd ws")
  case False
  with r have "fb1 = setClearParameters fb cv dv sv rect"
    by (auto simp: CreateRenderPass_def flagsAre_def)
  with False show ?thesis by (auto simp: setClearParameters_def flagsAre_def)
next
  case True
  then have c: "mUpdated fb \<or> mSizeUpdated fb \<or>
         mColorClearEnabled (mRenderPass fb) \<noteq> cc \<or>
         mDepthClearEnabled (mRenderPass fb) \<noteq> cd \<or>
         mStencilClearEnabled (mRenderPass fb) \<noteq> cs \<or>
         mColorWriteEnabled (mRenderPass fb) \<noteq> wc \<or>
         mDepthWriteEnabled (mRenderPass fb) \<noteq> wd \<or>
         mStencilWriteEnabled (mRenderPass fb) \<noteq> ws"
    by (auto simp: flagsAre_def)
  let ?pre = "(if \<not> mIsSystem fb \<and> mSizeUpdated fb
               then (case CreateDepthStencilTexture dev w fb of
                       Inl e \<Rightarrow> Inl e
                     | Inr (w1, fb1) \<Rightarrow> Inr (w1, fb1\<lparr>mSizeUpdated := False\<rparr>))
               else Inr (w, fb))"
  from r c obtain wa fba ok1 wb fbb ok2 wc' fbc where
    p: "?pre = Inr (wa, fba)" and
    v: "CreateVkRenderPass dev wa fba cc cd cs wc wd ws = Inr (ok1, wb, fbb)" and
    k: "Create dev wb fbb = Inr (ok2, wc', fbc)" and
    f: "fb1 = setClearParameters (fbc\<lparr>mUpdated := False\<rparr>) cv dv sv rect"
    unfolding CreateRenderPass_def
    by (simp only: if_True split: sum.splits prod.splits) auto
  have sa: "\<not> mSizeUpdated fba"
  proof (cases "\<not> mIsSystem fb \<and> mSizeUpdated fb")
    case True
    with p show ?thesis by (auto split: sum.splits prod.splits)
  next
    case False
    with p have "fba = fb" by simp
    with False ns show ?thesis by auto
  qed
  note e1 = CreateVkRenderPass_effect[OF v]
  note e2 = Create_frame[OF k]
  have sb: "\<not> mSizeUpdated fbb" using sa e1(1) by (metis Framebuffer.select_convs(2) Framebuffer.surjective Framebuffer.update_convs(16))
  have sc: "\<not> mSizeUpdated fbc \<and> mRenderPass fbc = mRenderPass fbb"
    using sb e2 by (metis Framebuffer.select_convs(2,16) Framebuffer.surjective Framebuffer.update_convs(15))
  with e1(2) f show ?thesis by (simp add: setClearParameters_def flagsAre_def)
qed

text \<open>
  Claim C5, as the code has it. For every framebuffer that is off-screen, or a window
  surface whose size-dirty flag is not set, and every set of the six flags: when
  \<open>CreateRenderPass\<close> has returned, a second call with the same flags returns without any
  rebuild. The store is unchanged, and the per-buffer framebuffer objects, the render-pass
  object and the combined surface are the ones left by the first call, which has cleared
  both dirty flags.
\<close>

theorem prepare_twice_no_rebuild:
  assumes first: "CreateRenderPass dev w fb cc cd cs wc wd ws cv dv sv rect = Inr (w1, fb1)"
    and ns: "\<not> (mIsSystem fb \<and> mSizeUpdated fb)"
  shows "\<exists>fb2. CreateRenderPass dev w1 fb1 cc cd cs wc wd ws cv' dv' sv' rect' = Inr (w1, fb2) \<and>
           mFramebuffers fb2 = mFramebuffers fb1 \<and>
           rpHandle (mRenderPass fb2) = rpHandle (mRenderPass fb1) \<and>
           mDepthStencilTexture fb2 = mDepthStencilTexture fb1 \<and>
           \<not> mUpdated fb1 \<and> \<not> mSizeUpdated fb1"
proof -
  from CreateRenderPass_clean[OF first ns]
  have c: "\<not> mUpdated fb1" "\<not> mSizeUpdated fb1" "flagsAre fb1 cc cd cs wc wd ws" by simp_all
  then have "CreateRenderPass dev w1 fb1 cc cd cs wc wd ws cv' dv' sv' rect'
      = Inr (w1, setClearParameters fb1 cv' dv' sv' rect')"
    by (simp add: CreateRenderPass_def flagsAre_def)
  with c show ?thesis by (simp add: setClearParameters_def)
qed

theorem prepare_twice_no_rebuild_witness:
  "builtObjects (prepare (sampleDevice 0) (Inr (sampleWorld, colorFramebuffer))) = Some ([11], Some 10) \<and>
   builtObjects (prepare (sampleDevice 0) (prepare (sampleDevice 0) (Inr (sampleWorld, colorFramebuffer))))
     = Some ([11], Some 10)"
proof -
  have "\<exists>w1 fb1. CreateRenderPass (sampleDevice 0) sampleWorld colorFramebuffer True True True True True True
          [0, 0, 0, 0] 0 0 sampleRect = Inr (w1, fb1) \<and> mFramebuffers fb1 = [11] \<and> rpHandle (mRenderPass fb1) = Some 10"
    by (simp add: colorFramebuffer_def prepare_defs sample_defs getter_defs GL_defs Let_def)
  then obtain w1 fb1 where
    f: "CreateRenderPass (sampleDevice 0) sampleWorld colorFramebuffer True True True True True True
          [0, 0, 0, 0] 0 0 sampleRect = Inr (w1, fb1)"
       "mFramebuffers fb1 = [11]" "rpHandle (mRenderPass fb1) = Some 10"
    by blast
  have ns: "\<not> (mIsSystem colorFramebuffer \<and> mSizeUpdated colorFramebuffer)"
    by (simp add: colorFramebuffer_def newFramebuffer_def)
  from prepare_twice_no_rebuild[OF f(1) ns, of "[0, 0, 0, 0]" 0 0 sampleRect] obtain fb2 where
    s: "CreateRenderPass (sampleDevice 0) w1 fb1 True True True True True True [0, 0, 0, 0] 0 0 sampleRect = Inr (w1, fb2)"
       "mFramebuffers fb2 = mFramebuffers fb1" "rpHandle (mRenderPass fb2) = rpHandle (mRenderPass fb1)"
    by blast
  from f s show ?thesis by (simp add: builtObjects_def prepare_def)
qed

text \<open>
  Claim C5 as stated fails: \<open>CreateRenderPass\<close> clears the size-dirty flag only for an
  off-screen framebuffer. On a window surface whose size-dirty flag is set, the second call
  with the same flags builds a new render-pass object and a new framebuffer object.
\<close>

theorem prepare_twice_window_counterexample:
  "builtObjects (prepare (sampleDevice 0) (Inr (sampleWorld, staleWindowFramebuffer))) = Some ([11], Some 10) \<and>
   builtObjects (prepare (sampleDevice 0) (prepare (sampleDevice 0) (Inr (sampleWorld, staleWindowFramebuffer))))
     = Some ([13], Some 12)"
  by (simp add: builtObjects_def staleWindowFramebuffer_def windowFramebuffer_def prepare_defs
       sample_defs getter_defs GL_defs Let_def)

subsection \<open>The shared combined depth-stencil surface\<close>

lemma allocate_offscreen:
  assumes off: "\<not> mIsSystem fb"
    and dep: "GetDepthAttachmentTexture w fb = Inr (Some t)"
    and live: "textures w t = Some T"
    and fresh: "textures w (nextTexture w) = None"
    and st: "internalFormatOr w (GetStencilAttachmentTexture w fb) = Inr sf"
  shows "allocateDepthStencilTexture dev w fb =
     Inr (w\<lparr>textures := (textures w)
              (t \<mapsto> T\<lparr>tDepthStencilTexture := Some (nextTexture w)\<rparr>,
               nextTexture w \<mapsto> (combinedSurface dev fb (tInternalFormat T) sf)\<lparr>tDepthStencilTextureRefCount := 1\<rparr>),
            nextTexture := Suc (nextTexture w)\<rparr>,
          fb\<lparr>mDepthStencilTexture := Some (nextTexture w)\<rparr>)"
proof -
  let ?a = "nextTexture w"
  let ?w1 = "w\<lparr>textures := (textures w)(?a \<mapsto> newTexture), nextTexture := Suc ?a\<rparr>"
  let ?fb1 = "fb\<lparr>mDepthStencilTexture := Some ?a\<rparr>"
  from live fresh have ne: "t \<noteq> ?a" by auto
  have d1: "internalFormatOr ?w1 (GetDepthAttachmentTexture ?w1 ?fb1) = Inr (tInternalFormat T)"
    using off dep live ne by (simp add: offscreen_surface_frame internalFormatOr_def)
  have s1: "internalFormatOr ?w1 (GetStencilAttachmentTexture ?w1 ?fb1) = Inr sf"
    using internalFormatOr_fresh[OF fresh st] off by (simp add: offscreen_surface_frame)
  show ?thesis
    unfolding allocateDepthStencilTexture_def Let_def d1 s1
    using off dep live ne
    by (simp add: offscreen_surface_frame IncreaseDepthStencilTextureRefCount_def
          combinedSurface_def newTexture_def fun_upd_twist)
qed

lemma CreateDepthStencilTexture_allocates:
  assumes off: "\<not> mIsSystem fb"
    and none: "mDepthStencilTexture fb = None"
    and dep: "GetDepthAttachmentTexture w fb = Inr (Some t)"
    and live: "textures w t = Some T"
    and unshared: "tDepthStencilTexture T = None"
    and fresh: "textures w (nextTexture w) = None"
    and st: "internalFormatOr w (GetStencilAttachmentTexture w fb) = Inr sf"
  shows "CreateDepthStencilTexture dev w fb =
     Inr (w\<lparr>textures := (textures w)
              (t \<mapsto> T\<lparr>tDepthStencilTexture := Some (nextTexture w)\<rparr>,
               nextTexture w \<mapsto> (combinedSurface dev fb (tInternalFormat T) sf)\<lparr>tDepthStencilTextureRefCount := 1\<rparr>),
            nextTexture := Suc (nextTexture w)\<rparr>,
          fb\<lparr>mDepthStencilTexture := Some (nextTexture w)\<rparr>)"
proof -
  have same: "fb\<lparr>mDepthStencilTexture := None\<rparr> = fb" using none by simp
  have "CreateDepthStencilTexture dev w fb = allocateDepthStencilTexture dev w fb"
    using off none dep live unshared
    by (simp add: CreateDepthStencilTexture_def deref_def same)
  then show ?thesis using allocate_offscreen[OF off dep live fresh st] by simp
qed

lemma CreateDepthStencilTexture_reuses:
  assumes off: "\<not> mIsSystem fb"
    and dep: "GetDepthAttachmentTexture w fb = Inr (Some t)"
    and live: "textures w t = Some T"
    and shared: "tDepthStencilTexture T = Some d"
    and dlive: "textures w d = Some D"
  shows "CreateDepthStencilTexture dev w fb =
     Inr (w\<lparr>textures := (textures w)
              (d \<mapsto> D\<lparr>tDepthStencilTextureRefCount := tDepthStencilTextureRefCount D + 1\<rparr>)\<rparr>,
          fb\<lparr>mDepthStencilTexture := Some d\<rparr>)"
  using assms
  by (simp add: CreateDepthStencilTexture_def deref_def IncreaseDepthStencilTextureRefCount_def)

lemma DestroyFramebuffer_release:
  assumes off: "\<not> mIsSystem fb"
    and held: "mDepthStencilTexture fb = Some d"
    and dlive: "textures w d = Some D"
  shows "DestroyFramebuffer w fb =
     Inr (if tDepthStencilTextureRefCount D - 1 = 0
          then w\<lparr>textures := (textures w)(d := None), deleted := deleted w @ [d],
                 vkDeleted := vkDeleted w @ mFramebuffers fb\<rparr>
          else w\<lparr>textures := (textures w)
                   (d \<mapsto> D\<lparr>tDepthStencilTextureRefCount := tDepthStencilTextureRefCount D - 1\<rparr>),
                 vkDeleted := vkDeleted w @ mFramebuffers fb\<rparr>)"
  using assms
  by (simp add: DestroyFramebuffer_def deleteTexture_def DecreaseDepthStencilTextureRefCount_def
        Release_def)

text \<open>
  The round trip when each framebuffer calls \<open>CreateDepthStencilTexture\<close> once. Two
  off-screen framebuffers have the same depth attachment texture, on which no combined
  surface is recorded yet, and the first holds no surface. Then the call on the first
  allocates the surface and the call on the second takes the same surface, whose reference
  count is then two. Destroying the first framebuffer leaves the surface alive, with
  reference count one and nothing deleted; destroying the second deletes it, once. The
  destructor of an off-screen framebuffer that holds a live surface deletes the surface
  when the decremented count is zero, and stores the decremented count and deletes nothing
  otherwise.
\<close>

lemma nominal_round_trip:
  assumes off1: "\<not> mIsSystem fb1" and off2: "\<not> mIsSystem fb2"
    and none1: "mDepthStencilTexture fb1 = None"
    and dep1: "GetDepthAttachmentTexture w fb1 = Inr (Some t)"
    and dep2: "GetDepthAttachmentTexture w fb2 = Inr (Some t)"
    and live: "textures w t = Some T"
    and unshared: "tDepthStencilTexture T = None"
    and fresh: "textures w (nextTexture w) = None"
    and st: "internalFormatOr w (GetStencilAttachmentTexture w fb1) = Inr sf"
  shows "\<exists>wA fbA wB fbB wC wD.
           CreateDepthStencilTexture dev w fb1 = Inr (wA, fbA) \<and>
           CreateDepthStencilTexture dev wA fb2 = Inr (wB, fbB) \<and>
           mDepthStencilTexture fbA = Some (nextTexture w) \<and>
           mDepthStencilTexture fbB = Some (nextTexture w) \<and>
           refCountOf wB (nextTexture w) = Some 2 \<and>
           DestroyFramebuffer wB fbA = Inr wC \<and>
           refCountOf wC (nextTexture w) = Some 1 \<and>
           deleted wC = deleted w \<and>
           DestroyFramebuffer wC fbB = Inr wD \<and>
           textures wD (nextTexture w) = None \<and>
           deleted wD = deleted w @ [nextTexture w] \<and>
           (\<forall>wr fbr d D. \<not> mIsSystem fbr \<and> mDepthStencilTexture fbr = Some d \<and> textures wr d = Some D \<longrightarrow>
              (\<exists>wr'. DestroyFramebuffer wr fbr = Inr wr' \<and>
                 (if tDepthStencilTextureRefCount D - 1 = 0
                  then textures wr' d = None \<and> deleted wr' = deleted wr @ [d]
                  else refCountOf wr' d = Some (tDepthStencilTextureRefCount D - 1) \<and>
                       deleted wr' = deleted wr)))"
proof -
  let ?d = "nextTexture w"
  let ?D = "(combinedSurface dev fb1 (tInternalFormat T) sf)\<lparr>tDepthStencilTextureRefCount := 1\<rparr>"
  let ?T = "T\<lparr>tDepthStencilTexture := Some ?d\<rparr>"
  let ?wA = "w\<lparr>textures := (textures w)(t \<mapsto> ?T, ?d \<mapsto> ?D), nextTexture := Suc ?d\<rparr>"
  let ?fbA = "fb1\<lparr>mDepthStencilTexture := Some ?d\<rparr>"
  from live fresh have ne: "t \<noteq> ?d" by auto
  have A: "CreateDepthStencilTexture dev w fb1 = Inr (?wA, ?fbA)"
    using CreateDepthStencilTexture_allocates[OF off1 none1 dep1 live unshared fresh st] .
  have depA: "GetDepthAttachmentTexture ?wA fb2 = Inr (Some t)" using dep2 by simp
  have liveA: "textures ?wA t = Some ?T" using ne by simp
  have sharedA: "tDepthStencilTexture ?T = Some ?d" by simp
  have dliveA: "textures ?wA ?d = Some ?D" by simp
  let ?D2 = "?D\<lparr>tDepthStencilTextureRefCount := tDepthStencilTextureRefCount ?D + 1\<rparr>"
  let ?wB = "?wA\<lparr>textures := (textures ?wA)(?d \<mapsto> ?D2)\<rparr>"
  let ?fbB = "fb2\<lparr>mDepthStencilTexture := Some ?d\<rparr>"
  have B: "CreateDepthStencilTexture dev ?wA fb2 = Inr (?wB, ?fbB)"
    using CreateDepthStencilTexture_reuses[OF off2 depA liveA sharedA dliveA] .
  have rcB: "refCountOf ?wB ?d = Some 2" by (simp add: refCountOf_def)
  have offA: "\<not> mIsSystem ?fbA" using off1 by simp
  have offB: "\<not> mIsSystem ?fbB" using off2 by simp
  have heldA: "mDepthStencilTexture ?fbA = Some ?d" by simp
  have heldB: "mDepthStencilTexture ?fbB = Some ?d" by simp
  have dliveB: "textures ?wB ?d = Some ?D2" by simp
  let ?D1 = "?D2\<lparr>tDepthStencilTextureRefCount := tDepthStencilTextureRefCount ?D2 - 1\<rparr>"
  let ?wC = "?wB\<lparr>textures := (textures ?wB)(?d \<mapsto> ?D1), vkDeleted := vkDeleted ?wB @ mFramebuffers ?fbA\<rparr>"
  have C: "DestroyFramebuffer ?wB ?fbA = Inr ?wC"
    using DestroyFramebuffer_release[OF offA heldA dliveB] by simp
  have rcC: "refCountOf ?wC ?d = Some 1" by (simp add: refCountOf_def)
  have delC: "deleted ?wC = deleted w" by simp
  have dliveC: "textures ?wC ?d = Some ?D1" by simp
  let ?wD = "?wC\<lparr>textures := (textures ?wC)(?d := None), deleted := deleted ?wC @ [?d],
                 vkDeleted := vkDeleted ?wC @ mFramebuffers ?fbB\<rparr>"
  have D: "DestroyFramebuffer ?wC ?fbB = Inr ?wD"
    using DestroyFramebuffer_release[OF offB heldB dliveC] by simp
  have goneD: "textures ?wD ?d = None" by simp
  have delD: "deleted ?wD = deleted w @ [?d]" by simp
  have rule: "\<forall>wr fbr d D. \<not> mIsSystem fbr \<and> mDepthStencilTexture fbr = Some d \<and> textures wr d = Some D \<longrightarrow>
              (\<exists>wr'. DestroyFramebuffer wr fbr = Inr wr' \<and>
                 (if tDepthStencilTextureRefCount D - 1 = 0
                  then textures wr' d = None \<and> deleted wr' = deleted wr @ [d]
                  else refCountOf wr' d = Some (tDepthStencilTextureRefCount D - 1) \<and>
                       deleted wr' = deleted wr))"
    by (auto simp: DestroyFramebuffer_release refCountOf_def)
  from A B heldA heldB rcB C rcC delC D goneD delD rule show ?thesis by blast
qed

lemma nominal_round_trip_example:
  "\<exists>wA fbA wB fbB wC wD.
     CreateDepthStencilTexture (sampleDevice 0) sampleWorld depthFramebuffer = Inr (wA, fbA) \<and>
     CreateDepthStencilTexture (sampleDevice 0) wA colorDepthFramebuffer = Inr (wB, fbB) \<and>
     mDepthStencilTexture fbA = Some 100 \<and> mDepthStencilTexture fbB = Some 100 \<and>
     refCountOf wB 100 = Some 2 \<and>
     DestroyFramebuffer wB fbA = Inr wC \<and> refCountOf wC 100 = Some 1 \<and> deleted wC = [] \<and>
     DestroyFramebuffer wC fbB = Inr wD \<and> textures wD 100 = None \<and> deleted wD = [100]"
proof -
  have off1: "\<not> mIsSystem depthFramebuffer" and off2: "\<not> mIsSystem colorDepthFramebuffer"
    and none1: "mDepthStencilTexture depthFramebuffer = None"
    by (simp_all add: depthFramebuffer_def colorDepthFramebuffer_def newFramebuffer_def)
  have dep1: "GetDepthAttachmentTexture sampleWorld depthFramebuffer = Inr (Some 4)"
    and dep2: "GetDepthAttachmentTexture sampleWorld colorDepthFramebuffer = Inr (Some 4)"
    by (simp_all add: depthFramebuffer_def colorDepthFramebuffer_def sample_defs getter_defs GL_defs)
  have live: "textures sampleWorld 4 = Some (sampleTexture 256 256)"
    and fresh: "textures sampleWorld (nextTexture sampleWorld) = None"
    by (simp_all add: sampleWorld_def)
  have unshared: "tDepthStencilTexture (sampleTexture 256 256) = None"
    by (simp add: sampleTexture_def newTexture_def)
  have st: "internalFormatOr sampleWorld (GetStencilAttachmentTexture sampleWorld depthFramebuffer) = Inr GL_INVALID_VALUE"
    by (simp add: internalFormatOr_def depthFramebuffer_def sample_defs getter_defs GL_defs)
  have n: "nextTexture sampleWorld = 100" and d: "deleted sampleWorld = []"
    by (simp_all add: sampleWorld_def)
  show ?thesis
    using nominal_round_trip[OF off1 off2 none1 dep1 dep2 live unshared fresh st, of "sampleDevice 0"]
    unfolding n d append_Nil by blast
qed

subsection \<open>The reference count over a sequence of calls\<close>

lemmas run_defs = attach_def rebindBoth_def statusOf_def destroyBoth_def surfaceLeft_def deletedBy_def
  boundFramebuffer_def depthOnlyFramebuffer_def SetColorAttachment_def CheckForUpdatedResources_def
  CheckStatus_def badAttachment_def dimensionsDiffer_def allocateDepthStencilTexture_def
  internalFormatOr_def deleteTexture_def DestroyFramebuffer_def DecreaseDepthStencilTextureRefCount_def
  surfaceState_def refCountOf_def

lemma holderA1_complete: "statusOf (sampleDevice 0) holderA1 = Inr GL_FRAMEBUFFER_COMPLETE"
  by (simp add: holderA1_def run_defs prepare_defs sample_defs getter_defs GL_defs Let_def)

lemma holderA2_surface: "surfaceState holderA2 = Some (False, 256, 256, Some 100, Some (256, 256, 1), 101)"
  by (simp add: holderA2_def holderA1_def run_defs prepare_defs sample_defs getter_defs GL_defs Let_def)

lemma holderA3_complete: "statusOf (sampleDevice 0) holderA3 = Inr GL_FRAMEBUFFER_COMPLETE"
  by (simp add: holderA3_def holderA2_def holderA1_def run_defs prepare_defs sample_defs getter_defs GL_defs Let_def)

lemma holderA3_surface: "surfaceState holderA3 = Some (True, 512, 512, Some 100, Some (256, 256, 1), 101)"
  by (simp add: holderA3_def holderA2_def holderA1_def run_defs prepare_defs sample_defs getter_defs GL_defs Let_def)

lemma holderA4_complete: "statusOf (sampleDevice 0) holderA4 = Inr GL_FRAMEBUFFER_COMPLETE"
  by (simp add: holderA4_def holderA3_def holderA2_def holderA1_def run_defs prepare_defs sample_defs getter_defs GL_defs Let_def)

lemma holderA4_surface: "surfaceState holderA4 = Some (True, 256, 256, Some 100, Some (256, 256, 1), 101)"
  by (simp add: holderA4_def holderA3_def holderA2_def holderA1_def run_defs prepare_defs sample_defs getter_defs GL_defs Let_def)

lemma holderA5_surface: "surfaceState holderA5 = Some (False, 256, 256, Some 100, Some (256, 256, 2), 101)"
  by (simp add: holderA5_def holderA4_def holderA3_def holderA2_def holderA1_def run_defs prepare_defs sample_defs getter_defs GL_defs Let_def)

lemma holderB1_complete: "statusOf (sampleDevice 0) holderB1 = Inr GL_FRAMEBUFFER_COMPLETE"
  by (simp add: holderB1_def holderA5_def holderA4_def holderA3_def holderA2_def holderA1_def run_defs prepare_defs sample_defs getter_defs GL_defs Let_def)

lemma holderB2_surface: "surfaceState holderB2 = Some (False, 256, 256, Some 100, Some (256, 256, 3), 101)"
  by (simp add: holderB2_def holderB1_def holderA5_def holderA4_def holderA3_def holderA2_def holderA1_def run_defs prepare_defs sample_defs getter_defs GL_defs Let_def)

lemma both_destroyed: "surfaceLeft (destroyBoth holderA5 holderB2) 100 = Some (Some 1, [])"
  by (simp add: holderB2_def holderB1_def holderA5_def holderA4_def holderA3_def holderA2_def holderA1_def run_defs prepare_defs sample_defs getter_defs GL_defs Let_def)

lemma realloc_then_destroy:
  "destroyAfter (CreateDepthStencilTexture (sampleDevice 0) (sharedWorld 2) reboundFramebuffer)
       surfaceFramebuffer = Inl DanglingPointer"
  by (simp add: destroyAfter_def reboundFramebuffer_def surfaceFramebuffer_def CreateDepthStencilTexture_def
        allocateDepthStencilTexture_def internalFormatOr_def deleteTexture_def DestroyFramebuffer_def
        IncreaseDepthStencilTextureRefCount_def sample_defs getter_defs GL_defs Let_def)

lemma grownA_surface: "surfaceState grownA = Some (False, 512, 512, Some 101, Some (512, 512, 1), 102)"
  by (simp add: grownA_def holderA3_def holderA2_def holderA1_def run_defs prepare_defs sample_defs getter_defs GL_defs Let_def)

lemma grownA_deleted: "deletedBy grownA = Some [100]"
  by (simp add: grownA_def holderA3_def holderA2_def holderA1_def run_defs prepare_defs sample_defs getter_defs GL_defs Let_def)

lemma shrunkA_complete: "statusOf (sampleDevice 0) shrunkA = Inr GL_FRAMEBUFFER_COMPLETE"
  by (simp add: shrunkA_def grownA_def holderA3_def holderA2_def holderA1_def run_defs prepare_defs sample_defs getter_defs GL_defs Let_def)

lemma shrunkA_surface: "surfaceState shrunkA = Some (True, 256, 256, Some 101, Some (512, 512, 1), 102)"
  by (simp add: shrunkA_def grownA_def holderA3_def holderA2_def holderA1_def run_defs prepare_defs sample_defs getter_defs GL_defs Let_def)

lemma shrunkA_prepare: "prepare (sampleDevice 0) shrunkA = Inl DanglingPointer"
  by (simp add: shrunkA_def grownA_def holderA3_def holderA2_def holderA1_def run_defs prepare_defs sample_defs getter_defs GL_defs Let_def)

text \<open>
  Claim C2 fails on the code. Framebuffer A (colour texture \<open>1\<close>, depth texture \<open>4\<close>, both
  256 by 256) is complete; its first \<open>CreateRenderPass\<close> allocates the surface \<open>100\<close>,
  recorded on the depth texture, with reference count one. Its attachments are rebound to
  textures of 512 by 512 and then to the textures \<open>1\<close> and \<open>4\<close> again; it is complete in
  both states, and the size-dirty flag is still set. Its next \<open>CreateRenderPass\<close> runs the
  reuse branch of \<open>CreateDepthStencilTexture\<close>: the framebuffer holds the same surface, and
  the count is two. Framebuffer B (depth texture \<open>4\<close>) is complete; its
  \<open>CreateRenderPass\<close> takes the surface \<open>100\<close>, and the count is three. After both
  framebuffers have been destroyed the surface is still alive, with count one, and nothing
  has been deleted. On the other release path, a framebuffer that shares the surface \<open>50\<close>
  (count two) with another one and allocates a new surface deletes \<open>50\<close> at once: the
  destructor of the other framebuffer then reads a deleted surface.
\<close>

theorem shared_surface_never_finalized:
  "statusOf (sampleDevice 0) holderA1 = Inr GL_FRAMEBUFFER_COMPLETE \<and>
   surfaceState holderA2 = Some (False, 256, 256, Some 100, Some (256, 256, 1), 101) \<and>
   statusOf (sampleDevice 0) holderA3 = Inr GL_FRAMEBUFFER_COMPLETE \<and>
   statusOf (sampleDevice 0) holderA4 = Inr GL_FRAMEBUFFER_COMPLETE \<and>
   surfaceState holderA4 = Some (True, 256, 256, Some 100, Some (256, 256, 1), 101) \<and>
   surfaceState holderA5 = Some (False, 256, 256, Some 100, Some (256, 256, 2), 101) \<and>
   statusOf (sampleDevice 0) holderB1 = Inr GL_FRAMEBUFFER_COMPLETE \<and>
   surfaceState holderB2 = Some (False, 256, 256, Some 100, Some (256, 256, 3), 101) \<and>
   surfaceLeft (destroyBoth holderA5 holderB2) 100 = Some (Some 1, []) \<and>
   refCountOf (sharedWorld 2) 50 = Some 2 \<and>
   destroyAfter (CreateDepthStencilTexture (sampleDevice 0) (sharedWorld 2) reboundFramebuffer)
       surfaceFramebuffer = Inl DanglingPointer"
  using holderA1_complete holderA2_surface holderA3_complete holderA4_complete holderA4_surface
    holderA5_surface holderB1_complete holderB2_surface both_destroyed realloc_then_destroy
  by (simp add: refCountOf_def sharedWorld_def)

text \<open>
  Claim C3 fails on the code. A framebuffer holds the surface \<open>50\<close>, whose reference count
  is two because another framebuffer shares it; its depth attachment is now a texture
  with no surface recorded. \<open>CreateDepthStencilTexture\<close> deletes the surface \<open>50\<close>
  without looking at the reference count.
\<close>

theorem realloc_deletes_shared_surface:
  "refCountOf (sharedWorld 2) 50 = Some 2 \<and>
   deletedBy (CreateDepthStencilTexture (sampleDevice 0) (sharedWorld 2) reboundFramebuffer) = Some [50]"
  by (simp add: refCountOf_def deletedBy_def reboundFramebuffer_def CreateDepthStencilTexture_def
        allocateDepthStencilTexture_def internalFormatOr_def deleteTexture_def
        IncreaseDepthStencilTextureRefCount_def sample_defs getter_defs GL_defs Let_def)

subsection \<open>The rebuild after a change of size\<close>

lemma CreateLoop_returns:
  "n = length (mAttachmentColors fb) - i \<Longrightarrow>
   (\<forall>j. i \<le> j \<and> j < length (mAttachmentColors fb) \<longrightarrow> slotViews w fb j \<noteq> None) \<Longrightarrow>
   \<exists>ok w' fb'. CreateLoop dev w fb i = Inr (ok, w', fb')"
proof (induction n arbitrary: i w fb)
  case 0
  then have "\<not> i < length (mAttachmentColors fb)" by simp
  then show ?case using CreateLoop_stop[of i fb dev w] by blast
next
  case (Suc n)
  then have il: "i < length (mAttachmentColors fb)" by simp
  with Suc.prems(2) obtain vs where v: "slotViews w fb i = Some vs" by auto
  show ?case
  proof (cases "vkCreateFramebuffer dev (vkNext w) vs")
    case False
    from CreateLoop_step_fail[OF il v False] show ?thesis by blast
  next
    case True
    let ?w1 = "w\<lparr>vkNext := Suc (vkNext w)\<rparr>"
    let ?fb1 = "fb\<lparr>mFramebuffers := mFramebuffers fb @ [vkNext w]\<rparr>"
    have step: "CreateLoop dev w fb i = CreateLoop dev ?w1 ?fb1 (Suc i)"
      using CreateLoop_step_ok[OF il v True] .
    have a: "n = length (mAttachmentColors ?fb1) - Suc i" using Suc.prems(1) by simp
    have b: "\<forall>j. Suc i \<le> j \<and> j < length (mAttachmentColors ?fb1) \<longrightarrow> slotViews ?w1 ?fb1 j \<noteq> None"
      using Suc.prems(2) by simp
    from Suc.IH[OF a b] show ?thesis unfolding step .
  qed
qed

lemma slotViews_offscreen:
  assumes "\<not> mIsSystem fb" "GetColorAttachmentTexture w fb = Inr (Some c)" "textures w c = Some C"
    "mDepthStencilTexture fb = Some d" "textures w d = Some D"
  shows "slotViews w fb j = Some [c, d]"
  using assms by (simp add: slotViews_def GetColorAttachmentTextureAt_def imageViewOf_def)

lemma rebuild_after_surface:
  assumes off: "\<not> mIsSystem fb"
    and col: "GetColorAttachmentTexture w fb = Inr (Some c)" and clive: "textures w c = Some C"
    and held: "mDepthStencilTexture fb = Some d" and dlive: "textures w d = Some D"
  shows "\<exists>ok1 wb fbb ok2 wk fbc.
     CreateVkRenderPass dev w fb cc cd cs wc wd ws = Inr (ok1, wb, fbb) \<and>
     Create dev wb fbb = Inr (ok2, wk, fbc) \<and>
     textures wk = textures w \<and> nextTexture wk = nextTexture w \<and>
     mDepthStencilTexture fbc = Some d \<and> mSizeUpdated fbc = mSizeUpdated fb \<and>
     fbWidth fbc = fbWidth fb \<and> fbHeight fbc = fbHeight fb \<and>
     rpDepthStencilFormat (mRenderPass fbc) = tVkFormat D \<and>
     rpHandle (mRenderPass fbc) = Some (vkNext w)"
proof -
  let ?wb = "w\<lparr>vkNext := Suc (vkNext w)\<rparr>"
  obtain fbb where
    V: "CreateVkRenderPass dev w fb cc cd cs wc wd ws = Inr (vkCreateRenderPass dev (vkNext w), ?wb, fbb)"
    and fbb: "fbb = fb\<lparr>mRenderPass := mRenderPass fbb\<rparr>"
    and fmt: "rpDepthStencilFormat (mRenderPass fbb) = tVkFormat D"
    and hdl: "rpHandle (mRenderPass fbb) = Some (vkNext w)"
    using col clive held dlive
    by (simp add: CreateVkRenderPass_def vkFormatOr_def Let_def)
  from arg_cong[OF fbb, of mIsSystem] off have offb: "\<not> mIsSystem fbb" by simp
  from arg_cong[OF fbb, of mDepthStencilTexture] held have heldb: "mDepthStencilTexture fbb = Some d" by simp
  from arg_cong[OF fbb, of mSizeUpdated] have sb: "mSizeUpdated fbb = mSizeUpdated fb" by simp
  from arg_cong[OF fbb, of fbWidth] have wb: "fbWidth fbb = fbWidth fb" by simp
  from arg_cong[OF fbb, of fbHeight] have hb: "fbHeight fbb = fbHeight fb" by simp
  have colb: "GetColorAttachmentTexture ?wb fbb = Inr (Some c)"
    by (subst fbb) (simp add: col)
  let ?w0 = "?wb\<lparr>vkDeleted := vkDeleted ?wb @ mFramebuffers fbb\<rparr>"
  let ?fb0 = "fbb\<lparr>mFramebuffers := []\<rparr>"
  have views: "\<forall>j. 0 \<le> j \<and> j < length (mAttachmentColors ?fb0) \<longrightarrow> slotViews ?w0 ?fb0 j \<noteq> None"
  proof (intro allI impI)
    fix j
    have "slotViews ?wb fbb j = Some [c, d]"
      using slotViews_offscreen[OF offb colb _ heldb] clive dlive by simp
    then show "slotViews ?w0 ?fb0 j \<noteq> None" by simp
  qed
  from CreateLoop_returns[OF refl views] obtain ok2 wk fbc where
    L: "CreateLoop dev ?w0 ?fb0 0 = Inr (ok2, wk, fbc)" by blast
  then have K: "Create dev ?wb fbb = Inr (ok2, wk, fbc)" by (simp add: Create_def Release_def)
  from CreateLoop_frame[OF L] have
    efb: "fbc = ?fb0\<lparr>mFramebuffers := mFramebuffers fbc\<rparr>" and
    ew: "wk = ?w0\<lparr>vkNext := vkNext wk, vkDeleted := vkDeleted wk\<rparr>" by simp_all
  from arg_cong[OF ew, of textures] have t: "textures wk = textures w" by simp
  from arg_cong[OF ew, of nextTexture] have n: "nextTexture wk = nextTexture w" by simp
  from arg_cong[OF efb, of mDepthStencilTexture] heldb have h: "mDepthStencilTexture fbc = Some d" by simp
  from arg_cong[OF efb, of mSizeUpdated] sb have s: "mSizeUpdated fbc = mSizeUpdated fb" by simp
  from arg_cong[OF efb, of fbWidth] wb have w': "fbWidth fbc = fbWidth fb" by simp
  from arg_cong[OF efb, of fbHeight] hb have h': "fbHeight fbc = fbHeight fb" by simp
  from arg_cong[OF efb, of mRenderPass] have r: "mRenderPass fbc = mRenderPass fbb" by simp
  from V K t n h s w' h' r fmt hdl show ?thesis by auto
qed

lemma CheckForUpdatedResources_resize:
  assumes col: "GetColorAttachmentTexture w fb = Inr (Some c)" and clive: "textures w c = Some C"
    and diff: "tWidth C \<noteq> fbWidth fb \<or> tHeight C \<noteq> fbHeight fb"
  shows "CheckForUpdatedResources w fb =
     Inr (w\<lparr>textures := (textures w)(c \<mapsto> C\<lparr>tDataUpdated := False\<rparr>)\<rparr>,
          fb\<lparr>mUpdated := (mUpdated fb \<or> tDataUpdated C), fbWidth := tWidth C, fbHeight := tHeight C,
             mSizeUpdated := True\<rparr>)"
  using assms by (auto simp: CheckForUpdatedResources_def Let_def)

lemma resized_getters [simp]:
  "GetColorAttachmentTexture w (fb\<lparr>fbWidth := a\<rparr>) = GetColorAttachmentTexture w fb"
  "GetColorAttachmentTexture w (fb\<lparr>fbHeight := b\<rparr>) = GetColorAttachmentTexture w fb"
  "GetDepthAttachmentTexture w (fb\<lparr>mUpdated := u\<rparr>) = GetDepthAttachmentTexture w fb"
  "GetDepthAttachmentTexture w (fb\<lparr>mSizeUpdated := s\<rparr>) = GetDepthAttachmentTexture w fb"
  "GetDepthAttachmentTexture w (fb\<lparr>fbWidth := a\<rparr>) = GetDepthAttachmentTexture w fb"
  "GetDepthAttachmentTexture w (fb\<lparr>fbHeight := b\<rparr>) = GetDepthAttachmentTexture w fb"
  "GetStencilAttachmentTexture w (fb\<lparr>mUpdated := u\<rparr>) = GetStencilAttachmentTexture w fb"
  "GetStencilAttachmentTexture w (fb\<lparr>mSizeUpdated := s\<rparr>) = GetStencilAttachmentTexture w fb"
  "GetStencilAttachmentTexture w (fb\<lparr>fbWidth := a\<rparr>) = GetStencilAttachmentTexture w fb"
  "GetStencilAttachmentTexture w (fb\<lparr>fbHeight := b\<rparr>) = GetStencilAttachmentTexture w fb"
  by (auto simp: GetColorAttachmentTexture_def GetDepthAttachmentTexture_def
        GetStencilAttachmentTexture_def GetCurrentBufferIndex_def
        GetColorAttachmentName_def GetColorAttachmentType_def
        GetDepthAttachmentName_def GetDepthAttachmentType_def
        GetStencilAttachmentName_def GetStencilAttachmentType_def split: option.splits)

lemma internalFormatOr_apart:
  assumes "apartFromSurface w fb sp"
  shows "\<exists>sf. internalFormatOr w (Inr sp) = Inr sf \<and>
           (\<forall>old. mDepthStencilTexture fb = Some old \<longrightarrow>
              internalFormatOr (w\<lparr>textures := (textures w)(old := None), deleted := dl\<rparr>) (Inr sp) = Inr sf)"
  using assms unfolding apartFromSurface_def internalFormatOr_def
  by (cases sp) auto

lemma CreateDepthStencilTexture_reallocates:
  assumes off: "\<not> mIsSystem fb"
    and dep: "GetDepthAttachmentTexture w fb = Inr (Some t)"
    and live: "textures w t = Some T"
    and tap: "mDepthStencilTexture fb \<noteq> Some t"
    and unshared: "tDepthStencilTexture T = None"
    and usable: "surfaceUsable w fb"
    and fresh: "textures w (nextTexture w) = None"
    and st: "GetStencilAttachmentTexture w fb = Inr sp" and sap: "apartFromSurface w fb sp"
  shows "\<exists>wa S. CreateDepthStencilTexture dev w fb = Inr (wa, fb\<lparr>mDepthStencilTexture := Some (nextTexture w)\<rparr>) \<and>
           textures wa (nextTexture w) = Some S \<and>
           tWidth S = fbWidth fb \<and> tHeight S = fbHeight fb \<and>
           vkNext wa = vkNext w \<and>
           wa = w\<lparr>textures := textures wa, nextTexture := nextTexture wa, deleted := deleted wa\<rparr> \<and>
           (\<forall>a. a \<noteq> nextTexture w \<and> a \<noteq> t \<and> mDepthStencilTexture fb \<noteq> Some a \<longrightarrow>
                textures wa a = textures w a)"
proof (cases "mDepthStencilTexture fb")
  case None
  from internalFormatOr_apart[OF sap] obtain sf where
    sf: "internalFormatOr w (GetStencilAttachmentTexture w fb) = Inr sf" using st by auto
  from CreateDepthStencilTexture_allocates[OF off None dep live unshared fresh sf, of dev]
  show ?thesis using None
    by (auto simp: combinedSurface_def)
next
  case (Some old)
  from usable Some obtain Old where olive: "textures w old = Some Old"
    by (auto simp: surfaceUsable_def)
  from tap Some have ne: "t \<noteq> old" by auto
  let ?w1 = "w\<lparr>textures := (textures w)(old := None), deleted := deleted w @ [old]\<rparr>"
  let ?fb1 = "fb\<lparr>mDepthStencilTexture := None\<rparr>"
  have off1: "\<not> mIsSystem ?fb1" using off by simp
  have dep1: "GetDepthAttachmentTexture ?w1 ?fb1 = Inr (Some t)"
    using off dep by (simp add: offscreen_surface_frame)
  have live1: "textures ?w1 t = Some T" using live ne by simp
  have fresh1: "textures ?w1 (nextTexture ?w1) = None" using fresh by simp
  from internalFormatOr_apart[OF sap, of "deleted w @ [old]"] Some obtain sf where
    "internalFormatOr ?w1 (Inr sp) = Inr sf" by auto
  then have sf1: "internalFormatOr ?w1 (GetStencilAttachmentTexture ?w1 ?fb1) = Inr sf"
    using off st by (simp add: offscreen_surface_frame)
  have "CreateDepthStencilTexture dev w fb = allocateDepthStencilTexture dev ?w1 ?fb1"
    using off dep live unshared Some olive
    by (simp add: CreateDepthStencilTexture_def deref_def deleteTexture_def)
  with allocate_offscreen[OF off1 dep1 live1 fresh1 sf1, of dev]
  show ?thesis using Some
    by (auto simp: combinedSurface_def)
qed

lemma world_frame_getters:
  assumes "wa = w\<lparr>textures := tx, nextTexture := n, deleted := dl\<rparr>"
  shows "GetColorAttachmentTexture wa fb = GetColorAttachmentTexture w fb"
  by (subst assms) simp

text \<open>
  The rebuild after a change of size, for every off-screen framebuffer whose colour and
  depth attachments resolve to live textures other than the surface it holds, when the
  colour texture has other dimensions than the framebuffer. \<open>CheckForUpdatedResources\<close>
  adopts the dimensions of the colour texture and sets the size-dirty flag. When no
  combined surface is recorded on the depth attachment's texture, the following
  \<open>CreateRenderPass\<close> returns with both flags cleared, the framebuffer holds a new surface
  of the adopted dimensions, and the render pass has been built after it, from its format.
  When a live surface is recorded there, the framebuffer takes that surface as it is, with
  its reference count increased by one, and nothing is allocated.
\<close>

lemma resize_rebuilds_surface:
  assumes off: "\<not> mIsSystem fb"
    and col: "GetColorAttachmentTexture w fb = Inr (Some c)" and clive: "textures w c = Some C"
    and cap: "mDepthStencilTexture fb \<noteq> Some c"
    and diff: "tWidth C \<noteq> fbWidth fb \<or> tHeight C \<noteq> fbHeight fb"
    and dep: "GetDepthAttachmentTexture w fb = Inr (Some t)" and tlive: "textures w t = Some T"
    and tap: "mDepthStencilTexture fb \<noteq> Some t" and tc: "t \<noteq> c"
    and st: "GetStencilAttachmentTexture w fb = Inr sp" and sap: "apartFromSurface w fb sp"
    and usable: "surfaceUsable w fb"
    and fresh: "textures w (nextTexture w) = None"
  shows "\<exists>w1 fb1. CheckForUpdatedResources w fb = Inr (w1, fb1) \<and>
           mSizeUpdated fb1 \<and> fbWidth fb1 = tWidth C \<and> fbHeight fb1 = tHeight C \<and>
           (tDepthStencilTexture T = None \<longrightarrow>
              (\<exists>w2 fb2 S. CreateRenderPass dev w1 fb1 cc cd cs wc wd ws cv dv sv rect = Inr (w2, fb2) \<and>
                 \<not> mSizeUpdated fb2 \<and> \<not> mUpdated fb2 \<and>
                 mDepthStencilTexture fb2 = Some (nextTexture w) \<and>
                 textures w2 (nextTexture w) = Some S \<and>
                 tWidth S = tWidth C \<and> tHeight S = tHeight C \<and>
                 rpDepthStencilFormat (mRenderPass fb2) = tVkFormat S \<and>
                 rpHandle (mRenderPass fb2) = Some (vkNext w))) \<and>
           (\<forall>d D. tDepthStencilTexture T = Some d \<and> textures w d = Some D \<and> d \<noteq> c \<longrightarrow>
              (\<exists>w2 fb2. CreateRenderPass dev w1 fb1 cc cd cs wc wd ws cv dv sv rect = Inr (w2, fb2) \<and>
                 \<not> mSizeUpdated fb2 \<and> \<not> mUpdated fb2 \<and>
                 mDepthStencilTexture fb2 = Some d \<and>
                 textures w2 d = Some (D\<lparr>tDepthStencilTextureRefCount := tDepthStencilTextureRefCount D + 1\<rparr>) \<and>
                 nextTexture w2 = nextTexture w \<and>
                 rpDepthStencilFormat (mRenderPass fb2) = tVkFormat D \<and>
                 rpHandle (mRenderPass fb2) = Some (vkNext w)))"
proof -
  let ?C = "C\<lparr>tDataUpdated := False\<rparr>"
  let ?w1 = "w\<lparr>textures := (textures w)(c \<mapsto> ?C)\<rparr>"
  let ?fb1 = "fb\<lparr>mUpdated := (mUpdated fb \<or> tDataUpdated C), fbWidth := tWidth C, fbHeight := tHeight C,
             mSizeUpdated := True\<rparr>"
  have CU: "CheckForUpdatedResources w fb = Inr (?w1, ?fb1)"
    using CheckForUpdatedResources_resize[OF col clive diff] .
  have off1: "\<not> mIsSystem ?fb1" using off by simp
  have su1: "mSizeUpdated ?fb1" by simp
  have col1: "GetColorAttachmentTexture ?w1 ?fb1 = Inr (Some c)"
    using col by simp
  have clive1: "textures ?w1 c = Some ?C" by simp
  have dep1: "GetDepthAttachmentTexture ?w1 ?fb1 = Inr (Some t)"
    using dep by simp
  have tlive1: "textures ?w1 t = Some T" using tlive tc by simp
  have tap1: "mDepthStencilTexture ?fb1 \<noteq> Some t" using tap by simp
  have st1: "GetStencilAttachmentTexture ?w1 ?fb1 = Inr sp"
    using st by simp
  have sap1: "apartFromSurface ?w1 ?fb1 sp"
    using sap by (cases sp) (auto simp: apartFromSurface_def)
  have usable1: "surfaceUsable ?w1 ?fb1"
    using usable by (auto simp: surfaceUsable_def split: option.splits)
  from clive fresh have cn: "c \<noteq> nextTexture w" by auto
  have fresh1: "textures ?w1 (nextTexture ?w1) = None" using fresh cn by simp
  have none_case: "tDepthStencilTexture T = None \<longrightarrow>
              (\<exists>w2 fb2 S. CreateRenderPass dev ?w1 ?fb1 cc cd cs wc wd ws cv dv sv rect = Inr (w2, fb2) \<and>
                 \<not> mSizeUpdated fb2 \<and> \<not> mUpdated fb2 \<and>
                 mDepthStencilTexture fb2 = Some (nextTexture w) \<and>
                 textures w2 (nextTexture w) = Some S \<and>
                 tWidth S = tWidth C \<and> tHeight S = tHeight C \<and>
                 rpDepthStencilFormat (mRenderPass fb2) = tVkFormat S \<and>
                 rpHandle (mRenderPass fb2) = Some (vkNext w))"
  proof
    assume unshared: "tDepthStencilTexture T = None"
    from CreateDepthStencilTexture_reallocates[OF off1 dep1 tlive1 tap1 unshared usable1 fresh1 st1 sap1, where dev=dev]
    obtain wa S where
      A: "CreateDepthStencilTexture dev ?w1 ?fb1 = Inr (wa, ?fb1\<lparr>mDepthStencilTexture := Some (nextTexture w)\<rparr>)"
      and S: "textures wa (nextTexture w) = Some S" "tWidth S = tWidth C" "tHeight S = tHeight C"
      and vk: "vkNext wa = vkNext w"
      and wfr: "wa = ?w1\<lparr>textures := textures wa, nextTexture := nextTexture wa, deleted := deleted wa\<rparr>"
      and keep: "\<forall>a. a \<noteq> nextTexture ?w1 \<and> a \<noteq> t \<and> mDepthStencilTexture ?fb1 \<noteq> Some a \<longrightarrow>
                textures wa a = textures ?w1 a"
      by auto
    let ?fba = "?fb1\<lparr>mDepthStencilTexture := Some (nextTexture w), mSizeUpdated := False\<rparr>"
    have offa: "\<not> mIsSystem ?fba" using off by simp
    have "GetColorAttachmentTexture wa ?fba = GetColorAttachmentTexture ?w1 ?fba"
      using world_frame_getters[OF wfr] .
    then have cola: "GetColorAttachmentTexture wa ?fba = Inr (Some c)"
      using col by simp
    have clivea: "textures wa c = Some ?C"
      using keep[rule_format, of c] cn tc cap by simp
    have helda: "mDepthStencilTexture ?fba = Some (nextTexture w)" by simp
    from rebuild_after_surface[OF offa cola clivea helda S(1), where dev=dev and cc=cc and cd=cd and cs=cs and wc=wc and wd=wd and ws=ws]
    obtain ok1 wb fbb ok2 wc' fbc where
      V: "CreateVkRenderPass dev wa ?fba cc cd cs wc wd ws = Inr (ok1, wb, fbb)" and
      K: "Create dev wb fbb = Inr (ok2, wc', fbc)" and
      r: "textures wc' = textures wa" "mDepthStencilTexture fbc = Some (nextTexture w)"
         "mSizeUpdated fbc = mSizeUpdated ?fba"
         "rpDepthStencilFormat (mRenderPass fbc) = tVkFormat S"
         "rpHandle (mRenderPass fbc) = Some (vkNext wa)"
      by auto
    have "CreateRenderPass dev ?w1 ?fb1 cc cd cs wc wd ws cv dv sv rect =
        Inr (wc', setClearParameters (fbc\<lparr>mUpdated := False\<rparr>) cv dv sv rect)"
      using off A V K by (simp add: CreateRenderPass_def)
    with r S vk show "\<exists>w2 fb2 S. CreateRenderPass dev ?w1 ?fb1 cc cd cs wc wd ws cv dv sv rect = Inr (w2, fb2) \<and>
                 \<not> mSizeUpdated fb2 \<and> \<not> mUpdated fb2 \<and>
                 mDepthStencilTexture fb2 = Some (nextTexture w) \<and>
                 textures w2 (nextTexture w) = Some S \<and>
                 tWidth S = tWidth C \<and> tHeight S = tHeight C \<and>
                 rpDepthStencilFormat (mRenderPass fb2) = tVkFormat S \<and>
                 rpHandle (mRenderPass fb2) = Some (vkNext w)"
      by (simp add: setClearParameters_def)
  qed
  have reuse_case: "\<forall>d D. tDepthStencilTexture T = Some d \<and> textures w d = Some D \<and> d \<noteq> c \<longrightarrow>
              (\<exists>w2 fb2. CreateRenderPass dev ?w1 ?fb1 cc cd cs wc wd ws cv dv sv rect = Inr (w2, fb2) \<and>
                 \<not> mSizeUpdated fb2 \<and> \<not> mUpdated fb2 \<and>
                 mDepthStencilTexture fb2 = Some d \<and>
                 textures w2 d = Some (D\<lparr>tDepthStencilTextureRefCount := tDepthStencilTextureRefCount D + 1\<rparr>) \<and>
                 nextTexture w2 = nextTexture w \<and>
                 rpDepthStencilFormat (mRenderPass fb2) = tVkFormat D \<and>
                 rpHandle (mRenderPass fb2) = Some (vkNext w))"
  proof (intro allI impI)
    fix d D assume a: "tDepthStencilTexture T = Some d \<and> textures w d = Some D \<and> d \<noteq> c"
    let ?D = "D\<lparr>tDepthStencilTextureRefCount := tDepthStencilTextureRefCount D + 1\<rparr>"
    let ?wa = "?w1\<lparr>textures := (textures ?w1)(d \<mapsto> ?D)\<rparr>"
    let ?fba = "?fb1\<lparr>mDepthStencilTexture := Some d, mSizeUpdated := False\<rparr>"
    from a have dlive1: "textures ?w1 d = Some D" by simp
    have A: "CreateDepthStencilTexture dev ?w1 ?fb1 = Inr (?wa, ?fb1\<lparr>mDepthStencilTexture := Some d\<rparr>)"
      using CreateDepthStencilTexture_reuses[OF off1 dep1 tlive1 _ dlive1, where dev=dev] a by simp
    have offa: "\<not> mIsSystem ?fba" using off by simp
    have cola: "GetColorAttachmentTexture ?wa ?fba = Inr (Some c)"
      using col by simp
    have clivea: "textures ?wa c = Some ?C" using a by simp
    have helda: "mDepthStencilTexture ?fba = Some d" by simp
    have dlivea: "textures ?wa d = Some ?D" by simp
    from rebuild_after_surface[OF offa cola clivea helda dlivea, where dev=dev and cc=cc and cd=cd and cs=cs and wc=wc and wd=wd and ws=ws]
    obtain ok1 wb fbb ok2 wc' fbc where
      V: "CreateVkRenderPass dev ?wa ?fba cc cd cs wc wd ws = Inr (ok1, wb, fbb)" and
      K: "Create dev wb fbb = Inr (ok2, wc', fbc)" and
      r: "textures wc' = textures ?wa" "nextTexture wc' = nextTexture ?wa"
         "mDepthStencilTexture fbc = Some d"
         "mSizeUpdated fbc = mSizeUpdated ?fba"
         "rpDepthStencilFormat (mRenderPass fbc) = tVkFormat ?D"
         "rpHandle (mRenderPass fbc) = Some (vkNext ?wa)"
      by auto
    have "CreateRenderPass dev ?w1 ?fb1 cc cd cs wc wd ws cv dv sv rect =
        Inr (wc', setClearParameters (fbc\<lparr>mUpdated := False\<rparr>) cv dv sv rect)"
      using off A V K by (simp add: CreateRenderPass_def)
    with r show "\<exists>w2 fb2. CreateRenderPass dev ?w1 ?fb1 cc cd cs wc wd ws cv dv sv rect = Inr (w2, fb2) \<and>
                 \<not> mSizeUpdated fb2 \<and> \<not> mUpdated fb2 \<and>
                 mDepthStencilTexture fb2 = Some d \<and>
                 textures w2 d = Some ?D \<and>
                 nextTexture w2 = nextTexture w \<and>
                 rpDepthStencilFormat (mRenderPass fb2) = tVkFormat D \<and>
                 rpHandle (mRenderPass fb2) = Some (vkNext w)"
      by (simp add: setClearParameters_def)
  qed
  from CU su1 none_case reuse_case show ?thesis by simp
qed

lemma resize_rebuilds_surface_example:
  "\<exists>w1 fb1 w2 fb2 S.
      CheckForUpdatedResources (sharedWorld 1) reboundResizedFramebuffer = Inr (w1, fb1) \<and>
      fbWidth fb1 = 512 \<and> fbHeight fb1 = 512 \<and>
      CreateRenderPass (sampleDevice 0) w1 fb1 True True True True True True [0, 0, 0, 0] 0 0 sampleRect = Inr (w2, fb2) \<and>
      mDepthStencilTexture fb2 = Some 100 \<and> textures w2 100 = Some S \<and> tWidth S = 512 \<and> tHeight S = 512"
proof -
  have off: "\<not> mIsSystem reboundResizedFramebuffer"
    and cap: "mDepthStencilTexture reboundResizedFramebuffer \<noteq> Some 3"
    and tap: "mDepthStencilTexture reboundResizedFramebuffer \<noteq> Some 5"
    by (simp_all add: reboundResizedFramebuffer_def newFramebuffer_def)
  have col: "GetColorAttachmentTexture (sharedWorld 1) reboundResizedFramebuffer = Inr (Some 3)"
    and dep: "GetDepthAttachmentTexture (sharedWorld 1) reboundResizedFramebuffer = Inr (Some 5)"
    and st: "GetStencilAttachmentTexture (sharedWorld 1) reboundResizedFramebuffer = Inr None"
    by (simp_all add: reboundResizedFramebuffer_def sample_defs getter_defs GL_defs)
  have clive: "textures (sharedWorld 1) 3 = Some (sampleTexture 512 512)"
    and tlive: "textures (sharedWorld 1) 5 = Some (sampleTexture 512 512)"
    and fresh: "textures (sharedWorld 1) (nextTexture (sharedWorld 1)) = None"
    by (simp_all add: sharedWorld_def sampleWorld_def)
  have diff: "tWidth (sampleTexture 512 512) \<noteq> fbWidth reboundResizedFramebuffer \<or>
              tHeight (sampleTexture 512 512) \<noteq> fbHeight reboundResizedFramebuffer"
    by (simp add: reboundResizedFramebuffer_def sampleTexture_def newTexture_def newFramebuffer_def)
  have tc: "(5::nat) \<noteq> 3" by simp
  have sap: "apartFromSurface (sharedWorld 1) reboundResizedFramebuffer None"
    by (simp add: apartFromSurface_def)
  have usable: "surfaceUsable (sharedWorld 1) reboundResizedFramebuffer"
    by (simp add: surfaceUsable_def reboundResizedFramebuffer_def newFramebuffer_def sharedWorld_def sampleWorld_def)
  have none: "tDepthStencilTexture (sampleTexture 512 512) = None"
    by (simp add: sampleTexture_def newTexture_def)
  have n: "nextTexture (sharedWorld 1) = 100" by (simp add: sharedWorld_def sampleWorld_def)
  have d: "tWidth (sampleTexture 512 512) = 512" "tHeight (sampleTexture 512 512) = 512"
    by (simp_all add: sampleTexture_def newTexture_def)
  show ?thesis
    using resize_rebuilds_surface[OF off col clive cap diff dep tlive tap tc st sap usable fresh,
        where dev="sampleDevice 0" and cc=True and cd=True and cs=True and wc=True and wd=True and ws=True
          and cv="[0, 0, 0, 0]" and dv=0 and sv=0 and rect=sampleRect] none
    unfolding n d by blast
qed

text \<open>
  Claim C6 fails on the code. Framebuffer A (colour texture \<open>1\<close>, depth texture \<open>4\<close>, both
  256 by 256) holds the surface \<open>100\<close> of 256 by 256, recorded on the depth texture \<open>4\<close>.
  Its colour and depth attachments are replaced by the textures \<open>3\<close> and \<open>5\<close> of 512 by
  512: the framebuffer is complete, the size-dirty flag is set, and \<open>CreateRenderPass\<close>
  deletes the surface \<open>100\<close> and allocates the surface \<open>101\<close> of 512 by 512, as the claim
  says. The attachments are then replaced by the textures \<open>1\<close> and \<open>4\<close> of 256 by 256:
  the framebuffer is complete, \<open>CheckForUpdatedResources\<close> adopts 256 by 256 and sets the
  size-dirty flag, and the framebuffer holds the surface \<open>101\<close> of 512 by 512. The next
  \<open>CreateRenderPass\<close> builds no surface of 256 by 256: the reuse branch of
  \<open>CreateDepthStencilTexture\<close> reads the record left on the texture \<open>4\<close>, which names the
  deleted surface \<open>100\<close>, and increases the reference count of a deleted object.
\<close>

theorem resize_reuses_deleted_surface:
  "surfaceState holderA2 = Some (False, 256, 256, Some 100, Some (256, 256, 1), 101) \<and>
   statusOf (sampleDevice 0) holderA3 = Inr GL_FRAMEBUFFER_COMPLETE \<and>
   surfaceState holderA3 = Some (True, 512, 512, Some 100, Some (256, 256, 1), 101) \<and>
   surfaceState grownA = Some (False, 512, 512, Some 101, Some (512, 512, 1), 102) \<and>
   deletedBy grownA = Some [100] \<and>
   statusOf (sampleDevice 0) shrunkA = Inr GL_FRAMEBUFFER_COMPLETE \<and>
   surfaceState shrunkA = Some (True, 256, 256, Some 101, Some (512, 512, 1), 102) \<and>
   prepare (sampleDevice 0) shrunkA = Inl DanglingPointer"
  using holderA2_surface holderA3_complete holderA3_surface grownA_surface grownA_deleted
    shrunkA_complete shrunkA_surface shrunkA_prepare
  by simp

end
